theory Spec2Isabelle
  imports Complex_Main
begin

section \<open>Strings\<close>

text \<open>
  A Python \<open>str\<close> is a sequence of Unicode code points; it is modelled as the list of its
  code points. \<open>asc\<close> turns an ASCII literal into such a list.

  The methods \<open>str.strip\<close>, \<open>str.lower\<close> and \<open>str.upper\<close> and the classes \<open>\s\<close> and \<open>\w\<close> of
  \<open>re\<close> work on all of Unicode, by the character tables of the interpreter. The tables
  below are those of CPython 3.11 (Unicode 14.0.0): the code points with \<open>str.isspace\<close>,
  those with \<open>str.isalnum\<close>, the lowercase and uppercase mappings of the code points that
  have one, and the two properties that decide the lowercase form of the capital sigma.
  \<open>\s\<close> is \<open>str.isspace\<close>, and \<open>\w\<close> is \<open>str.isalnum\<close> or the underscore. The ASCII part
  of a table is written as a formula, the rest in blocks of ascending entries.
\<close>

type_synonym str = "nat list"

definition asc :: "string \<Rightarrow> str" where
  "asc s = map of_char s"

text \<open>A table of ranges and a table of pairs, both ascending; the search stops at the first
  entry beyond the code point.\<close>

fun in_ranges :: "nat \<Rightarrow> (nat \<times> nat) list \<Rightarrow> bool" where
  "in_ranges c [] = False"
| "in_ranges c ((lo, hi) # rs) =
     (if c < lo then False else if c \<le> hi then True else in_ranges c rs)"

fun table_lookup :: "nat \<Rightarrow> (nat \<times> 'a) list \<Rightarrow> 'a option" where
  "table_lookup c [] = None"
| "table_lookup c ((k, v) # kvs) =
     (if c < k then None else if c = k then Some v else table_lookup c kvs)"

definition space_ranges :: "(nat \<times> nat) list" where
  "space_ranges =
    [(9, 13), (28, 32), (133, 133), (160, 160), (5760, 5760), (8192, 8202), (8232, 8233),
     (8239, 8239), (8287, 8287), (12288, 12288)]"

text \<open>\<open>str.isspace\<close>.\<close>

definition isspace :: "nat \<Rightarrow> bool" where
  "isspace c = in_ranges c space_ranges"

text \<open>\<open>str.isalnum\<close>: the ranges above ASCII, then the function.\<close>

definition alnum_ranges_1 :: "(nat \<times> nat) list" where
  "alnum_ranges_1 =
    [(170, 170), (178, 179), (181, 181), (185, 186), (188, 190), (192, 214), (216, 246),
     (248, 705), (710, 721), (736, 740), (748, 748), (750, 750), (880, 884), (886, 887),
     (890, 893), (895, 895), (902, 902), (904, 906), (908, 908), (910, 929), (931, 1013),
     (1015, 1153), (1162, 1327), (1329, 1366), (1369, 1369), (1376, 1416), (1488, 1514),
     (1519, 1522), (1568, 1610), (1632, 1641), (1646, 1647), (1649, 1747)]"

definition alnum_ranges_2 :: "(nat \<times> nat) list" where
  "alnum_ranges_2 =
    [(1749, 1749), (1765, 1766), (1774, 1788), (1791, 1791), (1808, 1808), (1810, 1839),
     (1869, 1957), (1969, 1969), (1984, 2026), (2036, 2037), (2042, 2042), (2048, 2069),
     (2074, 2074), (2084, 2084), (2088, 2088), (2112, 2136), (2144, 2154), (2160, 2183),
     (2185, 2190), (2208, 2249), (2308, 2361), (2365, 2365), (2384, 2384), (2392, 2401),
     (2406, 2415), (2417, 2432), (2437, 2444), (2447, 2448), (2451, 2472), (2474, 2480),
     (2482, 2482), (2486, 2489)]"

definition alnum_ranges_3 :: "(nat \<times> nat) list" where
  "alnum_ranges_3 =
    [(2493, 2493), (2510, 2510), (2524, 2525), (2527, 2529), (2534, 2545), (2548, 2553),
     (2556, 2556), (2565, 2570), (2575, 2576), (2579, 2600), (2602, 2608), (2610, 2611),
     (2613, 2614), (2616, 2617), (2649, 2652), (2654, 2654), (2662, 2671), (2674, 2676),
     (2693, 2701), (2703, 2705), (2707, 2728), (2730, 2736), (2738, 2739), (2741, 2745),
     (2749, 2749), (2768, 2768), (2784, 2785), (2790, 2799), (2809, 2809), (2821, 2828),
     (2831, 2832), (2835, 2856)]"

definition alnum_ranges_4 :: "(nat \<times> nat) list" where
  "alnum_ranges_4 =
    [(2858, 2864), (2866, 2867), (2869, 2873), (2877, 2877), (2908, 2909), (2911, 2913),
     (2918, 2927), (2929, 2935), (2947, 2947), (2949, 2954), (2958, 2960), (2962, 2965),
     (2969, 2970), (2972, 2972), (2974, 2975), (2979, 2980), (2984, 2986), (2990, 3001),
     (3024, 3024), (3046, 3058), (3077, 3084), (3086, 3088), (3090, 3112), (3114, 3129),
     (3133, 3133), (3160, 3162), (3165, 3165), (3168, 3169), (3174, 3183), (3192, 3198),
     (3200, 3200), (3205, 3212)]"

definition alnum_ranges_5 :: "(nat \<times> nat) list" where
  "alnum_ranges_5 =
    [(3214, 3216), (3218, 3240), (3242, 3251), (3253, 3257), (3261, 3261), (3293, 3294),
     (3296, 3297), (3302, 3311), (3313, 3314), (3332, 3340), (3342, 3344), (3346, 3386),
     (3389, 3389), (3406, 3406), (3412, 3414), (3416, 3425), (3430, 3448), (3450, 3455),
     (3461, 3478), (3482, 3505), (3507, 3515), (3517, 3517), (3520, 3526), (3558, 3567),
     (3585, 3632), (3634, 3635), (3648, 3654), (3664, 3673), (3713, 3714), (3716, 3716),
     (3718, 3722), (3724, 3747)]"

definition alnum_ranges_6 :: "(nat \<times> nat) list" where
  "alnum_ranges_6 =
    [(3749, 3749), (3751, 3760), (3762, 3763), (3773, 3773), (3776, 3780), (3782, 3782),
     (3792, 3801), (3804, 3807), (3840, 3840), (3872, 3891), (3904, 3911), (3913, 3948),
     (3976, 3980), (4096, 4138), (4159, 4169), (4176, 4181), (4186, 4189), (4193, 4193),
     (4197, 4198), (4206, 4208), (4213, 4225), (4238, 4238), (4240, 4249), (4256, 4293),
     (4295, 4295), (4301, 4301), (4304, 4346), (4348, 4680), (4682, 4685), (4688, 4694),
     (4696, 4696), (4698, 4701)]"

definition alnum_ranges_7 :: "(nat \<times> nat) list" where
  "alnum_ranges_7 =
    [(4704, 4744), (4746, 4749), (4752, 4784), (4786, 4789), (4792, 4798), (4800, 4800),
     (4802, 4805), (4808, 4822), (4824, 4880), (4882, 4885), (4888, 4954), (4969, 4988),
     (4992, 5007), (5024, 5109), (5112, 5117), (5121, 5740), (5743, 5759), (5761, 5786),
     (5792, 5866), (5870, 5880), (5888, 5905), (5919, 5937), (5952, 5969), (5984, 5996),
     (5998, 6000), (6016, 6067), (6103, 6103), (6108, 6108), (6112, 6121), (6128, 6137),
     (6160, 6169), (6176, 6264)]"

definition alnum_ranges_8 :: "(nat \<times> nat) list" where
  "alnum_ranges_8 =
    [(6272, 6276), (6279, 6312), (6314, 6314), (6320, 6389), (6400, 6430), (6470, 6509),
     (6512, 6516), (6528, 6571), (6576, 6601), (6608, 6618), (6656, 6678), (6688, 6740),
     (6784, 6793), (6800, 6809), (6823, 6823), (6917, 6963), (6981, 6988), (6992, 7001),
     (7043, 7072), (7086, 7141), (7168, 7203), (7232, 7241), (7245, 7293), (7296, 7304),
     (7312, 7354), (7357, 7359), (7401, 7404), (7406, 7411), (7413, 7414), (7418, 7418),
     (7424, 7615), (7680, 7957)]"

definition alnum_ranges_9 :: "(nat \<times> nat) list" where
  "alnum_ranges_9 =
    [(7960, 7965), (7968, 8005), (8008, 8013), (8016, 8023), (8025, 8025), (8027, 8027),
     (8029, 8029), (8031, 8061), (8064, 8116), (8118, 8124), (8126, 8126), (8130, 8132),
     (8134, 8140), (8144, 8147), (8150, 8155), (8160, 8172), (8178, 8180), (8182, 8188),
     (8304, 8305), (8308, 8313), (8319, 8329), (8336, 8348), (8450, 8450), (8455, 8455),
     (8458, 8467), (8469, 8469), (8473, 8477), (8484, 8484), (8486, 8486), (8488, 8488),
     (8490, 8493), (8495, 8505)]"

definition alnum_ranges_10 :: "(nat \<times> nat) list" where
  "alnum_ranges_10 =
    [(8508, 8511), (8517, 8521), (8526, 8526), (8528, 8585), (9312, 9371), (9450, 9471),
     (10102, 10131), (11264, 11492), (11499, 11502), (11506, 11507), (11517, 11517),
     (11520, 11557), (11559, 11559), (11565, 11565), (11568, 11623), (11631, 11631),
     (11648, 11670), (11680, 11686), (11688, 11694), (11696, 11702), (11704, 11710),
     (11712, 11718), (11720, 11726), (11728, 11734), (11736, 11742), (11823, 11823),
     (12293, 12295), (12321, 12329), (12337, 12341), (12344, 12348), (12353, 12438),
     (12445, 12447)]"

definition alnum_ranges_11 :: "(nat \<times> nat) list" where
  "alnum_ranges_11 =
    [(12449, 12538), (12540, 12543), (12549, 12591), (12593, 12686), (12690, 12693),
     (12704, 12735), (12784, 12799), (12832, 12841), (12872, 12879), (12881, 12895),
     (12928, 12937), (12977, 12991), (13312, 19903), (19968, 42124), (42192, 42237),
     (42240, 42508), (42512, 42539), (42560, 42606), (42623, 42653), (42656, 42735),
     (42775, 42783), (42786, 42888), (42891, 42954), (42960, 42961), (42963, 42963),
     (42965, 42969), (42994, 43009), (43011, 43013), (43015, 43018), (43020, 43042),
     (43056, 43061), (43072, 43123)]"

definition alnum_ranges_12 :: "(nat \<times> nat) list" where
  "alnum_ranges_12 =
    [(43138, 43187), (43216, 43225), (43250, 43255), (43259, 43259), (43261, 43262),
     (43264, 43301), (43312, 43334), (43360, 43388), (43396, 43442), (43471, 43481),
     (43488, 43492), (43494, 43518), (43520, 43560), (43584, 43586), (43588, 43595),
     (43600, 43609), (43616, 43638), (43642, 43642), (43646, 43695), (43697, 43697),
     (43701, 43702), (43705, 43709), (43712, 43712), (43714, 43714), (43739, 43741),
     (43744, 43754), (43762, 43764), (43777, 43782), (43785, 43790), (43793, 43798),
     (43808, 43814), (43816, 43822)]"

definition alnum_ranges_13 :: "(nat \<times> nat) list" where
  "alnum_ranges_13 =
    [(43824, 43866), (43868, 43881), (43888, 44002), (44016, 44025), (44032, 55203),
     (55216, 55238), (55243, 55291), (63744, 64109), (64112, 64217), (64256, 64262),
     (64275, 64279), (64285, 64285), (64287, 64296), (64298, 64310), (64312, 64316),
     (64318, 64318), (64320, 64321), (64323, 64324), (64326, 64433), (64467, 64829),
     (64848, 64911), (64914, 64967), (65008, 65019), (65136, 65140), (65142, 65276),
     (65296, 65305), (65313, 65338), (65345, 65370), (65382, 65470), (65474, 65479),
     (65482, 65487), (65490, 65495)]"

definition alnum_ranges_14 :: "(nat \<times> nat) list" where
  "alnum_ranges_14 =
    [(65498, 65500), (65536, 65547), (65549, 65574), (65576, 65594), (65596, 65597),
     (65599, 65613), (65616, 65629), (65664, 65786), (65799, 65843), (65856, 65912),
     (65930, 65931), (66176, 66204), (66208, 66256), (66273, 66299), (66304, 66339),
     (66349, 66378), (66384, 66421), (66432, 66461), (66464, 66499), (66504, 66511),
     (66513, 66517), (66560, 66717), (66720, 66729), (66736, 66771), (66776, 66811),
     (66816, 66855), (66864, 66915), (66928, 66938), (66940, 66954), (66956, 66962),
     (66964, 66965), (66967, 66977)]"

definition alnum_ranges_15 :: "(nat \<times> nat) list" where
  "alnum_ranges_15 =
    [(66979, 66993), (66995, 67001), (67003, 67004), (67072, 67382), (67392, 67413),
     (67424, 67431), (67456, 67461), (67463, 67504), (67506, 67514), (67584, 67589),
     (67592, 67592), (67594, 67637), (67639, 67640), (67644, 67644), (67647, 67669),
     (67672, 67702), (67705, 67742), (67751, 67759), (67808, 67826), (67828, 67829),
     (67835, 67867), (67872, 67897), (67968, 68023), (68028, 68047), (68050, 68096),
     (68112, 68115), (68117, 68119), (68121, 68149), (68160, 68168), (68192, 68222),
     (68224, 68255), (68288, 68295)]"

definition alnum_ranges_16 :: "(nat \<times> nat) list" where
  "alnum_ranges_16 =
    [(68297, 68324), (68331, 68335), (68352, 68405), (68416, 68437), (68440, 68466),
     (68472, 68497), (68521, 68527), (68608, 68680), (68736, 68786), (68800, 68850),
     (68858, 68899), (68912, 68921), (69216, 69246), (69248, 69289), (69296, 69297),
     (69376, 69415), (69424, 69445), (69457, 69460), (69488, 69505), (69552, 69579),
     (69600, 69622), (69635, 69687), (69714, 69743), (69745, 69746), (69749, 69749),
     (69763, 69807), (69840, 69864), (69872, 69881), (69891, 69926), (69942, 69951),
     (69956, 69956), (69959, 69959)]"

definition alnum_ranges_17 :: "(nat \<times> nat) list" where
  "alnum_ranges_17 =
    [(69968, 70002), (70006, 70006), (70019, 70066), (70081, 70084), (70096, 70106),
     (70108, 70108), (70113, 70132), (70144, 70161), (70163, 70187), (70272, 70278),
     (70280, 70280), (70282, 70285), (70287, 70301), (70303, 70312), (70320, 70366),
     (70384, 70393), (70405, 70412), (70415, 70416), (70419, 70440), (70442, 70448),
     (70450, 70451), (70453, 70457), (70461, 70461), (70480, 70480), (70493, 70497),
     (70656, 70708), (70727, 70730), (70736, 70745), (70751, 70753), (70784, 70831),
     (70852, 70853), (70855, 70855)]"

definition alnum_ranges_18 :: "(nat \<times> nat) list" where
  "alnum_ranges_18 =
    [(70864, 70873), (71040, 71086), (71128, 71131), (71168, 71215), (71236, 71236),
     (71248, 71257), (71296, 71338), (71352, 71352), (71360, 71369), (71424, 71450),
     (71472, 71483), (71488, 71494), (71680, 71723), (71840, 71922), (71935, 71942),
     (71945, 71945), (71948, 71955), (71957, 71958), (71960, 71983), (71999, 71999),
     (72001, 72001), (72016, 72025), (72096, 72103), (72106, 72144), (72161, 72161),
     (72163, 72163), (72192, 72192), (72203, 72242), (72250, 72250), (72272, 72272),
     (72284, 72329), (72349, 72349)]"

definition alnum_ranges_19 :: "(nat \<times> nat) list" where
  "alnum_ranges_19 =
    [(72368, 72440), (72704, 72712), (72714, 72750), (72768, 72768), (72784, 72812),
     (72818, 72847), (72960, 72966), (72968, 72969), (72971, 73008), (73030, 73030),
     (73040, 73049), (73056, 73061), (73063, 73064), (73066, 73097), (73112, 73112),
     (73120, 73129), (73440, 73458), (73648, 73648), (73664, 73684), (73728, 74649),
     (74752, 74862), (74880, 75075), (77712, 77808), (77824, 78894), (82944, 83526),
     (92160, 92728), (92736, 92766), (92768, 92777), (92784, 92862), (92864, 92873),
     (92880, 92909), (92928, 92975)]"

definition alnum_ranges_20 :: "(nat \<times> nat) list" where
  "alnum_ranges_20 =
    [(92992, 92995), (93008, 93017), (93019, 93025), (93027, 93047), (93053, 93071),
     (93760, 93846), (93952, 94026), (94032, 94032), (94099, 94111), (94176, 94177),
     (94179, 94179), (94208, 100343), (100352, 101589), (101632, 101640), (110576, 110579),
     (110581, 110587), (110589, 110590), (110592, 110882), (110928, 110930), (110948, 110951),
     (110960, 111355), (113664, 113770), (113776, 113788), (113792, 113800), (113808, 113817),
     (119520, 119539), (119648, 119672), (119808, 119892), (119894, 119964), (119966, 119967),
     (119970, 119970), (119973, 119974)]"

definition alnum_ranges_21 :: "(nat \<times> nat) list" where
  "alnum_ranges_21 =
    [(119977, 119980), (119982, 119993), (119995, 119995), (119997, 120003), (120005, 120069),
     (120071, 120074), (120077, 120084), (120086, 120092), (120094, 120121), (120123, 120126),
     (120128, 120132), (120134, 120134), (120138, 120144), (120146, 120485), (120488, 120512),
     (120514, 120538), (120540, 120570), (120572, 120596), (120598, 120628), (120630, 120654),
     (120656, 120686), (120688, 120712), (120714, 120744), (120746, 120770), (120772, 120779),
     (120782, 120831), (122624, 122654), (123136, 123180), (123191, 123197), (123200, 123209),
     (123214, 123214), (123536, 123565)]"

definition alnum_ranges_22 :: "(nat \<times> nat) list" where
  "alnum_ranges_22 =
    [(123584, 123627), (123632, 123641), (124896, 124902), (124904, 124907), (124909, 124910),
     (124912, 124926), (124928, 125124), (125127, 125135), (125184, 125251), (125259, 125259),
     (125264, 125273), (126065, 126123), (126125, 126127), (126129, 126132), (126209, 126253),
     (126255, 126269), (126464, 126467), (126469, 126495), (126497, 126498), (126500, 126500),
     (126503, 126503), (126505, 126514), (126516, 126519), (126521, 126521), (126523, 126523),
     (126530, 126530), (126535, 126535), (126537, 126537), (126539, 126539), (126541, 126543),
     (126545, 126546), (126548, 126548)]"

definition alnum_ranges_23 :: "(nat \<times> nat) list" where
  "alnum_ranges_23 =
    [(126551, 126551), (126553, 126553), (126555, 126555), (126557, 126557), (126559, 126559),
     (126561, 126562), (126564, 126564), (126567, 126570), (126572, 126578), (126580, 126583),
     (126585, 126588), (126590, 126590), (126592, 126601), (126603, 126619), (126625, 126627),
     (126629, 126633), (126635, 126651), (127232, 127244), (130032, 130041), (131072, 173791),
     (173824, 177976), (177984, 178205), (178208, 183969), (183984, 191456), (194560, 195101),
     (196608, 201546)]"

definition alnum_above_ascii :: "nat \<Rightarrow> bool" where
  "alnum_above_ascii c =
     (if c \<le> 1747 then in_ranges c alnum_ranges_1
      else if c \<le> 2489 then in_ranges c alnum_ranges_2
      else if c \<le> 2856 then in_ranges c alnum_ranges_3
      else if c \<le> 3212 then in_ranges c alnum_ranges_4
      else if c \<le> 3747 then in_ranges c alnum_ranges_5
      else if c \<le> 4701 then in_ranges c alnum_ranges_6
      else if c \<le> 6264 then in_ranges c alnum_ranges_7
      else if c \<le> 7957 then in_ranges c alnum_ranges_8
      else if c \<le> 8505 then in_ranges c alnum_ranges_9
      else if c \<le> 12447 then in_ranges c alnum_ranges_10
      else if c \<le> 43123 then in_ranges c alnum_ranges_11
      else if c \<le> 43822 then in_ranges c alnum_ranges_12
      else if c \<le> 65495 then in_ranges c alnum_ranges_13
      else if c \<le> 66977 then in_ranges c alnum_ranges_14
      else if c \<le> 68295 then in_ranges c alnum_ranges_15
      else if c \<le> 69959 then in_ranges c alnum_ranges_16
      else if c \<le> 70855 then in_ranges c alnum_ranges_17
      else if c \<le> 72349 then in_ranges c alnum_ranges_18
      else if c \<le> 92975 then in_ranges c alnum_ranges_19
      else if c \<le> 119974 then in_ranges c alnum_ranges_20
      else if c \<le> 123565 then in_ranges c alnum_ranges_21
      else if c \<le> 126548 then in_ranges c alnum_ranges_22
      else in_ranges c alnum_ranges_23)"

definition isalnum :: "nat \<Rightarrow> bool" where
  "isalnum c =
     (if c < 128
      then (48 \<le> c \<and> c \<le> 57) \<or> (65 \<le> c \<and> c \<le> 90) \<or> (97 \<le> c \<and> c \<le> 122)
      else alnum_above_ascii c)"

text \<open>The class \<open>\w\<close>: alphanumeric or the underscore (code point 95).\<close>

definition isword :: "nat \<Rightarrow> bool" where
  "isword c = (isalnum c \<or> c = 95)"

text \<open>The lowercase mapping of one code point (\<open>_PyUnicode_ToLowerFull\<close>): the code
  points above ASCII that have one, with their images.\<close>

definition lower_table_1 :: "(nat \<times> nat list) list" where
  "lower_table_1 =
    [(192, [224]), (193, [225]), (194, [226]), (195, [227]), (196, [228]), (197, [229]),
     (198, [230]), (199, [231]), (200, [232]), (201, [233]), (202, [234]), (203, [235]),
     (204, [236]), (205, [237]), (206, [238]), (207, [239]), (208, [240]), (209, [241]),
     (210, [242]), (211, [243]), (212, [244]), (213, [245]), (214, [246]), (216, [248]),
     (217, [249]), (218, [250]), (219, [251]), (220, [252]), (221, [253]), (222, [254]),
     (256, [257]), (258, [259])]"

definition lower_table_2 :: "(nat \<times> nat list) list" where
  "lower_table_2 =
    [(260, [261]), (262, [263]), (264, [265]), (266, [267]), (268, [269]), (270, [271]),
     (272, [273]), (274, [275]), (276, [277]), (278, [279]), (280, [281]), (282, [283]),
     (284, [285]), (286, [287]), (288, [289]), (290, [291]), (292, [293]), (294, [295]),
     (296, [297]), (298, [299]), (300, [301]), (302, [303]), (304, [105, 775]), (306, [307]),
     (308, [309]), (310, [311]), (313, [314]), (315, [316]), (317, [318]), (319, [320]),
     (321, [322]), (323, [324])]"

definition lower_table_3 :: "(nat \<times> nat list) list" where
  "lower_table_3 =
    [(325, [326]), (327, [328]), (330, [331]), (332, [333]), (334, [335]), (336, [337]),
     (338, [339]), (340, [341]), (342, [343]), (344, [345]), (346, [347]), (348, [349]),
     (350, [351]), (352, [353]), (354, [355]), (356, [357]), (358, [359]), (360, [361]),
     (362, [363]), (364, [365]), (366, [367]), (368, [369]), (370, [371]), (372, [373]),
     (374, [375]), (376, [255]), (377, [378]), (379, [380]), (381, [382]), (385, [595]),
     (386, [387]), (388, [389])]"

definition lower_table_4 :: "(nat \<times> nat list) list" where
  "lower_table_4 =
    [(390, [596]), (391, [392]), (393, [598]), (394, [599]), (395, [396]), (398, [477]),
     (399, [601]), (400, [603]), (401, [402]), (403, [608]), (404, [611]), (406, [617]),
     (407, [616]), (408, [409]), (412, [623]), (413, [626]), (415, [629]), (416, [417]),
     (418, [419]), (420, [421]), (422, [640]), (423, [424]), (425, [643]), (428, [429]),
     (430, [648]), (431, [432]), (433, [650]), (434, [651]), (435, [436]), (437, [438]),
     (439, [658]), (440, [441])]"

definition lower_table_5 :: "(nat \<times> nat list) list" where
  "lower_table_5 =
    [(444, [445]), (452, [454]), (453, [454]), (455, [457]), (456, [457]), (458, [460]),
     (459, [460]), (461, [462]), (463, [464]), (465, [466]), (467, [468]), (469, [470]),
     (471, [472]), (473, [474]), (475, [476]), (478, [479]), (480, [481]), (482, [483]),
     (484, [485]), (486, [487]), (488, [489]), (490, [491]), (492, [493]), (494, [495]),
     (497, [499]), (498, [499]), (500, [501]), (502, [405]), (503, [447]), (504, [505]),
     (506, [507]), (508, [509])]"

definition lower_table_6 :: "(nat \<times> nat list) list" where
  "lower_table_6 =
    [(510, [511]), (512, [513]), (514, [515]), (516, [517]), (518, [519]), (520, [521]),
     (522, [523]), (524, [525]), (526, [527]), (528, [529]), (530, [531]), (532, [533]),
     (534, [535]), (536, [537]), (538, [539]), (540, [541]), (542, [543]), (544, [414]),
     (546, [547]), (548, [549]), (550, [551]), (552, [553]), (554, [555]), (556, [557]),
     (558, [559]), (560, [561]), (562, [563]), (570, [11365]), (571, [572]), (573, [410]),
     (574, [11366]), (577, [578])]"

definition lower_table_7 :: "(nat \<times> nat list) list" where
  "lower_table_7 =
    [(579, [384]), (580, [649]), (581, [652]), (582, [583]), (584, [585]), (586, [587]),
     (588, [589]), (590, [591]), (880, [881]), (882, [883]), (886, [887]), (895, [1011]),
     (902, [940]), (904, [941]), (905, [942]), (906, [943]), (908, [972]), (910, [973]),
     (911, [974]), (913, [945]), (914, [946]), (915, [947]), (916, [948]), (917, [949]),
     (918, [950]), (919, [951]), (920, [952]), (921, [953]), (922, [954]), (923, [955]),
     (924, [956]), (925, [957])]"

definition lower_table_8 :: "(nat \<times> nat list) list" where
  "lower_table_8 =
    [(926, [958]), (927, [959]), (928, [960]), (929, [961]), (931, [963]), (932, [964]),
     (933, [965]), (934, [966]), (935, [967]), (936, [968]), (937, [969]), (938, [970]),
     (939, [971]), (975, [983]), (984, [985]), (986, [987]), (988, [989]), (990, [991]),
     (992, [993]), (994, [995]), (996, [997]), (998, [999]), (1000, [1001]), (1002, [1003]),
     (1004, [1005]), (1006, [1007]), (1012, [952]), (1015, [1016]), (1017, [1010]),
     (1018, [1019]), (1021, [891]), (1022, [892])]"

definition lower_table_9 :: "(nat \<times> nat list) list" where
  "lower_table_9 =
    [(1023, [893]), (1024, [1104]), (1025, [1105]), (1026, [1106]), (1027, [1107]),
     (1028, [1108]), (1029, [1109]), (1030, [1110]), (1031, [1111]), (1032, [1112]),
     (1033, [1113]), (1034, [1114]), (1035, [1115]), (1036, [1116]), (1037, [1117]),
     (1038, [1118]), (1039, [1119]), (1040, [1072]), (1041, [1073]), (1042, [1074]),
     (1043, [1075]), (1044, [1076]), (1045, [1077]), (1046, [1078]), (1047, [1079]),
     (1048, [1080]), (1049, [1081]), (1050, [1082]), (1051, [1083]), (1052, [1084]),
     (1053, [1085]), (1054, [1086])]"

definition lower_table_10 :: "(nat \<times> nat list) list" where
  "lower_table_10 =
    [(1055, [1087]), (1056, [1088]), (1057, [1089]), (1058, [1090]), (1059, [1091]),
     (1060, [1092]), (1061, [1093]), (1062, [1094]), (1063, [1095]), (1064, [1096]),
     (1065, [1097]), (1066, [1098]), (1067, [1099]), (1068, [1100]), (1069, [1101]),
     (1070, [1102]), (1071, [1103]), (1120, [1121]), (1122, [1123]), (1124, [1125]),
     (1126, [1127]), (1128, [1129]), (1130, [1131]), (1132, [1133]), (1134, [1135]),
     (1136, [1137]), (1138, [1139]), (1140, [1141]), (1142, [1143]), (1144, [1145]),
     (1146, [1147]), (1148, [1149])]"

definition lower_table_11 :: "(nat \<times> nat list) list" where
  "lower_table_11 =
    [(1150, [1151]), (1152, [1153]), (1162, [1163]), (1164, [1165]), (1166, [1167]),
     (1168, [1169]), (1170, [1171]), (1172, [1173]), (1174, [1175]), (1176, [1177]),
     (1178, [1179]), (1180, [1181]), (1182, [1183]), (1184, [1185]), (1186, [1187]),
     (1188, [1189]), (1190, [1191]), (1192, [1193]), (1194, [1195]), (1196, [1197]),
     (1198, [1199]), (1200, [1201]), (1202, [1203]), (1204, [1205]), (1206, [1207]),
     (1208, [1209]), (1210, [1211]), (1212, [1213]), (1214, [1215]), (1216, [1231]),
     (1217, [1218]), (1219, [1220])]"

definition lower_table_12 :: "(nat \<times> nat list) list" where
  "lower_table_12 =
    [(1221, [1222]), (1223, [1224]), (1225, [1226]), (1227, [1228]), (1229, [1230]),
     (1232, [1233]), (1234, [1235]), (1236, [1237]), (1238, [1239]), (1240, [1241]),
     (1242, [1243]), (1244, [1245]), (1246, [1247]), (1248, [1249]), (1250, [1251]),
     (1252, [1253]), (1254, [1255]), (1256, [1257]), (1258, [1259]), (1260, [1261]),
     (1262, [1263]), (1264, [1265]), (1266, [1267]), (1268, [1269]), (1270, [1271]),
     (1272, [1273]), (1274, [1275]), (1276, [1277]), (1278, [1279]), (1280, [1281]),
     (1282, [1283]), (1284, [1285])]"

definition lower_table_13 :: "(nat \<times> nat list) list" where
  "lower_table_13 =
    [(1286, [1287]), (1288, [1289]), (1290, [1291]), (1292, [1293]), (1294, [1295]),
     (1296, [1297]), (1298, [1299]), (1300, [1301]), (1302, [1303]), (1304, [1305]),
     (1306, [1307]), (1308, [1309]), (1310, [1311]), (1312, [1313]), (1314, [1315]),
     (1316, [1317]), (1318, [1319]), (1320, [1321]), (1322, [1323]), (1324, [1325]),
     (1326, [1327]), (1329, [1377]), (1330, [1378]), (1331, [1379]), (1332, [1380]),
     (1333, [1381]), (1334, [1382]), (1335, [1383]), (1336, [1384]), (1337, [1385]),
     (1338, [1386]), (1339, [1387])]"

definition lower_table_14 :: "(nat \<times> nat list) list" where
  "lower_table_14 =
    [(1340, [1388]), (1341, [1389]), (1342, [1390]), (1343, [1391]), (1344, [1392]),
     (1345, [1393]), (1346, [1394]), (1347, [1395]), (1348, [1396]), (1349, [1397]),
     (1350, [1398]), (1351, [1399]), (1352, [1400]), (1353, [1401]), (1354, [1402]),
     (1355, [1403]), (1356, [1404]), (1357, [1405]), (1358, [1406]), (1359, [1407]),
     (1360, [1408]), (1361, [1409]), (1362, [1410]), (1363, [1411]), (1364, [1412]),
     (1365, [1413]), (1366, [1414]), (4256, [11520]), (4257, [11521]), (4258, [11522]),
     (4259, [11523]), (4260, [11524])]"

definition lower_table_15 :: "(nat \<times> nat list) list" where
  "lower_table_15 =
    [(4261, [11525]), (4262, [11526]), (4263, [11527]), (4264, [11528]), (4265, [11529]),
     (4266, [11530]), (4267, [11531]), (4268, [11532]), (4269, [11533]), (4270, [11534]),
     (4271, [11535]), (4272, [11536]), (4273, [11537]), (4274, [11538]), (4275, [11539]),
     (4276, [11540]), (4277, [11541]), (4278, [11542]), (4279, [11543]), (4280, [11544]),
     (4281, [11545]), (4282, [11546]), (4283, [11547]), (4284, [11548]), (4285, [11549]),
     (4286, [11550]), (4287, [11551]), (4288, [11552]), (4289, [11553]), (4290, [11554]),
     (4291, [11555]), (4292, [11556])]"

definition lower_table_16 :: "(nat \<times> nat list) list" where
  "lower_table_16 =
    [(4293, [11557]), (4295, [11559]), (4301, [11565]), (5024, [43888]), (5025, [43889]),
     (5026, [43890]), (5027, [43891]), (5028, [43892]), (5029, [43893]), (5030, [43894]),
     (5031, [43895]), (5032, [43896]), (5033, [43897]), (5034, [43898]), (5035, [43899]),
     (5036, [43900]), (5037, [43901]), (5038, [43902]), (5039, [43903]), (5040, [43904]),
     (5041, [43905]), (5042, [43906]), (5043, [43907]), (5044, [43908]), (5045, [43909]),
     (5046, [43910]), (5047, [43911]), (5048, [43912]), (5049, [43913]), (5050, [43914]),
     (5051, [43915]), (5052, [43916])]"

definition lower_table_17 :: "(nat \<times> nat list) list" where
  "lower_table_17 =
    [(5053, [43917]), (5054, [43918]), (5055, [43919]), (5056, [43920]), (5057, [43921]),
     (5058, [43922]), (5059, [43923]), (5060, [43924]), (5061, [43925]), (5062, [43926]),
     (5063, [43927]), (5064, [43928]), (5065, [43929]), (5066, [43930]), (5067, [43931]),
     (5068, [43932]), (5069, [43933]), (5070, [43934]), (5071, [43935]), (5072, [43936]),
     (5073, [43937]), (5074, [43938]), (5075, [43939]), (5076, [43940]), (5077, [43941]),
     (5078, [43942]), (5079, [43943]), (5080, [43944]), (5081, [43945]), (5082, [43946]),
     (5083, [43947]), (5084, [43948])]"

definition lower_table_18 :: "(nat \<times> nat list) list" where
  "lower_table_18 =
    [(5085, [43949]), (5086, [43950]), (5087, [43951]), (5088, [43952]), (5089, [43953]),
     (5090, [43954]), (5091, [43955]), (5092, [43956]), (5093, [43957]), (5094, [43958]),
     (5095, [43959]), (5096, [43960]), (5097, [43961]), (5098, [43962]), (5099, [43963]),
     (5100, [43964]), (5101, [43965]), (5102, [43966]), (5103, [43967]), (5104, [5112]),
     (5105, [5113]), (5106, [5114]), (5107, [5115]), (5108, [5116]), (5109, [5117]),
     (7312, [4304]), (7313, [4305]), (7314, [4306]), (7315, [4307]), (7316, [4308]),
     (7317, [4309]), (7318, [4310])]"

definition lower_table_19 :: "(nat \<times> nat list) list" where
  "lower_table_19 =
    [(7319, [4311]), (7320, [4312]), (7321, [4313]), (7322, [4314]), (7323, [4315]),
     (7324, [4316]), (7325, [4317]), (7326, [4318]), (7327, [4319]), (7328, [4320]),
     (7329, [4321]), (7330, [4322]), (7331, [4323]), (7332, [4324]), (7333, [4325]),
     (7334, [4326]), (7335, [4327]), (7336, [4328]), (7337, [4329]), (7338, [4330]),
     (7339, [4331]), (7340, [4332]), (7341, [4333]), (7342, [4334]), (7343, [4335]),
     (7344, [4336]), (7345, [4337]), (7346, [4338]), (7347, [4339]), (7348, [4340]),
     (7349, [4341]), (7350, [4342])]"

definition lower_table_20 :: "(nat \<times> nat list) list" where
  "lower_table_20 =
    [(7351, [4343]), (7352, [4344]), (7353, [4345]), (7354, [4346]), (7357, [4349]),
     (7358, [4350]), (7359, [4351]), (7680, [7681]), (7682, [7683]), (7684, [7685]),
     (7686, [7687]), (7688, [7689]), (7690, [7691]), (7692, [7693]), (7694, [7695]),
     (7696, [7697]), (7698, [7699]), (7700, [7701]), (7702, [7703]), (7704, [7705]),
     (7706, [7707]), (7708, [7709]), (7710, [7711]), (7712, [7713]), (7714, [7715]),
     (7716, [7717]), (7718, [7719]), (7720, [7721]), (7722, [7723]), (7724, [7725]),
     (7726, [7727]), (7728, [7729])]"

definition lower_table_21 :: "(nat \<times> nat list) list" where
  "lower_table_21 =
    [(7730, [7731]), (7732, [7733]), (7734, [7735]), (7736, [7737]), (7738, [7739]),
     (7740, [7741]), (7742, [7743]), (7744, [7745]), (7746, [7747]), (7748, [7749]),
     (7750, [7751]), (7752, [7753]), (7754, [7755]), (7756, [7757]), (7758, [7759]),
     (7760, [7761]), (7762, [7763]), (7764, [7765]), (7766, [7767]), (7768, [7769]),
     (7770, [7771]), (7772, [7773]), (7774, [7775]), (7776, [7777]), (7778, [7779]),
     (7780, [7781]), (7782, [7783]), (7784, [7785]), (7786, [7787]), (7788, [7789]),
     (7790, [7791]), (7792, [7793])]"

definition lower_table_22 :: "(nat \<times> nat list) list" where
  "lower_table_22 =
    [(7794, [7795]), (7796, [7797]), (7798, [7799]), (7800, [7801]), (7802, [7803]),
     (7804, [7805]), (7806, [7807]), (7808, [7809]), (7810, [7811]), (7812, [7813]),
     (7814, [7815]), (7816, [7817]), (7818, [7819]), (7820, [7821]), (7822, [7823]),
     (7824, [7825]), (7826, [7827]), (7828, [7829]), (7838, [223]), (7840, [7841]),
     (7842, [7843]), (7844, [7845]), (7846, [7847]), (7848, [7849]), (7850, [7851]),
     (7852, [7853]), (7854, [7855]), (7856, [7857]), (7858, [7859]), (7860, [7861]),
     (7862, [7863]), (7864, [7865])]"

definition lower_table_23 :: "(nat \<times> nat list) list" where
  "lower_table_23 =
    [(7866, [7867]), (7868, [7869]), (7870, [7871]), (7872, [7873]), (7874, [7875]),
     (7876, [7877]), (7878, [7879]), (7880, [7881]), (7882, [7883]), (7884, [7885]),
     (7886, [7887]), (7888, [7889]), (7890, [7891]), (7892, [7893]), (7894, [7895]),
     (7896, [7897]), (7898, [7899]), (7900, [7901]), (7902, [7903]), (7904, [7905]),
     (7906, [7907]), (7908, [7909]), (7910, [7911]), (7912, [7913]), (7914, [7915]),
     (7916, [7917]), (7918, [7919]), (7920, [7921]), (7922, [7923]), (7924, [7925]),
     (7926, [7927]), (7928, [7929])]"

definition lower_table_24 :: "(nat \<times> nat list) list" where
  "lower_table_24 =
    [(7930, [7931]), (7932, [7933]), (7934, [7935]), (7944, [7936]), (7945, [7937]),
     (7946, [7938]), (7947, [7939]), (7948, [7940]), (7949, [7941]), (7950, [7942]),
     (7951, [7943]), (7960, [7952]), (7961, [7953]), (7962, [7954]), (7963, [7955]),
     (7964, [7956]), (7965, [7957]), (7976, [7968]), (7977, [7969]), (7978, [7970]),
     (7979, [7971]), (7980, [7972]), (7981, [7973]), (7982, [7974]), (7983, [7975]),
     (7992, [7984]), (7993, [7985]), (7994, [7986]), (7995, [7987]), (7996, [7988]),
     (7997, [7989]), (7998, [7990])]"

definition lower_table_25 :: "(nat \<times> nat list) list" where
  "lower_table_25 =
    [(7999, [7991]), (8008, [8000]), (8009, [8001]), (8010, [8002]), (8011, [8003]),
     (8012, [8004]), (8013, [8005]), (8025, [8017]), (8027, [8019]), (8029, [8021]),
     (8031, [8023]), (8040, [8032]), (8041, [8033]), (8042, [8034]), (8043, [8035]),
     (8044, [8036]), (8045, [8037]), (8046, [8038]), (8047, [8039]), (8072, [8064]),
     (8073, [8065]), (8074, [8066]), (8075, [8067]), (8076, [8068]), (8077, [8069]),
     (8078, [8070]), (8079, [8071]), (8088, [8080]), (8089, [8081]), (8090, [8082]),
     (8091, [8083]), (8092, [8084])]"

definition lower_table_26 :: "(nat \<times> nat list) list" where
  "lower_table_26 =
    [(8093, [8085]), (8094, [8086]), (8095, [8087]), (8104, [8096]), (8105, [8097]),
     (8106, [8098]), (8107, [8099]), (8108, [8100]), (8109, [8101]), (8110, [8102]),
     (8111, [8103]), (8120, [8112]), (8121, [8113]), (8122, [8048]), (8123, [8049]),
     (8124, [8115]), (8136, [8050]), (8137, [8051]), (8138, [8052]), (8139, [8053]),
     (8140, [8131]), (8152, [8144]), (8153, [8145]), (8154, [8054]), (8155, [8055]),
     (8168, [8160]), (8169, [8161]), (8170, [8058]), (8171, [8059]), (8172, [8165]),
     (8184, [8056]), (8185, [8057])]"

definition lower_table_27 :: "(nat \<times> nat list) list" where
  "lower_table_27 =
    [(8186, [8060]), (8187, [8061]), (8188, [8179]), (8486, [969]), (8490, [107]),
     (8491, [229]), (8498, [8526]), (8544, [8560]), (8545, [8561]), (8546, [8562]),
     (8547, [8563]), (8548, [8564]), (8549, [8565]), (8550, [8566]), (8551, [8567]),
     (8552, [8568]), (8553, [8569]), (8554, [8570]), (8555, [8571]), (8556, [8572]),
     (8557, [8573]), (8558, [8574]), (8559, [8575]), (8579, [8580]), (9398, [9424]),
     (9399, [9425]), (9400, [9426]), (9401, [9427]), (9402, [9428]), (9403, [9429]),
     (9404, [9430]), (9405, [9431])]"

definition lower_table_28 :: "(nat \<times> nat list) list" where
  "lower_table_28 =
    [(9406, [9432]), (9407, [9433]), (9408, [9434]), (9409, [9435]), (9410, [9436]),
     (9411, [9437]), (9412, [9438]), (9413, [9439]), (9414, [9440]), (9415, [9441]),
     (9416, [9442]), (9417, [9443]), (9418, [9444]), (9419, [9445]), (9420, [9446]),
     (9421, [9447]), (9422, [9448]), (9423, [9449]), (11264, [11312]), (11265, [11313]),
     (11266, [11314]), (11267, [11315]), (11268, [11316]), (11269, [11317]), (11270, [11318]),
     (11271, [11319]), (11272, [11320]), (11273, [11321]), (11274, [11322]), (11275, [11323]),
     (11276, [11324]), (11277, [11325])]"

definition lower_table_29 :: "(nat \<times> nat list) list" where
  "lower_table_29 =
    [(11278, [11326]), (11279, [11327]), (11280, [11328]), (11281, [11329]), (11282, [11330]),
     (11283, [11331]), (11284, [11332]), (11285, [11333]), (11286, [11334]), (11287, [11335]),
     (11288, [11336]), (11289, [11337]), (11290, [11338]), (11291, [11339]), (11292, [11340]),
     (11293, [11341]), (11294, [11342]), (11295, [11343]), (11296, [11344]), (11297, [11345]),
     (11298, [11346]), (11299, [11347]), (11300, [11348]), (11301, [11349]), (11302, [11350]),
     (11303, [11351]), (11304, [11352]), (11305, [11353]), (11306, [11354]), (11307, [11355]),
     (11308, [11356]), (11309, [11357])]"

definition lower_table_30 :: "(nat \<times> nat list) list" where
  "lower_table_30 =
    [(11310, [11358]), (11311, [11359]), (11360, [11361]), (11362, [619]), (11363, [7549]),
     (11364, [637]), (11367, [11368]), (11369, [11370]), (11371, [11372]), (11373, [593]),
     (11374, [625]), (11375, [592]), (11376, [594]), (11378, [11379]), (11381, [11382]),
     (11390, [575]), (11391, [576]), (11392, [11393]), (11394, [11395]), (11396, [11397]),
     (11398, [11399]), (11400, [11401]), (11402, [11403]), (11404, [11405]), (11406, [11407]),
     (11408, [11409]), (11410, [11411]), (11412, [11413]), (11414, [11415]), (11416, [11417]),
     (11418, [11419]), (11420, [11421])]"

definition lower_table_31 :: "(nat \<times> nat list) list" where
  "lower_table_31 =
    [(11422, [11423]), (11424, [11425]), (11426, [11427]), (11428, [11429]), (11430, [11431]),
     (11432, [11433]), (11434, [11435]), (11436, [11437]), (11438, [11439]), (11440, [11441]),
     (11442, [11443]), (11444, [11445]), (11446, [11447]), (11448, [11449]), (11450, [11451]),
     (11452, [11453]), (11454, [11455]), (11456, [11457]), (11458, [11459]), (11460, [11461]),
     (11462, [11463]), (11464, [11465]), (11466, [11467]), (11468, [11469]), (11470, [11471]),
     (11472, [11473]), (11474, [11475]), (11476, [11477]), (11478, [11479]), (11480, [11481]),
     (11482, [11483]), (11484, [11485])]"

definition lower_table_32 :: "(nat \<times> nat list) list" where
  "lower_table_32 =
    [(11486, [11487]), (11488, [11489]), (11490, [11491]), (11499, [11500]), (11501, [11502]),
     (11506, [11507]), (42560, [42561]), (42562, [42563]), (42564, [42565]), (42566, [42567]),
     (42568, [42569]), (42570, [42571]), (42572, [42573]), (42574, [42575]), (42576, [42577]),
     (42578, [42579]), (42580, [42581]), (42582, [42583]), (42584, [42585]), (42586, [42587]),
     (42588, [42589]), (42590, [42591]), (42592, [42593]), (42594, [42595]), (42596, [42597]),
     (42598, [42599]), (42600, [42601]), (42602, [42603]), (42604, [42605]), (42624, [42625]),
     (42626, [42627]), (42628, [42629])]"

definition lower_table_33 :: "(nat \<times> nat list) list" where
  "lower_table_33 =
    [(42630, [42631]), (42632, [42633]), (42634, [42635]), (42636, [42637]), (42638, [42639]),
     (42640, [42641]), (42642, [42643]), (42644, [42645]), (42646, [42647]), (42648, [42649]),
     (42650, [42651]), (42786, [42787]), (42788, [42789]), (42790, [42791]), (42792, [42793]),
     (42794, [42795]), (42796, [42797]), (42798, [42799]), (42802, [42803]), (42804, [42805]),
     (42806, [42807]), (42808, [42809]), (42810, [42811]), (42812, [42813]), (42814, [42815]),
     (42816, [42817]), (42818, [42819]), (42820, [42821]), (42822, [42823]), (42824, [42825]),
     (42826, [42827]), (42828, [42829])]"

definition lower_table_34 :: "(nat \<times> nat list) list" where
  "lower_table_34 =
    [(42830, [42831]), (42832, [42833]), (42834, [42835]), (42836, [42837]), (42838, [42839]),
     (42840, [42841]), (42842, [42843]), (42844, [42845]), (42846, [42847]), (42848, [42849]),
     (42850, [42851]), (42852, [42853]), (42854, [42855]), (42856, [42857]), (42858, [42859]),
     (42860, [42861]), (42862, [42863]), (42873, [42874]), (42875, [42876]), (42877, [7545]),
     (42878, [42879]), (42880, [42881]), (42882, [42883]), (42884, [42885]), (42886, [42887]),
     (42891, [42892]), (42893, [613]), (42896, [42897]), (42898, [42899]), (42902, [42903]),
     (42904, [42905]), (42906, [42907])]"

definition lower_table_35 :: "(nat \<times> nat list) list" where
  "lower_table_35 =
    [(42908, [42909]), (42910, [42911]), (42912, [42913]), (42914, [42915]), (42916, [42917]),
     (42918, [42919]), (42920, [42921]), (42922, [614]), (42923, [604]), (42924, [609]),
     (42925, [620]), (42926, [618]), (42928, [670]), (42929, [647]), (42930, [669]),
     (42931, [43859]), (42932, [42933]), (42934, [42935]), (42936, [42937]), (42938, [42939]),
     (42940, [42941]), (42942, [42943]), (42944, [42945]), (42946, [42947]), (42948, [42900]),
     (42949, [642]), (42950, [7566]), (42951, [42952]), (42953, [42954]), (42960, [42961]),
     (42966, [42967]), (42968, [42969])]"

definition lower_table_36 :: "(nat \<times> nat list) list" where
  "lower_table_36 =
    [(42997, [42998]), (65313, [65345]), (65314, [65346]), (65315, [65347]), (65316, [65348]),
     (65317, [65349]), (65318, [65350]), (65319, [65351]), (65320, [65352]), (65321, [65353]),
     (65322, [65354]), (65323, [65355]), (65324, [65356]), (65325, [65357]), (65326, [65358]),
     (65327, [65359]), (65328, [65360]), (65329, [65361]), (65330, [65362]), (65331, [65363]),
     (65332, [65364]), (65333, [65365]), (65334, [65366]), (65335, [65367]), (65336, [65368]),
     (65337, [65369]), (65338, [65370]), (66560, [66600]), (66561, [66601]), (66562, [66602]),
     (66563, [66603]), (66564, [66604])]"

definition lower_table_37 :: "(nat \<times> nat list) list" where
  "lower_table_37 =
    [(66565, [66605]), (66566, [66606]), (66567, [66607]), (66568, [66608]), (66569, [66609]),
     (66570, [66610]), (66571, [66611]), (66572, [66612]), (66573, [66613]), (66574, [66614]),
     (66575, [66615]), (66576, [66616]), (66577, [66617]), (66578, [66618]), (66579, [66619]),
     (66580, [66620]), (66581, [66621]), (66582, [66622]), (66583, [66623]), (66584, [66624]),
     (66585, [66625]), (66586, [66626]), (66587, [66627]), (66588, [66628]), (66589, [66629]),
     (66590, [66630]), (66591, [66631]), (66592, [66632]), (66593, [66633]), (66594, [66634]),
     (66595, [66635]), (66596, [66636])]"

definition lower_table_38 :: "(nat \<times> nat list) list" where
  "lower_table_38 =
    [(66597, [66637]), (66598, [66638]), (66599, [66639]), (66736, [66776]), (66737, [66777]),
     (66738, [66778]), (66739, [66779]), (66740, [66780]), (66741, [66781]), (66742, [66782]),
     (66743, [66783]), (66744, [66784]), (66745, [66785]), (66746, [66786]), (66747, [66787]),
     (66748, [66788]), (66749, [66789]), (66750, [66790]), (66751, [66791]), (66752, [66792]),
     (66753, [66793]), (66754, [66794]), (66755, [66795]), (66756, [66796]), (66757, [66797]),
     (66758, [66798]), (66759, [66799]), (66760, [66800]), (66761, [66801]), (66762, [66802]),
     (66763, [66803]), (66764, [66804])]"

definition lower_table_39 :: "(nat \<times> nat list) list" where
  "lower_table_39 =
    [(66765, [66805]), (66766, [66806]), (66767, [66807]), (66768, [66808]), (66769, [66809]),
     (66770, [66810]), (66771, [66811]), (66928, [66967]), (66929, [66968]), (66930, [66969]),
     (66931, [66970]), (66932, [66971]), (66933, [66972]), (66934, [66973]), (66935, [66974]),
     (66936, [66975]), (66937, [66976]), (66938, [66977]), (66940, [66979]), (66941, [66980]),
     (66942, [66981]), (66943, [66982]), (66944, [66983]), (66945, [66984]), (66946, [66985]),
     (66947, [66986]), (66948, [66987]), (66949, [66988]), (66950, [66989]), (66951, [66990]),
     (66952, [66991]), (66953, [66992])]"

definition lower_table_40 :: "(nat \<times> nat list) list" where
  "lower_table_40 =
    [(66954, [66993]), (66956, [66995]), (66957, [66996]), (66958, [66997]), (66959, [66998]),
     (66960, [66999]), (66961, [67000]), (66962, [67001]), (66964, [67003]), (66965, [67004]),
     (68736, [68800]), (68737, [68801]), (68738, [68802]), (68739, [68803]), (68740, [68804]),
     (68741, [68805]), (68742, [68806]), (68743, [68807]), (68744, [68808]), (68745, [68809]),
     (68746, [68810]), (68747, [68811]), (68748, [68812]), (68749, [68813]), (68750, [68814]),
     (68751, [68815]), (68752, [68816]), (68753, [68817]), (68754, [68818]), (68755, [68819]),
     (68756, [68820]), (68757, [68821])]"

definition lower_table_41 :: "(nat \<times> nat list) list" where
  "lower_table_41 =
    [(68758, [68822]), (68759, [68823]), (68760, [68824]), (68761, [68825]), (68762, [68826]),
     (68763, [68827]), (68764, [68828]), (68765, [68829]), (68766, [68830]), (68767, [68831]),
     (68768, [68832]), (68769, [68833]), (68770, [68834]), (68771, [68835]), (68772, [68836]),
     (68773, [68837]), (68774, [68838]), (68775, [68839]), (68776, [68840]), (68777, [68841]),
     (68778, [68842]), (68779, [68843]), (68780, [68844]), (68781, [68845]), (68782, [68846]),
     (68783, [68847]), (68784, [68848]), (68785, [68849]), (68786, [68850]), (71840, [71872]),
     (71841, [71873]), (71842, [71874])]"

definition lower_table_42 :: "(nat \<times> nat list) list" where
  "lower_table_42 =
    [(71843, [71875]), (71844, [71876]), (71845, [71877]), (71846, [71878]), (71847, [71879]),
     (71848, [71880]), (71849, [71881]), (71850, [71882]), (71851, [71883]), (71852, [71884]),
     (71853, [71885]), (71854, [71886]), (71855, [71887]), (71856, [71888]), (71857, [71889]),
     (71858, [71890]), (71859, [71891]), (71860, [71892]), (71861, [71893]), (71862, [71894]),
     (71863, [71895]), (71864, [71896]), (71865, [71897]), (71866, [71898]), (71867, [71899]),
     (71868, [71900]), (71869, [71901]), (71870, [71902]), (71871, [71903]), (93760, [93792]),
     (93761, [93793]), (93762, [93794])]"

definition lower_table_43 :: "(nat \<times> nat list) list" where
  "lower_table_43 =
    [(93763, [93795]), (93764, [93796]), (93765, [93797]), (93766, [93798]), (93767, [93799]),
     (93768, [93800]), (93769, [93801]), (93770, [93802]), (93771, [93803]), (93772, [93804]),
     (93773, [93805]), (93774, [93806]), (93775, [93807]), (93776, [93808]), (93777, [93809]),
     (93778, [93810]), (93779, [93811]), (93780, [93812]), (93781, [93813]), (93782, [93814]),
     (93783, [93815]), (93784, [93816]), (93785, [93817]), (93786, [93818]), (93787, [93819]),
     (93788, [93820]), (93789, [93821]), (93790, [93822]), (93791, [93823]),
     (125184, [125218]), (125185, [125219]), (125186, [125220])]"

definition lower_table_44 :: "(nat \<times> nat list) list" where
  "lower_table_44 =
    [(125187, [125221]), (125188, [125222]), (125189, [125223]), (125190, [125224]),
     (125191, [125225]), (125192, [125226]), (125193, [125227]), (125194, [125228]),
     (125195, [125229]), (125196, [125230]), (125197, [125231]), (125198, [125232]),
     (125199, [125233]), (125200, [125234]), (125201, [125235]), (125202, [125236]),
     (125203, [125237]), (125204, [125238]), (125205, [125239]), (125206, [125240]),
     (125207, [125241]), (125208, [125242]), (125209, [125243]), (125210, [125244]),
     (125211, [125245]), (125212, [125246]), (125213, [125247]), (125214, [125248]),
     (125215, [125249]), (125216, [125250]), (125217, [125251])]"

definition lower_lookup :: "nat \<Rightarrow> nat list option" where
  "lower_lookup c =
     (if c \<le> 258 then table_lookup c lower_table_1
      else if c \<le> 323 then table_lookup c lower_table_2
      else if c \<le> 388 then table_lookup c lower_table_3
      else if c \<le> 440 then table_lookup c lower_table_4
      else if c \<le> 508 then table_lookup c lower_table_5
      else if c \<le> 577 then table_lookup c lower_table_6
      else if c \<le> 925 then table_lookup c lower_table_7
      else if c \<le> 1022 then table_lookup c lower_table_8
      else if c \<le> 1054 then table_lookup c lower_table_9
      else if c \<le> 1148 then table_lookup c lower_table_10
      else if c \<le> 1219 then table_lookup c lower_table_11
      else if c \<le> 1284 then table_lookup c lower_table_12
      else if c \<le> 1339 then table_lookup c lower_table_13
      else if c \<le> 4260 then table_lookup c lower_table_14
      else if c \<le> 4292 then table_lookup c lower_table_15
      else if c \<le> 5052 then table_lookup c lower_table_16
      else if c \<le> 5084 then table_lookup c lower_table_17
      else if c \<le> 7318 then table_lookup c lower_table_18
      else if c \<le> 7350 then table_lookup c lower_table_19
      else if c \<le> 7728 then table_lookup c lower_table_20
      else if c \<le> 7792 then table_lookup c lower_table_21
      else if c \<le> 7864 then table_lookup c lower_table_22
      else if c \<le> 7928 then table_lookup c lower_table_23
      else if c \<le> 7998 then table_lookup c lower_table_24
      else if c \<le> 8092 then table_lookup c lower_table_25
      else if c \<le> 8185 then table_lookup c lower_table_26
      else if c \<le> 9405 then table_lookup c lower_table_27
      else if c \<le> 11277 then table_lookup c lower_table_28
      else if c \<le> 11309 then table_lookup c lower_table_29
      else if c \<le> 11420 then table_lookup c lower_table_30
      else if c \<le> 11484 then table_lookup c lower_table_31
      else if c \<le> 42628 then table_lookup c lower_table_32
      else if c \<le> 42828 then table_lookup c lower_table_33
      else if c \<le> 42906 then table_lookup c lower_table_34
      else if c \<le> 42968 then table_lookup c lower_table_35
      else if c \<le> 66564 then table_lookup c lower_table_36
      else if c \<le> 66596 then table_lookup c lower_table_37
      else if c \<le> 66764 then table_lookup c lower_table_38
      else if c \<le> 66953 then table_lookup c lower_table_39
      else if c \<le> 68757 then table_lookup c lower_table_40
      else if c \<le> 71842 then table_lookup c lower_table_41
      else if c \<le> 93762 then table_lookup c lower_table_42
      else if c \<le> 125186 then table_lookup c lower_table_43
      else table_lookup c lower_table_44)"

definition to_lower_full :: "nat \<Rightarrow> str" where
  "to_lower_full c =
     (if c < 128 then (if 65 \<le> c \<and> c \<le> 90 then [c + 32] else [c])
      else (case lower_lookup c of None \<Rightarrow> [c] | Some m \<Rightarrow> m))"

text \<open>
  The code points with the property Case_Ignorable, and the code points with the
  property Cased among those that are not Case_Ignorable: the test for a cased letter is
  only ever made on a code point that is not Case_Ignorable.
\<close>

definition case_ignorable_ranges_1 :: "(nat \<times> nat) list" where
  "case_ignorable_ranges_1 =
    [(39, 39), (46, 46), (58, 58), (94, 94), (96, 96), (168, 168), (173, 173), (175, 175),
     (180, 180), (183, 184), (688, 879), (884, 885), (890, 890), (900, 901), (903, 903),
     (1155, 1161), (1369, 1369), (1375, 1375), (1425, 1469), (1471, 1471), (1473, 1474),
     (1476, 1477), (1479, 1479), (1524, 1524), (1536, 1541), (1552, 1562), (1564, 1564),
     (1600, 1600), (1611, 1631), (1648, 1648), (1750, 1757), (1759, 1768)]"

definition case_ignorable_ranges_2 :: "(nat \<times> nat) list" where
  "case_ignorable_ranges_2 =
    [(1770, 1773), (1807, 1807), (1809, 1809), (1840, 1866), (1958, 1968), (2027, 2037),
     (2042, 2042), (2045, 2045), (2070, 2093), (2137, 2139), (2184, 2184), (2192, 2193),
     (2200, 2207), (2249, 2306), (2362, 2362), (2364, 2364), (2369, 2376), (2381, 2381),
     (2385, 2391), (2402, 2403), (2417, 2417), (2433, 2433), (2492, 2492), (2497, 2500),
     (2509, 2509), (2530, 2531), (2558, 2558), (2561, 2562), (2620, 2620), (2625, 2626),
     (2631, 2632), (2635, 2637)]"

definition case_ignorable_ranges_3 :: "(nat \<times> nat) list" where
  "case_ignorable_ranges_3 =
    [(2641, 2641), (2672, 2673), (2677, 2677), (2689, 2690), (2748, 2748), (2753, 2757),
     (2759, 2760), (2765, 2765), (2786, 2787), (2810, 2815), (2817, 2817), (2876, 2876),
     (2879, 2879), (2881, 2884), (2893, 2893), (2901, 2902), (2914, 2915), (2946, 2946),
     (3008, 3008), (3021, 3021), (3072, 3072), (3076, 3076), (3132, 3132), (3134, 3136),
     (3142, 3144), (3146, 3149), (3157, 3158), (3170, 3171), (3201, 3201), (3260, 3260),
     (3263, 3263), (3270, 3270)]"

definition case_ignorable_ranges_4 :: "(nat \<times> nat) list" where
  "case_ignorable_ranges_4 =
    [(3276, 3277), (3298, 3299), (3328, 3329), (3387, 3388), (3393, 3396), (3405, 3405),
     (3426, 3427), (3457, 3457), (3530, 3530), (3538, 3540), (3542, 3542), (3633, 3633),
     (3636, 3642), (3654, 3662), (3761, 3761), (3764, 3772), (3782, 3782), (3784, 3789),
     (3864, 3865), (3893, 3893), (3895, 3895), (3897, 3897), (3953, 3966), (3968, 3972),
     (3974, 3975), (3981, 3991), (3993, 4028), (4038, 4038), (4141, 4144), (4146, 4151),
     (4153, 4154), (4157, 4158)]"

definition case_ignorable_ranges_5 :: "(nat \<times> nat) list" where
  "case_ignorable_ranges_5 =
    [(4184, 4185), (4190, 4192), (4209, 4212), (4226, 4226), (4229, 4230), (4237, 4237),
     (4253, 4253), (4348, 4348), (4957, 4959), (5906, 5908), (5938, 5939), (5970, 5971),
     (6002, 6003), (6068, 6069), (6071, 6077), (6086, 6086), (6089, 6099), (6103, 6103),
     (6109, 6109), (6155, 6159), (6211, 6211), (6277, 6278), (6313, 6313), (6432, 6434),
     (6439, 6440), (6450, 6450), (6457, 6459), (6679, 6680), (6683, 6683), (6742, 6742),
     (6744, 6750), (6752, 6752)]"

definition case_ignorable_ranges_6 :: "(nat \<times> nat) list" where
  "case_ignorable_ranges_6 =
    [(6754, 6754), (6757, 6764), (6771, 6780), (6783, 6783), (6823, 6823), (6832, 6862),
     (6912, 6915), (6964, 6964), (6966, 6970), (6972, 6972), (6978, 6978), (7019, 7027),
     (7040, 7041), (7074, 7077), (7080, 7081), (7083, 7085), (7142, 7142), (7144, 7145),
     (7149, 7149), (7151, 7153), (7212, 7219), (7222, 7223), (7288, 7293), (7376, 7378),
     (7380, 7392), (7394, 7400), (7405, 7405), (7412, 7412), (7416, 7417), (7468, 7530),
     (7544, 7544), (7579, 7679)]"

definition case_ignorable_ranges_7 :: "(nat \<times> nat) list" where
  "case_ignorable_ranges_7 =
    [(8125, 8125), (8127, 8129), (8141, 8143), (8157, 8159), (8173, 8175), (8189, 8190),
     (8203, 8207), (8216, 8217), (8228, 8228), (8231, 8231), (8234, 8238), (8288, 8292),
     (8294, 8303), (8305, 8305), (8319, 8319), (8336, 8348), (8400, 8432), (11388, 11389),
     (11503, 11505), (11631, 11631), (11647, 11647), (11744, 11775), (11823, 11823),
     (12293, 12293), (12330, 12333), (12337, 12341), (12347, 12347), (12441, 12446),
     (12540, 12542), (40981, 40981), (42232, 42237), (42508, 42508)]"

definition case_ignorable_ranges_8 :: "(nat \<times> nat) list" where
  "case_ignorable_ranges_8 =
    [(42607, 42610), (42612, 42621), (42623, 42623), (42652, 42655), (42736, 42737),
     (42752, 42785), (42864, 42864), (42888, 42890), (42994, 42996), (43000, 43001),
     (43010, 43010), (43014, 43014), (43019, 43019), (43045, 43046), (43052, 43052),
     (43204, 43205), (43232, 43249), (43263, 43263), (43302, 43309), (43335, 43345),
     (43392, 43394), (43443, 43443), (43446, 43449), (43452, 43453), (43471, 43471),
     (43493, 43494), (43561, 43566), (43569, 43570), (43573, 43574), (43587, 43587),
     (43596, 43596), (43632, 43632)]"

definition case_ignorable_ranges_9 :: "(nat \<times> nat) list" where
  "case_ignorable_ranges_9 =
    [(43644, 43644), (43696, 43696), (43698, 43700), (43703, 43704), (43710, 43711),
     (43713, 43713), (43741, 43741), (43756, 43757), (43763, 43764), (43766, 43766),
     (43867, 43871), (43881, 43883), (44005, 44005), (44008, 44008), (44013, 44013),
     (64286, 64286), (64434, 64450), (65024, 65039), (65043, 65043), (65056, 65071),
     (65106, 65106), (65109, 65109), (65279, 65279), (65287, 65287), (65294, 65294),
     (65306, 65306), (65342, 65342), (65344, 65344), (65392, 65392), (65438, 65439),
     (65507, 65507), (65529, 65531)]"

definition case_ignorable_ranges_10 :: "(nat \<times> nat) list" where
  "case_ignorable_ranges_10 =
    [(66045, 66045), (66272, 66272), (66422, 66426), (67456, 67461), (67463, 67504),
     (67506, 67514), (68097, 68099), (68101, 68102), (68108, 68111), (68152, 68154),
     (68159, 68159), (68325, 68326), (68900, 68903), (69291, 69292), (69446, 69456),
     (69506, 69509), (69633, 69633), (69688, 69702), (69744, 69744), (69747, 69748),
     (69759, 69761), (69811, 69814), (69817, 69818), (69821, 69821), (69826, 69826),
     (69837, 69837), (69888, 69890), (69927, 69931), (69933, 69940), (70003, 70003),
     (70016, 70017), (70070, 70078)]"

definition case_ignorable_ranges_11 :: "(nat \<times> nat) list" where
  "case_ignorable_ranges_11 =
    [(70089, 70092), (70095, 70095), (70191, 70193), (70196, 70196), (70198, 70199),
     (70206, 70206), (70367, 70367), (70371, 70378), (70400, 70401), (70459, 70460),
     (70464, 70464), (70502, 70508), (70512, 70516), (70712, 70719), (70722, 70724),
     (70726, 70726), (70750, 70750), (70835, 70840), (70842, 70842), (70847, 70848),
     (70850, 70851), (71090, 71093), (71100, 71101), (71103, 71104), (71132, 71133),
     (71219, 71226), (71229, 71229), (71231, 71232), (71339, 71339), (71341, 71341),
     (71344, 71349), (71351, 71351)]"

definition case_ignorable_ranges_12 :: "(nat \<times> nat) list" where
  "case_ignorable_ranges_12 =
    [(71453, 71455), (71458, 71461), (71463, 71467), (71727, 71735), (71737, 71738),
     (71995, 71996), (71998, 71998), (72003, 72003), (72148, 72151), (72154, 72155),
     (72160, 72160), (72193, 72202), (72243, 72248), (72251, 72254), (72263, 72263),
     (72273, 72278), (72281, 72283), (72330, 72342), (72344, 72345), (72752, 72758),
     (72760, 72765), (72767, 72767), (72850, 72871), (72874, 72880), (72882, 72883),
     (72885, 72886), (73009, 73014), (73018, 73018), (73020, 73021), (73023, 73029),
     (73031, 73031), (73104, 73105)]"

definition case_ignorable_ranges_13 :: "(nat \<times> nat) list" where
  "case_ignorable_ranges_13 =
    [(73109, 73109), (73111, 73111), (73459, 73460), (78896, 78904), (92912, 92916),
     (92976, 92982), (92992, 92995), (94031, 94031), (94095, 94111), (94176, 94177),
     (94179, 94180), (110576, 110579), (110581, 110587), (110589, 110590), (113821, 113822),
     (113824, 113827), (118528, 118573), (118576, 118598), (119143, 119145), (119155, 119170),
     (119173, 119179), (119210, 119213), (119362, 119364), (121344, 121398), (121403, 121452),
     (121461, 121461), (121476, 121476), (121499, 121503), (121505, 121519), (122880, 122886),
     (122888, 122904), (122907, 122913)]"

definition case_ignorable_ranges_14 :: "(nat \<times> nat) list" where
  "case_ignorable_ranges_14 =
    [(122915, 122916), (122918, 122922), (123184, 123197), (123566, 123566), (123628, 123631),
     (125136, 125142), (125252, 125259), (127995, 127999), (917505, 917505), (917536, 917631),
     (917760, 917999)]"

definition case_ignorable :: "nat \<Rightarrow> bool" where
  "case_ignorable c =
     (if c \<le> 1768 then in_ranges c case_ignorable_ranges_1
      else if c \<le> 2637 then in_ranges c case_ignorable_ranges_2
      else if c \<le> 3270 then in_ranges c case_ignorable_ranges_3
      else if c \<le> 4158 then in_ranges c case_ignorable_ranges_4
      else if c \<le> 6752 then in_ranges c case_ignorable_ranges_5
      else if c \<le> 7679 then in_ranges c case_ignorable_ranges_6
      else if c \<le> 42508 then in_ranges c case_ignorable_ranges_7
      else if c \<le> 43632 then in_ranges c case_ignorable_ranges_8
      else if c \<le> 65531 then in_ranges c case_ignorable_ranges_9
      else if c \<le> 70078 then in_ranges c case_ignorable_ranges_10
      else if c \<le> 71351 then in_ranges c case_ignorable_ranges_11
      else if c \<le> 73105 then in_ranges c case_ignorable_ranges_12
      else if c \<le> 122913 then in_ranges c case_ignorable_ranges_13
      else in_ranges c case_ignorable_ranges_14)"

definition cased_ranges_1 :: "(nat \<times> nat) list" where
  "cased_ranges_1 =
    [(65, 90), (97, 122), (170, 170), (181, 181), (186, 186), (192, 214), (216, 246),
     (248, 442), (444, 447), (452, 659), (661, 687), (880, 883), (886, 887), (891, 893),
     (895, 895), (902, 902), (904, 906), (908, 908), (910, 929), (931, 1013), (1015, 1153),
     (1162, 1327), (1329, 1366), (1376, 1416), (4256, 4293), (4295, 4295), (4301, 4301),
     (4304, 4346), (4349, 4351), (5024, 5109), (5112, 5117), (7296, 7304)]"

definition cased_ranges_2 :: "(nat \<times> nat) list" where
  "cased_ranges_2 =
    [(7312, 7354), (7357, 7359), (7424, 7467), (7531, 7543), (7545, 7578), (7680, 7957),
     (7960, 7965), (7968, 8005), (8008, 8013), (8016, 8023), (8025, 8025), (8027, 8027),
     (8029, 8029), (8031, 8061), (8064, 8116), (8118, 8124), (8126, 8126), (8130, 8132),
     (8134, 8140), (8144, 8147), (8150, 8155), (8160, 8172), (8178, 8180), (8182, 8188),
     (8450, 8450), (8455, 8455), (8458, 8467), (8469, 8469), (8473, 8477), (8484, 8484),
     (8486, 8486), (8488, 8488)]"

definition cased_ranges_3 :: "(nat \<times> nat) list" where
  "cased_ranges_3 =
    [(8490, 8493), (8495, 8500), (8505, 8505), (8508, 8511), (8517, 8521), (8526, 8526),
     (8544, 8575), (8579, 8580), (9398, 9449), (11264, 11387), (11390, 11492), (11499, 11502),
     (11506, 11507), (11520, 11557), (11559, 11559), (11565, 11565), (42560, 42605),
     (42624, 42651), (42786, 42863), (42865, 42887), (42891, 42894), (42896, 42954),
     (42960, 42961), (42963, 42963), (42965, 42969), (42997, 42998), (43002, 43002),
     (43824, 43866), (43872, 43880), (43888, 43967), (64256, 64262), (64275, 64279)]"

definition cased_ranges_4 :: "(nat \<times> nat) list" where
  "cased_ranges_4 =
    [(65313, 65338), (65345, 65370), (66560, 66639), (66736, 66771), (66776, 66811),
     (66928, 66938), (66940, 66954), (66956, 66962), (66964, 66965), (66967, 66977),
     (66979, 66993), (66995, 67001), (67003, 67004), (68736, 68786), (68800, 68850),
     (71840, 71903), (93760, 93823), (119808, 119892), (119894, 119964), (119966, 119967),
     (119970, 119970), (119973, 119974), (119977, 119980), (119982, 119993), (119995, 119995),
     (119997, 120003), (120005, 120069), (120071, 120074), (120077, 120084), (120086, 120092),
     (120094, 120121), (120123, 120126)]"

definition cased_ranges_5 :: "(nat \<times> nat) list" where
  "cased_ranges_5 =
    [(120128, 120132), (120134, 120134), (120138, 120144), (120146, 120485), (120488, 120512),
     (120514, 120538), (120540, 120570), (120572, 120596), (120598, 120628), (120630, 120654),
     (120656, 120686), (120688, 120712), (120714, 120744), (120746, 120770), (120772, 120779),
     (122624, 122633), (122635, 122654), (125184, 125251), (127280, 127305), (127312, 127337),
     (127344, 127369)]"

definition cased :: "nat \<Rightarrow> bool" where
  "cased c =
     (if c \<le> 7304 then in_ranges c cased_ranges_1
      else if c \<le> 8488 then in_ranges c cased_ranges_2
      else if c \<le> 64279 then in_ranges c cased_ranges_3
      else if c \<le> 120126 then in_ranges c cased_ranges_4
      else in_ranges c cased_ranges_5)"

text \<open>
  \<open>str.lower\<close>: every code point is replaced by its lowercase mapping, except the capital
  sigma (code point 931), which becomes the final sigma 962 when a cased letter stands
  before it and none after it, Case_Ignorable code points skipped, and 963 otherwise.
  \<open>before\<close> is the text in front of the position, nearest code point first.
\<close>

definition handle_capital_sigma :: "str \<Rightarrow> str \<Rightarrow> nat" where
  "handle_capital_sigma before after =
     (let b = dropWhile case_ignorable before;
          a = dropWhile case_ignorable after
      in if (b \<noteq> [] \<and> cased (hd b)) \<and> (a = [] \<or> \<not> cased (hd a)) then 962 else 963)"

fun lower_from :: "str \<Rightarrow> str \<Rightarrow> str" where
  "lower_from before [] = []"
| "lower_from before (c # after) =
     (if c = 931 then [handle_capital_sigma before after] else to_lower_full c)
       @ lower_from (c # before) after"

definition py_lower :: "str \<Rightarrow> str" where
  "py_lower s = lower_from [] s"

text \<open>\<open>str.upper\<close>: the uppercase mapping of every code point, without context.\<close>

definition upper_table_1 :: "(nat \<times> nat list) list" where
  "upper_table_1 =
    [(181, [924]), (223, [83, 83]), (224, [192]), (225, [193]), (226, [194]), (227, [195]),
     (228, [196]), (229, [197]), (230, [198]), (231, [199]), (232, [200]), (233, [201]),
     (234, [202]), (235, [203]), (236, [204]), (237, [205]), (238, [206]), (239, [207]),
     (240, [208]), (241, [209]), (242, [210]), (243, [211]), (244, [212]), (245, [213]),
     (246, [214]), (248, [216]), (249, [217]), (250, [218]), (251, [219]), (252, [220]),
     (253, [221]), (254, [222])]"

definition upper_table_2 :: "(nat \<times> nat list) list" where
  "upper_table_2 =
    [(255, [376]), (257, [256]), (259, [258]), (261, [260]), (263, [262]), (265, [264]),
     (267, [266]), (269, [268]), (271, [270]), (273, [272]), (275, [274]), (277, [276]),
     (279, [278]), (281, [280]), (283, [282]), (285, [284]), (287, [286]), (289, [288]),
     (291, [290]), (293, [292]), (295, [294]), (297, [296]), (299, [298]), (301, [300]),
     (303, [302]), (305, [73]), (307, [306]), (309, [308]), (311, [310]), (314, [313]),
     (316, [315]), (318, [317])]"

definition upper_table_3 :: "(nat \<times> nat list) list" where
  "upper_table_3 =
    [(320, [319]), (322, [321]), (324, [323]), (326, [325]), (328, [327]), (329, [700, 78]),
     (331, [330]), (333, [332]), (335, [334]), (337, [336]), (339, [338]), (341, [340]),
     (343, [342]), (345, [344]), (347, [346]), (349, [348]), (351, [350]), (353, [352]),
     (355, [354]), (357, [356]), (359, [358]), (361, [360]), (363, [362]), (365, [364]),
     (367, [366]), (369, [368]), (371, [370]), (373, [372]), (375, [374]), (378, [377]),
     (380, [379]), (382, [381])]"

definition upper_table_4 :: "(nat \<times> nat list) list" where
  "upper_table_4 =
    [(383, [83]), (384, [579]), (387, [386]), (389, [388]), (392, [391]), (396, [395]),
     (402, [401]), (405, [502]), (409, [408]), (410, [573]), (414, [544]), (417, [416]),
     (419, [418]), (421, [420]), (424, [423]), (429, [428]), (432, [431]), (436, [435]),
     (438, [437]), (441, [440]), (445, [444]), (447, [503]), (453, [452]), (454, [452]),
     (456, [455]), (457, [455]), (459, [458]), (460, [458]), (462, [461]), (464, [463]),
     (466, [465]), (468, [467])]"

definition upper_table_5 :: "(nat \<times> nat list) list" where
  "upper_table_5 =
    [(470, [469]), (472, [471]), (474, [473]), (476, [475]), (477, [398]), (479, [478]),
     (481, [480]), (483, [482]), (485, [484]), (487, [486]), (489, [488]), (491, [490]),
     (493, [492]), (495, [494]), (496, [74, 780]), (498, [497]), (499, [497]), (501, [500]),
     (505, [504]), (507, [506]), (509, [508]), (511, [510]), (513, [512]), (515, [514]),
     (517, [516]), (519, [518]), (521, [520]), (523, [522]), (525, [524]), (527, [526]),
     (529, [528]), (531, [530])]"

definition upper_table_6 :: "(nat \<times> nat list) list" where
  "upper_table_6 =
    [(533, [532]), (535, [534]), (537, [536]), (539, [538]), (541, [540]), (543, [542]),
     (547, [546]), (549, [548]), (551, [550]), (553, [552]), (555, [554]), (557, [556]),
     (559, [558]), (561, [560]), (563, [562]), (572, [571]), (575, [11390]), (576, [11391]),
     (578, [577]), (583, [582]), (585, [584]), (587, [586]), (589, [588]), (591, [590]),
     (592, [11375]), (593, [11373]), (594, [11376]), (595, [385]), (596, [390]), (598, [393]),
     (599, [394]), (601, [399])]"

definition upper_table_7 :: "(nat \<times> nat list) list" where
  "upper_table_7 =
    [(603, [400]), (604, [42923]), (608, [403]), (609, [42924]), (611, [404]), (613, [42893]),
     (614, [42922]), (616, [407]), (617, [406]), (618, [42926]), (619, [11362]),
     (620, [42925]), (623, [412]), (625, [11374]), (626, [413]), (629, [415]), (637, [11364]),
     (640, [422]), (642, [42949]), (643, [425]), (647, [42929]), (648, [430]), (649, [580]),
     (650, [433]), (651, [434]), (652, [581]), (658, [439]), (669, [42930]), (670, [42928]),
     (837, [921]), (881, [880]), (883, [882])]"

definition upper_table_8 :: "(nat \<times> nat list) list" where
  "upper_table_8 =
    [(887, [886]), (891, [1021]), (892, [1022]), (893, [1023]), (912, [921, 776, 769]),
     (940, [902]), (941, [904]), (942, [905]), (943, [906]), (944, [933, 776, 769]),
     (945, [913]), (946, [914]), (947, [915]), (948, [916]), (949, [917]), (950, [918]),
     (951, [919]), (952, [920]), (953, [921]), (954, [922]), (955, [923]), (956, [924]),
     (957, [925]), (958, [926]), (959, [927]), (960, [928]), (961, [929]), (962, [931]),
     (963, [931]), (964, [932]), (965, [933]), (966, [934])]"

definition upper_table_9 :: "(nat \<times> nat list) list" where
  "upper_table_9 =
    [(967, [935]), (968, [936]), (969, [937]), (970, [938]), (971, [939]), (972, [908]),
     (973, [910]), (974, [911]), (976, [914]), (977, [920]), (981, [934]), (982, [928]),
     (983, [975]), (985, [984]), (987, [986]), (989, [988]), (991, [990]), (993, [992]),
     (995, [994]), (997, [996]), (999, [998]), (1001, [1000]), (1003, [1002]), (1005, [1004]),
     (1007, [1006]), (1008, [922]), (1009, [929]), (1010, [1017]), (1011, [895]),
     (1013, [917]), (1016, [1015]), (1019, [1018])]"

definition upper_table_10 :: "(nat \<times> nat list) list" where
  "upper_table_10 =
    [(1072, [1040]), (1073, [1041]), (1074, [1042]), (1075, [1043]), (1076, [1044]),
     (1077, [1045]), (1078, [1046]), (1079, [1047]), (1080, [1048]), (1081, [1049]),
     (1082, [1050]), (1083, [1051]), (1084, [1052]), (1085, [1053]), (1086, [1054]),
     (1087, [1055]), (1088, [1056]), (1089, [1057]), (1090, [1058]), (1091, [1059]),
     (1092, [1060]), (1093, [1061]), (1094, [1062]), (1095, [1063]), (1096, [1064]),
     (1097, [1065]), (1098, [1066]), (1099, [1067]), (1100, [1068]), (1101, [1069]),
     (1102, [1070]), (1103, [1071])]"

definition upper_table_11 :: "(nat \<times> nat list) list" where
  "upper_table_11 =
    [(1104, [1024]), (1105, [1025]), (1106, [1026]), (1107, [1027]), (1108, [1028]),
     (1109, [1029]), (1110, [1030]), (1111, [1031]), (1112, [1032]), (1113, [1033]),
     (1114, [1034]), (1115, [1035]), (1116, [1036]), (1117, [1037]), (1118, [1038]),
     (1119, [1039]), (1121, [1120]), (1123, [1122]), (1125, [1124]), (1127, [1126]),
     (1129, [1128]), (1131, [1130]), (1133, [1132]), (1135, [1134]), (1137, [1136]),
     (1139, [1138]), (1141, [1140]), (1143, [1142]), (1145, [1144]), (1147, [1146]),
     (1149, [1148]), (1151, [1150])]"

definition upper_table_12 :: "(nat \<times> nat list) list" where
  "upper_table_12 =
    [(1153, [1152]), (1163, [1162]), (1165, [1164]), (1167, [1166]), (1169, [1168]),
     (1171, [1170]), (1173, [1172]), (1175, [1174]), (1177, [1176]), (1179, [1178]),
     (1181, [1180]), (1183, [1182]), (1185, [1184]), (1187, [1186]), (1189, [1188]),
     (1191, [1190]), (1193, [1192]), (1195, [1194]), (1197, [1196]), (1199, [1198]),
     (1201, [1200]), (1203, [1202]), (1205, [1204]), (1207, [1206]), (1209, [1208]),
     (1211, [1210]), (1213, [1212]), (1215, [1214]), (1218, [1217]), (1220, [1219]),
     (1222, [1221]), (1224, [1223])]"

definition upper_table_13 :: "(nat \<times> nat list) list" where
  "upper_table_13 =
    [(1226, [1225]), (1228, [1227]), (1230, [1229]), (1231, [1216]), (1233, [1232]),
     (1235, [1234]), (1237, [1236]), (1239, [1238]), (1241, [1240]), (1243, [1242]),
     (1245, [1244]), (1247, [1246]), (1249, [1248]), (1251, [1250]), (1253, [1252]),
     (1255, [1254]), (1257, [1256]), (1259, [1258]), (1261, [1260]), (1263, [1262]),
     (1265, [1264]), (1267, [1266]), (1269, [1268]), (1271, [1270]), (1273, [1272]),
     (1275, [1274]), (1277, [1276]), (1279, [1278]), (1281, [1280]), (1283, [1282]),
     (1285, [1284]), (1287, [1286])]"

definition upper_table_14 :: "(nat \<times> nat list) list" where
  "upper_table_14 =
    [(1289, [1288]), (1291, [1290]), (1293, [1292]), (1295, [1294]), (1297, [1296]),
     (1299, [1298]), (1301, [1300]), (1303, [1302]), (1305, [1304]), (1307, [1306]),
     (1309, [1308]), (1311, [1310]), (1313, [1312]), (1315, [1314]), (1317, [1316]),
     (1319, [1318]), (1321, [1320]), (1323, [1322]), (1325, [1324]), (1327, [1326]),
     (1377, [1329]), (1378, [1330]), (1379, [1331]), (1380, [1332]), (1381, [1333]),
     (1382, [1334]), (1383, [1335]), (1384, [1336]), (1385, [1337]), (1386, [1338]),
     (1387, [1339]), (1388, [1340])]"

definition upper_table_15 :: "(nat \<times> nat list) list" where
  "upper_table_15 =
    [(1389, [1341]), (1390, [1342]), (1391, [1343]), (1392, [1344]), (1393, [1345]),
     (1394, [1346]), (1395, [1347]), (1396, [1348]), (1397, [1349]), (1398, [1350]),
     (1399, [1351]), (1400, [1352]), (1401, [1353]), (1402, [1354]), (1403, [1355]),
     (1404, [1356]), (1405, [1357]), (1406, [1358]), (1407, [1359]), (1408, [1360]),
     (1409, [1361]), (1410, [1362]), (1411, [1363]), (1412, [1364]), (1413, [1365]),
     (1414, [1366]), (1415, [1333, 1362]), (4304, [7312]), (4305, [7313]), (4306, [7314]),
     (4307, [7315]), (4308, [7316])]"

definition upper_table_16 :: "(nat \<times> nat list) list" where
  "upper_table_16 =
    [(4309, [7317]), (4310, [7318]), (4311, [7319]), (4312, [7320]), (4313, [7321]),
     (4314, [7322]), (4315, [7323]), (4316, [7324]), (4317, [7325]), (4318, [7326]),
     (4319, [7327]), (4320, [7328]), (4321, [7329]), (4322, [7330]), (4323, [7331]),
     (4324, [7332]), (4325, [7333]), (4326, [7334]), (4327, [7335]), (4328, [7336]),
     (4329, [7337]), (4330, [7338]), (4331, [7339]), (4332, [7340]), (4333, [7341]),
     (4334, [7342]), (4335, [7343]), (4336, [7344]), (4337, [7345]), (4338, [7346]),
     (4339, [7347]), (4340, [7348])]"

definition upper_table_17 :: "(nat \<times> nat list) list" where
  "upper_table_17 =
    [(4341, [7349]), (4342, [7350]), (4343, [7351]), (4344, [7352]), (4345, [7353]),
     (4346, [7354]), (4349, [7357]), (4350, [7358]), (4351, [7359]), (5112, [5104]),
     (5113, [5105]), (5114, [5106]), (5115, [5107]), (5116, [5108]), (5117, [5109]),
     (7296, [1042]), (7297, [1044]), (7298, [1054]), (7299, [1057]), (7300, [1058]),
     (7301, [1058]), (7302, [1066]), (7303, [1122]), (7304, [42570]), (7545, [42877]),
     (7549, [11363]), (7566, [42950]), (7681, [7680]), (7683, [7682]), (7685, [7684]),
     (7687, [7686]), (7689, [7688])]"

definition upper_table_18 :: "(nat \<times> nat list) list" where
  "upper_table_18 =
    [(7691, [7690]), (7693, [7692]), (7695, [7694]), (7697, [7696]), (7699, [7698]),
     (7701, [7700]), (7703, [7702]), (7705, [7704]), (7707, [7706]), (7709, [7708]),
     (7711, [7710]), (7713, [7712]), (7715, [7714]), (7717, [7716]), (7719, [7718]),
     (7721, [7720]), (7723, [7722]), (7725, [7724]), (7727, [7726]), (7729, [7728]),
     (7731, [7730]), (7733, [7732]), (7735, [7734]), (7737, [7736]), (7739, [7738]),
     (7741, [7740]), (7743, [7742]), (7745, [7744]), (7747, [7746]), (7749, [7748]),
     (7751, [7750]), (7753, [7752])]"

definition upper_table_19 :: "(nat \<times> nat list) list" where
  "upper_table_19 =
    [(7755, [7754]), (7757, [7756]), (7759, [7758]), (7761, [7760]), (7763, [7762]),
     (7765, [7764]), (7767, [7766]), (7769, [7768]), (7771, [7770]), (7773, [7772]),
     (7775, [7774]), (7777, [7776]), (7779, [7778]), (7781, [7780]), (7783, [7782]),
     (7785, [7784]), (7787, [7786]), (7789, [7788]), (7791, [7790]), (7793, [7792]),
     (7795, [7794]), (7797, [7796]), (7799, [7798]), (7801, [7800]), (7803, [7802]),
     (7805, [7804]), (7807, [7806]), (7809, [7808]), (7811, [7810]), (7813, [7812]),
     (7815, [7814]), (7817, [7816])]"

definition upper_table_20 :: "(nat \<times> nat list) list" where
  "upper_table_20 =
    [(7819, [7818]), (7821, [7820]), (7823, [7822]), (7825, [7824]), (7827, [7826]),
     (7829, [7828]), (7830, [72, 817]), (7831, [84, 776]), (7832, [87, 778]),
     (7833, [89, 778]), (7834, [65, 702]), (7835, [7776]), (7841, [7840]), (7843, [7842]),
     (7845, [7844]), (7847, [7846]), (7849, [7848]), (7851, [7850]), (7853, [7852]),
     (7855, [7854]), (7857, [7856]), (7859, [7858]), (7861, [7860]), (7863, [7862]),
     (7865, [7864]), (7867, [7866]), (7869, [7868]), (7871, [7870]), (7873, [7872]),
     (7875, [7874]), (7877, [7876]), (7879, [7878])]"

definition upper_table_21 :: "(nat \<times> nat list) list" where
  "upper_table_21 =
    [(7881, [7880]), (7883, [7882]), (7885, [7884]), (7887, [7886]), (7889, [7888]),
     (7891, [7890]), (7893, [7892]), (7895, [7894]), (7897, [7896]), (7899, [7898]),
     (7901, [7900]), (7903, [7902]), (7905, [7904]), (7907, [7906]), (7909, [7908]),
     (7911, [7910]), (7913, [7912]), (7915, [7914]), (7917, [7916]), (7919, [7918]),
     (7921, [7920]), (7923, [7922]), (7925, [7924]), (7927, [7926]), (7929, [7928]),
     (7931, [7930]), (7933, [7932]), (7935, [7934]), (7936, [7944]), (7937, [7945]),
     (7938, [7946]), (7939, [7947])]"

definition upper_table_22 :: "(nat \<times> nat list) list" where
  "upper_table_22 =
    [(7940, [7948]), (7941, [7949]), (7942, [7950]), (7943, [7951]), (7952, [7960]),
     (7953, [7961]), (7954, [7962]), (7955, [7963]), (7956, [7964]), (7957, [7965]),
     (7968, [7976]), (7969, [7977]), (7970, [7978]), (7971, [7979]), (7972, [7980]),
     (7973, [7981]), (7974, [7982]), (7975, [7983]), (7984, [7992]), (7985, [7993]),
     (7986, [7994]), (7987, [7995]), (7988, [7996]), (7989, [7997]), (7990, [7998]),
     (7991, [7999]), (8000, [8008]), (8001, [8009]), (8002, [8010]), (8003, [8011]),
     (8004, [8012]), (8005, [8013])]"

definition upper_table_23 :: "(nat \<times> nat list) list" where
  "upper_table_23 =
    [(8016, [933, 787]), (8017, [8025]), (8018, [933, 787, 768]), (8019, [8027]),
     (8020, [933, 787, 769]), (8021, [8029]), (8022, [933, 787, 834]), (8023, [8031]),
     (8032, [8040]), (8033, [8041]), (8034, [8042]), (8035, [8043]), (8036, [8044]),
     (8037, [8045]), (8038, [8046]), (8039, [8047]), (8048, [8122]), (8049, [8123]),
     (8050, [8136]), (8051, [8137]), (8052, [8138]), (8053, [8139]), (8054, [8154]),
     (8055, [8155]), (8056, [8184]), (8057, [8185]), (8058, [8170]), (8059, [8171]),
     (8060, [8186]), (8061, [8187]), (8064, [7944, 921]), (8065, [7945, 921])]"

definition upper_table_24 :: "(nat \<times> nat list) list" where
  "upper_table_24 =
    [(8066, [7946, 921]), (8067, [7947, 921]), (8068, [7948, 921]), (8069, [7949, 921]),
     (8070, [7950, 921]), (8071, [7951, 921]), (8072, [7944, 921]), (8073, [7945, 921]),
     (8074, [7946, 921]), (8075, [7947, 921]), (8076, [7948, 921]), (8077, [7949, 921]),
     (8078, [7950, 921]), (8079, [7951, 921]), (8080, [7976, 921]), (8081, [7977, 921]),
     (8082, [7978, 921]), (8083, [7979, 921]), (8084, [7980, 921]), (8085, [7981, 921]),
     (8086, [7982, 921]), (8087, [7983, 921]), (8088, [7976, 921]), (8089, [7977, 921]),
     (8090, [7978, 921]), (8091, [7979, 921]), (8092, [7980, 921]), (8093, [7981, 921]),
     (8094, [7982, 921]), (8095, [7983, 921]), (8096, [8040, 921]), (8097, [8041, 921])]"

definition upper_table_25 :: "(nat \<times> nat list) list" where
  "upper_table_25 =
    [(8098, [8042, 921]), (8099, [8043, 921]), (8100, [8044, 921]), (8101, [8045, 921]),
     (8102, [8046, 921]), (8103, [8047, 921]), (8104, [8040, 921]), (8105, [8041, 921]),
     (8106, [8042, 921]), (8107, [8043, 921]), (8108, [8044, 921]), (8109, [8045, 921]),
     (8110, [8046, 921]), (8111, [8047, 921]), (8112, [8120]), (8113, [8121]),
     (8114, [8122, 921]), (8115, [913, 921]), (8116, [902, 921]), (8118, [913, 834]),
     (8119, [913, 834, 921]), (8124, [913, 921]), (8126, [921]), (8130, [8138, 921]),
     (8131, [919, 921]), (8132, [905, 921]), (8134, [919, 834]), (8135, [919, 834, 921]),
     (8140, [919, 921]), (8144, [8152]), (8145, [8153]), (8146, [921, 776, 768])]"

definition upper_table_26 :: "(nat \<times> nat list) list" where
  "upper_table_26 =
    [(8147, [921, 776, 769]), (8150, [921, 834]), (8151, [921, 776, 834]), (8160, [8168]),
     (8161, [8169]), (8162, [933, 776, 768]), (8163, [933, 776, 769]), (8164, [929, 787]),
     (8165, [8172]), (8166, [933, 834]), (8167, [933, 776, 834]), (8178, [8186, 921]),
     (8179, [937, 921]), (8180, [911, 921]), (8182, [937, 834]), (8183, [937, 834, 921]),
     (8188, [937, 921]), (8526, [8498]), (8560, [8544]), (8561, [8545]), (8562, [8546]),
     (8563, [8547]), (8564, [8548]), (8565, [8549]), (8566, [8550]), (8567, [8551]),
     (8568, [8552]), (8569, [8553]), (8570, [8554]), (8571, [8555]), (8572, [8556]),
     (8573, [8557])]"

definition upper_table_27 :: "(nat \<times> nat list) list" where
  "upper_table_27 =
    [(8574, [8558]), (8575, [8559]), (8580, [8579]), (9424, [9398]), (9425, [9399]),
     (9426, [9400]), (9427, [9401]), (9428, [9402]), (9429, [9403]), (9430, [9404]),
     (9431, [9405]), (9432, [9406]), (9433, [9407]), (9434, [9408]), (9435, [9409]),
     (9436, [9410]), (9437, [9411]), (9438, [9412]), (9439, [9413]), (9440, [9414]),
     (9441, [9415]), (9442, [9416]), (9443, [9417]), (9444, [9418]), (9445, [9419]),
     (9446, [9420]), (9447, [9421]), (9448, [9422]), (9449, [9423]), (11312, [11264]),
     (11313, [11265]), (11314, [11266])]"

definition upper_table_28 :: "(nat \<times> nat list) list" where
  "upper_table_28 =
    [(11315, [11267]), (11316, [11268]), (11317, [11269]), (11318, [11270]), (11319, [11271]),
     (11320, [11272]), (11321, [11273]), (11322, [11274]), (11323, [11275]), (11324, [11276]),
     (11325, [11277]), (11326, [11278]), (11327, [11279]), (11328, [11280]), (11329, [11281]),
     (11330, [11282]), (11331, [11283]), (11332, [11284]), (11333, [11285]), (11334, [11286]),
     (11335, [11287]), (11336, [11288]), (11337, [11289]), (11338, [11290]), (11339, [11291]),
     (11340, [11292]), (11341, [11293]), (11342, [11294]), (11343, [11295]), (11344, [11296]),
     (11345, [11297]), (11346, [11298])]"

definition upper_table_29 :: "(nat \<times> nat list) list" where
  "upper_table_29 =
    [(11347, [11299]), (11348, [11300]), (11349, [11301]), (11350, [11302]), (11351, [11303]),
     (11352, [11304]), (11353, [11305]), (11354, [11306]), (11355, [11307]), (11356, [11308]),
     (11357, [11309]), (11358, [11310]), (11359, [11311]), (11361, [11360]), (11365, [570]),
     (11366, [574]), (11368, [11367]), (11370, [11369]), (11372, [11371]), (11379, [11378]),
     (11382, [11381]), (11393, [11392]), (11395, [11394]), (11397, [11396]), (11399, [11398]),
     (11401, [11400]), (11403, [11402]), (11405, [11404]), (11407, [11406]), (11409, [11408]),
     (11411, [11410]), (11413, [11412])]"

definition upper_table_30 :: "(nat \<times> nat list) list" where
  "upper_table_30 =
    [(11415, [11414]), (11417, [11416]), (11419, [11418]), (11421, [11420]), (11423, [11422]),
     (11425, [11424]), (11427, [11426]), (11429, [11428]), (11431, [11430]), (11433, [11432]),
     (11435, [11434]), (11437, [11436]), (11439, [11438]), (11441, [11440]), (11443, [11442]),
     (11445, [11444]), (11447, [11446]), (11449, [11448]), (11451, [11450]), (11453, [11452]),
     (11455, [11454]), (11457, [11456]), (11459, [11458]), (11461, [11460]), (11463, [11462]),
     (11465, [11464]), (11467, [11466]), (11469, [11468]), (11471, [11470]), (11473, [11472]),
     (11475, [11474]), (11477, [11476])]"

definition upper_table_31 :: "(nat \<times> nat list) list" where
  "upper_table_31 =
    [(11479, [11478]), (11481, [11480]), (11483, [11482]), (11485, [11484]), (11487, [11486]),
     (11489, [11488]), (11491, [11490]), (11500, [11499]), (11502, [11501]), (11507, [11506]),
     (11520, [4256]), (11521, [4257]), (11522, [4258]), (11523, [4259]), (11524, [4260]),
     (11525, [4261]), (11526, [4262]), (11527, [4263]), (11528, [4264]), (11529, [4265]),
     (11530, [4266]), (11531, [4267]), (11532, [4268]), (11533, [4269]), (11534, [4270]),
     (11535, [4271]), (11536, [4272]), (11537, [4273]), (11538, [4274]), (11539, [4275]),
     (11540, [4276]), (11541, [4277])]"

definition upper_table_32 :: "(nat \<times> nat list) list" where
  "upper_table_32 =
    [(11542, [4278]), (11543, [4279]), (11544, [4280]), (11545, [4281]), (11546, [4282]),
     (11547, [4283]), (11548, [4284]), (11549, [4285]), (11550, [4286]), (11551, [4287]),
     (11552, [4288]), (11553, [4289]), (11554, [4290]), (11555, [4291]), (11556, [4292]),
     (11557, [4293]), (11559, [4295]), (11565, [4301]), (42561, [42560]), (42563, [42562]),
     (42565, [42564]), (42567, [42566]), (42569, [42568]), (42571, [42570]), (42573, [42572]),
     (42575, [42574]), (42577, [42576]), (42579, [42578]), (42581, [42580]), (42583, [42582]),
     (42585, [42584]), (42587, [42586])]"

definition upper_table_33 :: "(nat \<times> nat list) list" where
  "upper_table_33 =
    [(42589, [42588]), (42591, [42590]), (42593, [42592]), (42595, [42594]), (42597, [42596]),
     (42599, [42598]), (42601, [42600]), (42603, [42602]), (42605, [42604]), (42625, [42624]),
     (42627, [42626]), (42629, [42628]), (42631, [42630]), (42633, [42632]), (42635, [42634]),
     (42637, [42636]), (42639, [42638]), (42641, [42640]), (42643, [42642]), (42645, [42644]),
     (42647, [42646]), (42649, [42648]), (42651, [42650]), (42787, [42786]), (42789, [42788]),
     (42791, [42790]), (42793, [42792]), (42795, [42794]), (42797, [42796]), (42799, [42798]),
     (42803, [42802]), (42805, [42804])]"

definition upper_table_34 :: "(nat \<times> nat list) list" where
  "upper_table_34 =
    [(42807, [42806]), (42809, [42808]), (42811, [42810]), (42813, [42812]), (42815, [42814]),
     (42817, [42816]), (42819, [42818]), (42821, [42820]), (42823, [42822]), (42825, [42824]),
     (42827, [42826]), (42829, [42828]), (42831, [42830]), (42833, [42832]), (42835, [42834]),
     (42837, [42836]), (42839, [42838]), (42841, [42840]), (42843, [42842]), (42845, [42844]),
     (42847, [42846]), (42849, [42848]), (42851, [42850]), (42853, [42852]), (42855, [42854]),
     (42857, [42856]), (42859, [42858]), (42861, [42860]), (42863, [42862]), (42874, [42873]),
     (42876, [42875]), (42879, [42878])]"

definition upper_table_35 :: "(nat \<times> nat list) list" where
  "upper_table_35 =
    [(42881, [42880]), (42883, [42882]), (42885, [42884]), (42887, [42886]), (42892, [42891]),
     (42897, [42896]), (42899, [42898]), (42900, [42948]), (42903, [42902]), (42905, [42904]),
     (42907, [42906]), (42909, [42908]), (42911, [42910]), (42913, [42912]), (42915, [42914]),
     (42917, [42916]), (42919, [42918]), (42921, [42920]), (42933, [42932]), (42935, [42934]),
     (42937, [42936]), (42939, [42938]), (42941, [42940]), (42943, [42942]), (42945, [42944]),
     (42947, [42946]), (42952, [42951]), (42954, [42953]), (42961, [42960]), (42967, [42966]),
     (42969, [42968]), (42998, [42997])]"

definition upper_table_36 :: "(nat \<times> nat list) list" where
  "upper_table_36 =
    [(43859, [42931]), (43888, [5024]), (43889, [5025]), (43890, [5026]), (43891, [5027]),
     (43892, [5028]), (43893, [5029]), (43894, [5030]), (43895, [5031]), (43896, [5032]),
     (43897, [5033]), (43898, [5034]), (43899, [5035]), (43900, [5036]), (43901, [5037]),
     (43902, [5038]), (43903, [5039]), (43904, [5040]), (43905, [5041]), (43906, [5042]),
     (43907, [5043]), (43908, [5044]), (43909, [5045]), (43910, [5046]), (43911, [5047]),
     (43912, [5048]), (43913, [5049]), (43914, [5050]), (43915, [5051]), (43916, [5052]),
     (43917, [5053]), (43918, [5054])]"

definition upper_table_37 :: "(nat \<times> nat list) list" where
  "upper_table_37 =
    [(43919, [5055]), (43920, [5056]), (43921, [5057]), (43922, [5058]), (43923, [5059]),
     (43924, [5060]), (43925, [5061]), (43926, [5062]), (43927, [5063]), (43928, [5064]),
     (43929, [5065]), (43930, [5066]), (43931, [5067]), (43932, [5068]), (43933, [5069]),
     (43934, [5070]), (43935, [5071]), (43936, [5072]), (43937, [5073]), (43938, [5074]),
     (43939, [5075]), (43940, [5076]), (43941, [5077]), (43942, [5078]), (43943, [5079]),
     (43944, [5080]), (43945, [5081]), (43946, [5082]), (43947, [5083]), (43948, [5084]),
     (43949, [5085]), (43950, [5086])]"

definition upper_table_38 :: "(nat \<times> nat list) list" where
  "upper_table_38 =
    [(43951, [5087]), (43952, [5088]), (43953, [5089]), (43954, [5090]), (43955, [5091]),
     (43956, [5092]), (43957, [5093]), (43958, [5094]), (43959, [5095]), (43960, [5096]),
     (43961, [5097]), (43962, [5098]), (43963, [5099]), (43964, [5100]), (43965, [5101]),
     (43966, [5102]), (43967, [5103]), (64256, [70, 70]), (64257, [70, 73]), (64258, [70, 76]),
     (64259, [70, 70, 73]), (64260, [70, 70, 76]), (64261, [83, 84]), (64262, [83, 84]),
     (64275, [1348, 1350]), (64276, [1348, 1333]), (64277, [1348, 1339]),
     (64278, [1358, 1350]), (64279, [1348, 1341]), (65345, [65313]), (65346, [65314]),
     (65347, [65315])]"

definition upper_table_39 :: "(nat \<times> nat list) list" where
  "upper_table_39 =
    [(65348, [65316]), (65349, [65317]), (65350, [65318]), (65351, [65319]), (65352, [65320]),
     (65353, [65321]), (65354, [65322]), (65355, [65323]), (65356, [65324]), (65357, [65325]),
     (65358, [65326]), (65359, [65327]), (65360, [65328]), (65361, [65329]), (65362, [65330]),
     (65363, [65331]), (65364, [65332]), (65365, [65333]), (65366, [65334]), (65367, [65335]),
     (65368, [65336]), (65369, [65337]), (65370, [65338]), (66600, [66560]), (66601, [66561]),
     (66602, [66562]), (66603, [66563]), (66604, [66564]), (66605, [66565]), (66606, [66566]),
     (66607, [66567]), (66608, [66568])]"

definition upper_table_40 :: "(nat \<times> nat list) list" where
  "upper_table_40 =
    [(66609, [66569]), (66610, [66570]), (66611, [66571]), (66612, [66572]), (66613, [66573]),
     (66614, [66574]), (66615, [66575]), (66616, [66576]), (66617, [66577]), (66618, [66578]),
     (66619, [66579]), (66620, [66580]), (66621, [66581]), (66622, [66582]), (66623, [66583]),
     (66624, [66584]), (66625, [66585]), (66626, [66586]), (66627, [66587]), (66628, [66588]),
     (66629, [66589]), (66630, [66590]), (66631, [66591]), (66632, [66592]), (66633, [66593]),
     (66634, [66594]), (66635, [66595]), (66636, [66596]), (66637, [66597]), (66638, [66598]),
     (66639, [66599]), (66776, [66736])]"

definition upper_table_41 :: "(nat \<times> nat list) list" where
  "upper_table_41 =
    [(66777, [66737]), (66778, [66738]), (66779, [66739]), (66780, [66740]), (66781, [66741]),
     (66782, [66742]), (66783, [66743]), (66784, [66744]), (66785, [66745]), (66786, [66746]),
     (66787, [66747]), (66788, [66748]), (66789, [66749]), (66790, [66750]), (66791, [66751]),
     (66792, [66752]), (66793, [66753]), (66794, [66754]), (66795, [66755]), (66796, [66756]),
     (66797, [66757]), (66798, [66758]), (66799, [66759]), (66800, [66760]), (66801, [66761]),
     (66802, [66762]), (66803, [66763]), (66804, [66764]), (66805, [66765]), (66806, [66766]),
     (66807, [66767]), (66808, [66768])]"

definition upper_table_42 :: "(nat \<times> nat list) list" where
  "upper_table_42 =
    [(66809, [66769]), (66810, [66770]), (66811, [66771]), (66967, [66928]), (66968, [66929]),
     (66969, [66930]), (66970, [66931]), (66971, [66932]), (66972, [66933]), (66973, [66934]),
     (66974, [66935]), (66975, [66936]), (66976, [66937]), (66977, [66938]), (66979, [66940]),
     (66980, [66941]), (66981, [66942]), (66982, [66943]), (66983, [66944]), (66984, [66945]),
     (66985, [66946]), (66986, [66947]), (66987, [66948]), (66988, [66949]), (66989, [66950]),
     (66990, [66951]), (66991, [66952]), (66992, [66953]), (66993, [66954]), (66995, [66956]),
     (66996, [66957]), (66997, [66958])]"

definition upper_table_43 :: "(nat \<times> nat list) list" where
  "upper_table_43 =
    [(66998, [66959]), (66999, [66960]), (67000, [66961]), (67001, [66962]), (67003, [66964]),
     (67004, [66965]), (68800, [68736]), (68801, [68737]), (68802, [68738]), (68803, [68739]),
     (68804, [68740]), (68805, [68741]), (68806, [68742]), (68807, [68743]), (68808, [68744]),
     (68809, [68745]), (68810, [68746]), (68811, [68747]), (68812, [68748]), (68813, [68749]),
     (68814, [68750]), (68815, [68751]), (68816, [68752]), (68817, [68753]), (68818, [68754]),
     (68819, [68755]), (68820, [68756]), (68821, [68757]), (68822, [68758]), (68823, [68759]),
     (68824, [68760]), (68825, [68761])]"

definition upper_table_44 :: "(nat \<times> nat list) list" where
  "upper_table_44 =
    [(68826, [68762]), (68827, [68763]), (68828, [68764]), (68829, [68765]), (68830, [68766]),
     (68831, [68767]), (68832, [68768]), (68833, [68769]), (68834, [68770]), (68835, [68771]),
     (68836, [68772]), (68837, [68773]), (68838, [68774]), (68839, [68775]), (68840, [68776]),
     (68841, [68777]), (68842, [68778]), (68843, [68779]), (68844, [68780]), (68845, [68781]),
     (68846, [68782]), (68847, [68783]), (68848, [68784]), (68849, [68785]), (68850, [68786]),
     (71872, [71840]), (71873, [71841]), (71874, [71842]), (71875, [71843]), (71876, [71844]),
     (71877, [71845]), (71878, [71846])]"

definition upper_table_45 :: "(nat \<times> nat list) list" where
  "upper_table_45 =
    [(71879, [71847]), (71880, [71848]), (71881, [71849]), (71882, [71850]), (71883, [71851]),
     (71884, [71852]), (71885, [71853]), (71886, [71854]), (71887, [71855]), (71888, [71856]),
     (71889, [71857]), (71890, [71858]), (71891, [71859]), (71892, [71860]), (71893, [71861]),
     (71894, [71862]), (71895, [71863]), (71896, [71864]), (71897, [71865]), (71898, [71866]),
     (71899, [71867]), (71900, [71868]), (71901, [71869]), (71902, [71870]), (71903, [71871]),
     (93792, [93760]), (93793, [93761]), (93794, [93762]), (93795, [93763]), (93796, [93764]),
     (93797, [93765]), (93798, [93766])]"

definition upper_table_46 :: "(nat \<times> nat list) list" where
  "upper_table_46 =
    [(93799, [93767]), (93800, [93768]), (93801, [93769]), (93802, [93770]), (93803, [93771]),
     (93804, [93772]), (93805, [93773]), (93806, [93774]), (93807, [93775]), (93808, [93776]),
     (93809, [93777]), (93810, [93778]), (93811, [93779]), (93812, [93780]), (93813, [93781]),
     (93814, [93782]), (93815, [93783]), (93816, [93784]), (93817, [93785]), (93818, [93786]),
     (93819, [93787]), (93820, [93788]), (93821, [93789]), (93822, [93790]), (93823, [93791]),
     (125218, [125184]), (125219, [125185]), (125220, [125186]), (125221, [125187]),
     (125222, [125188]), (125223, [125189]), (125224, [125190])]"

definition upper_table_47 :: "(nat \<times> nat list) list" where
  "upper_table_47 =
    [(125225, [125191]), (125226, [125192]), (125227, [125193]), (125228, [125194]),
     (125229, [125195]), (125230, [125196]), (125231, [125197]), (125232, [125198]),
     (125233, [125199]), (125234, [125200]), (125235, [125201]), (125236, [125202]),
     (125237, [125203]), (125238, [125204]), (125239, [125205]), (125240, [125206]),
     (125241, [125207]), (125242, [125208]), (125243, [125209]), (125244, [125210]),
     (125245, [125211]), (125246, [125212]), (125247, [125213]), (125248, [125214]),
     (125249, [125215]), (125250, [125216]), (125251, [125217])]"

definition upper_lookup :: "nat \<Rightarrow> nat list option" where
  "upper_lookup c =
     (if c \<le> 254 then table_lookup c upper_table_1
      else if c \<le> 318 then table_lookup c upper_table_2
      else if c \<le> 382 then table_lookup c upper_table_3
      else if c \<le> 468 then table_lookup c upper_table_4
      else if c \<le> 531 then table_lookup c upper_table_5
      else if c \<le> 601 then table_lookup c upper_table_6
      else if c \<le> 883 then table_lookup c upper_table_7
      else if c \<le> 966 then table_lookup c upper_table_8
      else if c \<le> 1019 then table_lookup c upper_table_9
      else if c \<le> 1103 then table_lookup c upper_table_10
      else if c \<le> 1151 then table_lookup c upper_table_11
      else if c \<le> 1224 then table_lookup c upper_table_12
      else if c \<le> 1287 then table_lookup c upper_table_13
      else if c \<le> 1388 then table_lookup c upper_table_14
      else if c \<le> 4308 then table_lookup c upper_table_15
      else if c \<le> 4340 then table_lookup c upper_table_16
      else if c \<le> 7689 then table_lookup c upper_table_17
      else if c \<le> 7753 then table_lookup c upper_table_18
      else if c \<le> 7817 then table_lookup c upper_table_19
      else if c \<le> 7879 then table_lookup c upper_table_20
      else if c \<le> 7939 then table_lookup c upper_table_21
      else if c \<le> 8005 then table_lookup c upper_table_22
      else if c \<le> 8065 then table_lookup c upper_table_23
      else if c \<le> 8097 then table_lookup c upper_table_24
      else if c \<le> 8146 then table_lookup c upper_table_25
      else if c \<le> 8573 then table_lookup c upper_table_26
      else if c \<le> 11314 then table_lookup c upper_table_27
      else if c \<le> 11346 then table_lookup c upper_table_28
      else if c \<le> 11413 then table_lookup c upper_table_29
      else if c \<le> 11477 then table_lookup c upper_table_30
      else if c \<le> 11541 then table_lookup c upper_table_31
      else if c \<le> 42587 then table_lookup c upper_table_32
      else if c \<le> 42805 then table_lookup c upper_table_33
      else if c \<le> 42879 then table_lookup c upper_table_34
      else if c \<le> 42998 then table_lookup c upper_table_35
      else if c \<le> 43918 then table_lookup c upper_table_36
      else if c \<le> 43950 then table_lookup c upper_table_37
      else if c \<le> 65347 then table_lookup c upper_table_38
      else if c \<le> 66608 then table_lookup c upper_table_39
      else if c \<le> 66776 then table_lookup c upper_table_40
      else if c \<le> 66808 then table_lookup c upper_table_41
      else if c \<le> 66997 then table_lookup c upper_table_42
      else if c \<le> 68825 then table_lookup c upper_table_43
      else if c \<le> 71878 then table_lookup c upper_table_44
      else if c \<le> 93798 then table_lookup c upper_table_45
      else if c \<le> 125224 then table_lookup c upper_table_46
      else table_lookup c upper_table_47)"

definition to_upper_full :: "nat \<Rightarrow> str" where
  "to_upper_full c =
     (if c < 128 then (if 97 \<le> c \<and> c \<le> 122 then [c - 32] else [c])
      else (case upper_lookup c of None \<Rightarrow> [c] | Some m \<Rightarrow> m))"

definition py_upper :: "str \<Rightarrow> str" where
  "py_upper s = concat (map to_upper_full s)"

text \<open>\<open>s.strip()\<close>: drop the white space at both ends.\<close>

definition py_strip :: "str \<Rightarrow> str" where
  "py_strip s = rev (dropWhile isspace (rev (dropWhile isspace s)))"

text \<open>\<open>x in y\<close> on strings: \<open>x\<close> occurs in \<open>y\<close> as a contiguous run.\<close>

fun startswith :: "str \<Rightarrow> str \<Rightarrow> bool" where
  "startswith ys [] = True"
| "startswith [] (x # xs) = False"
| "startswith (y # ys) (x # xs) = (x = y \<and> startswith ys xs)"

fun py_in :: "str \<Rightarrow> str \<Rightarrow> bool" where
  "py_in xs [] = (xs = [])"
| "py_in xs (y # ys) = (startswith (y # ys) xs \<or> py_in xs ys)"

text \<open>\<open>s.split('_')\<close>, with the separator as a parameter.\<close>

fun py_split :: "nat \<Rightarrow> str \<Rightarrow> str list" where
  "py_split sep [] = [[]]"
| "py_split sep (c # cs) =
     (if c = sep then [] # py_split sep cs
      else (case py_split sep cs of
              [] \<Rightarrow> [[c]]
            | p # ps \<Rightarrow> (c # p) # ps))"

text \<open>\<open>s.replace('*', '')\<close>, with the removed character as a parameter.\<close>

definition py_remove :: "nat \<Rightarrow> str \<Rightarrow> str" where
  "py_remove x s = filter (\<lambda>c. c \<noteq> x) s"

text \<open>\<open>str(n)\<close> for an integer: decimal digits, most significant first, \<open>-\<close> in front of a
  negative number.\<close>

fun digits :: "nat \<Rightarrow> str" where
  "digits n = (if n < 10 then [48 + n] else digits (n div 10) @ [48 + n mod 10])"

declare digits.simps [simp del]

definition py_str_int :: "int \<Rightarrow> str" where
  "py_str_int i = (if i < 0 then 45 # digits (nat (- i)) else digits (nat i))"

section \<open>Text normalizer\<close>

text \<open>
  The expression \<open>re.sub(r'[^\w\s]', '', str(x).strip()).lower()\<close> of lines 143 and 158 of
  \<open>add_fault_codes_for_board\<close>: strip first, then delete every character that is neither a
  word character nor white space, then lowercase.
\<close>

definition re_sub_nonword :: "str \<Rightarrow> str" where
  "re_sub_nonword s = filter (\<lambda>c. isword c \<or> isspace c) s"

definition normalize_text :: "str \<Rightarrow> str" where
  "normalize_text x = py_lower (re_sub_nonword (py_strip x))"

text \<open>
  The normalizer as section 4.1 of the specification words it: remove all characters that
  are not alphanumeric or white space, lowercase the result, trim.
\<close>

definition spec_normalize :: "str \<Rightarrow> str" where
  "spec_normalize x = py_strip (py_lower (filter (\<lambda>c. isalnum c \<or> isspace c) x))"

section \<open>Data model\<close>

text \<open>
  A cell of a text column read by \<open>pandas.read_excel\<close> is a string or missing (NaN).
  \<open>astype(str)\<close> is Python's \<open>str\<close> on each element, which turns NaN into the three
  characters \<open>nan\<close> (pandas before 3.0). How \<open>astype(str)\<close> prints a number found in a
  text column depends on the inferred dtype and on float formatting and is not
  modelled: such a cell is represented by its text.
\<close>

type_synonym text_cell = "str option"

definition astype_str :: "text_cell \<Rightarrow> str" where
  "astype_str c = (case c of None \<Rightarrow> asc ''nan'' | Some s \<Rightarrow> s)"

text \<open>
  A cell of an offset column is missing, a finite float, taken as the rational number it
  denotes, or a text. A text cell is given by what \<open>int\<close> of the interpreter makes of it:
  the integer it reads, or nothing when \<open>int\<close> raises \<open>ValueError\<close>.
\<close>

datatype num_cell = NaN | Num rat | Txt "int option"

datatype py_error =
    FileNotFoundError
  | ValueError
  | OverflowError
  | KeyError "str list"
  | IndexError

definition in_int64 :: "int \<Rightarrow> bool" where
  "in_int64 n = (- (2 ^ 63) \<le> n \<and> n < 2 ^ 63)"

text \<open>Cutting off the fraction of a float, towards zero.\<close>

definition trunc :: "rat \<Rightarrow> int" where
  "trunc q = (if 0 \<le> q then \<lfloor>q\<rfloor> else \<lceil>q\<rceil>)"

text \<open>
  \<open>fillna(0).astype(int)\<close> on a column. Without a text cell the column is a column of
  floats and every value is cast to a 64-bit integer: the fraction is cut off, and a value
  outside the 64-bit range gives \<open>-2^63\<close> (the cast of numpy on x86-64). With a text cell
  the column is a column of objects and every element goes through \<open>int\<close>: a text that is
  no integer raises \<open>ValueError\<close>, and an integer outside the 64-bit range raises
  \<open>OverflowError\<close>; the first element that raises ends the conversion.
\<close>

fun is_txt :: "num_cell \<Rightarrow> bool" where
  "is_txt (Txt t) = True"
| "is_txt c = False"

fun cast_float :: "num_cell \<Rightarrow> int" where
  "cast_float (Num q) = (if in_int64 (trunc q) then trunc q else - (2 ^ 63))"
| "cast_float c = 0"

fun cast_object :: "num_cell \<Rightarrow> py_error + int" where
  "cast_object NaN = Inr 0"
| "cast_object (Num q) = (if in_int64 (trunc q) then Inr (trunc q) else Inl OverflowError)"
| "cast_object (Txt None) = Inl ValueError"
| "cast_object (Txt (Some n)) = (if in_int64 n then Inr n else Inl OverflowError)"

fun first_error :: "(py_error + 'a) list \<Rightarrow> py_error + 'a list" where
  "first_error [] = Inr []"
| "first_error (Inl e # rs) = Inl e"
| "first_error (Inr x # rs) = (case first_error rs of Inl e \<Rightarrow> Inl e | Inr xs \<Rightarrow> Inr (x # xs))"

definition fillna_astype_int :: "num_cell list \<Rightarrow> py_error + int list" where
  "fillna_astype_int col =
     (if list_ex is_txt col then first_error (map cast_object col)
      else Inr (map cast_float col))"

text \<open>\<open>str.replace(r'[\r\n]+', ' ', regex=True)\<close>: every run of CR and LF becomes one space.\<close>

fun collapse_run :: "bool \<Rightarrow> str \<Rightarrow> str" where
  "collapse_run in_run [] = []"
| "collapse_run in_run (c # cs) =
     (if c = 13 \<or> c = 10
      then (if in_run then collapse_run True cs else 32 # collapse_run True cs)
      else c # collapse_run False cs)"

definition collapse_crlf :: "str \<Rightarrow> str" where
  "collapse_crlf s = collapse_run False s"

record board_cfg =
  board_fold_name :: str
  boardId :: int
  fold_path :: str
  errEntries_file_name :: str
  errEntries_file_sheet :: str

record config =
  pgName :: str
  paraInfoList :: "board_cfg list"
  helf_input_file :: str
  subsys_sheet :: str
  output_dir :: str
  output_filename :: str

text \<open>One row of a board's fault-report sheet (\<open>df_err_rpt\<close>).\<close>

record err_row =
  e_member :: text_cell
  e_component :: text_cell
  e_component_no :: text_cell
  e_byte :: num_cell
  e_bit :: num_cell
  e_desc :: text_cell
  e_desc_en :: text_cell

text \<open>
  \<open>df_err_rpt\<close>: the labels of the columns the sheet really has, and its rows. Reading a
  column whose label is absent raises \<open>KeyError\<close>; the field of the rows is then never used.
\<close>

record err_frame =
  err_columns :: "str list"
  err_rows :: "err_row list"

text \<open>\<open>df_helf_input\<close> after the two columns were renamed: (description, code) per row.\<close>

type_synonym helf_frame = "(text_cell \<times> text_cell) list"

text \<open>
  The labels of the program, as code points:
  U+6210 U+5458 U+540D U+79F0 (member name), U+5668 U+4EF6 (component),
  U+5668 U+4EF6 U+7F16 U+53F7 (component number), \<open>Byte\<close> U+5730 U+5740, \<open>bit\<close> U+4F4D,
  U+6545 U+969C U+8BF4 U+660E (fault description), the same followed by
  U+FF08 U+82F1 U+6587 U+FF09 (fault description, English), U+6545 U+969C U+7801 (fault
  code), U+677F U+5361 U+6807 U+8BC6 (board tag).
\<close>

definition col_member :: str where
  "col_member = [25104, 21592, 21517, 31216]"

definition col_component :: str where
  "col_component = [22120, 20214]"

definition col_component_no :: str where
  "col_component_no = [22120, 20214, 32534, 21495]"

definition col_byte :: str where
  "col_byte = asc ''Byte'' @ [22320, 22336]"

definition col_bit :: str where
  "col_bit = asc ''bit'' @ [20301]"

definition col_desc :: str where
  "col_desc = [25925, 38556, 35828, 26126]"

definition col_desc_en :: str where
  "col_desc_en = [25925, 38556, 35828, 26126, 65288, 33521, 25991, 65289]"

definition col_code :: str where
  "col_code = [25925, 38556, 30721]"

definition col_board :: str where
  "col_board = [26495, 21345, 26631, 35782]"

text \<open>
  One row of the output frame (\<open>df_selected\<close>, \<open>df_output\<close>). The component and its number
  are copied as they are; the other fields are strings.
\<close>

record out_row =
  o_member :: str
  o_component :: text_cell
  o_component_no :: text_cell
  o_ident :: str
  o_addr :: str
  o_desc :: str
  o_desc_en :: str
  o_code :: str
  o_board :: str

record out_frame =
  out_columns :: "str list"
  out_rows :: "out_row list"

section \<open>What the program prints and logs\<close>

text \<open>
  \<open>print\<close> writes to standard output, the logger writes to the log file only. Each call is
  an event carrying the values its message interpolates.
\<close>

datatype level = INFO | WARNING | ERROR

datatype message =
    MsgReadSheet str
  | MsgSheetPage str
  | MsgReadDone nat
  | MsgReadDoneBoth nat nat
  | MsgNoVpPrefix str
  | MsgBoardCfg str int str
  | MsgVpPrefix str
  | MsgPrepared nat
  | MsgMatchStart
  | MsgMappingCount nat
  | MsgMatchOK str str str
  | MsgMatchFail str str
  | MsgMatchDone nat nat
  | MsgRule nat
  | MsgPG str
  | MsgBoardCount nat
  | MsgBoardNo nat str
  | MsgBoardDone nat
  | MsgBoardError str py_error
  | MsgMerged nat
  | MsgNoBoard

datatype event = Print message | Log level message

text \<open>
  What the program reads: \<open>os.path.join\<close> and the two calls of \<open>pandas.read_excel\<close>, each
  from a path and a sheet name. The second one stands for the read with
  \<open>usecols='L, AG'\<close> and the renaming of the two columns, which raises \<open>ValueError\<close> when
  the sheet has fewer columns.
\<close>

record world =
  path_join :: "str \<Rightarrow> str \<Rightarrow> str"
  read_err_sheet :: "str \<Rightarrow> str \<Rightarrow> py_error + err_frame"
  read_helf_sheet :: "str \<Rightarrow> str \<Rightarrow> py_error + helf_frame"

section \<open>Identifier generator\<close>

definition simulator_vp_prefix_dict :: "(str \<times> str) list" where
  "simulator_vp_prefix_dict =
    [(asc ''RS'', asc ''rsspm_erpt.RSSPM_ERPT_Varpool.''),
     (asc ''RH'', asc ''rhrede.RhredeVarpool.''),
     (asc ''WH'', asc ''whvpa.WhvpaVarpool.''),
     (asc ''FLS'', asc ''fls.FlsVarPool.''),
     (asc ''WA'', asc ''wa.WaVarPool.''),
     (asc ''IS'', asc ''is.IS_Varpool.''),
     (asc ''RA'', asc ''ra.RA_Varpool.''),
     (asc ''WS'', asc ''wsetc.WsetcVarpool.''),
     (asc ''DC'', asc ''dc.DcVarpool.''),
     (asc ''SD'', asc ''avis.AVISVarpool.''),
     (asc ''WSPM'', asc ''wsetc.WsetcVarpool.''),
     (asc ''RSPM'', asc ''rsspm_erpt.RSSPM_ERPT_Varpool.''),
     (asc ''RM'', asc ''rm_erpt.RM_ERPT_Varpool.'')]"

definition default_vp_prefix :: str where
  "default_vp_prefix = asc ''wsetc.WsetcVarpool.''"

text \<open>\<open>get_board_config\<close>: \<open>parts[1]\<close> raises \<open>IndexError\<close> when the folder name has no
  underscore.\<close>

definition get_board_config :: "board_cfg \<Rightarrow> str \<Rightarrow> py_error + (int \<times> str)" where
  "get_board_config b pg_name =
     (let parts = py_split 95 (board_fold_name b);
          board_id = boardId b
      in if 1 < length parts then Inr (board_id, py_upper (parts ! 1)) else Inl IndexError)"

text \<open>\<open>get_vp_prefix\<close>: \<open>not vp_prefix\<close> holds for \<open>None\<close> and for the empty string; the
  warning is printed.\<close>

definition get_vp_prefix :: "str \<Rightarrow> str \<times> event list" where
  "get_vp_prefix pg_name =
     (case map_of simulator_vp_prefix_dict pg_name of
        None \<Rightarrow> (default_vp_prefix, [Print (MsgNoVpPrefix pg_name)])
      | Some vp_prefix \<Rightarrow>
          if vp_prefix = [] then (default_vp_prefix, [Print (MsgNoVpPrefix pg_name)])
          else (vp_prefix, []))"

definition ident_col :: "str \<Rightarrow> str \<Rightarrow> str" where
  "ident_col pg_name module_code =
     pg_name @ asc ''_ERPT_ACTIVE.'' @ module_code @ [95] @ col_member @ [95] @ col_component
       @ [95] @ col_component_no"

definition addr_col :: "str \<Rightarrow> str" where
  "addr_col vp_prefix = vp_prefix @ asc ''errRptInject[x][x][x]''"

text \<open>\<open>df[label] = ...\<close> adds a column at the end unless the label is there already.\<close>

definition add_col :: "str list \<Rightarrow> str \<Rightarrow> str list" where
  "add_col cols c = (if c \<in> set cols then cols else cols @ [c])"

definition missing_cols :: "err_frame \<Rightarrow> str list \<Rightarrow> str list" where
  "missing_cols df labels = filter (\<lambda>c. c \<notin> set (err_columns df)) labels"

definition make_out_row ::
  "str \<Rightarrow> str \<Rightarrow> str \<Rightarrow> int \<Rightarrow> str \<Rightarrow> err_row \<Rightarrow> int \<Rightarrow> int \<Rightarrow> out_row" where
  "make_out_row pg_name module_code vp_prefix board_id tag r byte_addr bit_addr =
     \<lparr> o_member = py_upper (astype_str (e_member r)),
       o_component = e_component r,
       o_component_no = e_component_no r,
       o_ident = py_upper pg_name @ asc ''_ERPT_ACTIVE.'' @ module_code @ asc ''_''
                   @ py_upper (astype_str (e_member r)) @ asc ''_''
                   @ astype_str (e_component r) @ asc ''_''
                   @ astype_str (e_component_no r),
       o_addr = vp_prefix @ asc ''errRptInject['' @ py_str_int board_id @ asc ''][''
                   @ py_str_int byte_addr @ asc ''][''
                   @ py_str_int bit_addr @ asc '']'',
       o_desc = collapse_crlf (astype_str (e_desc r)),
       o_desc_en = astype_str (e_desc_en r),
       o_code = [],
       o_board = tag \<rparr>"

text \<open>
  \<open>prepare_output_for_board\<close>. The columns are computed one after the other in the source;
  a missing label raises \<open>KeyError\<close> at the first statement that reads it (lines 104, 116,
  117, 120, 121), and the conversion of an offset column raises at its statement (lines
  116, 117), all after the four messages of lines 99 to 102.
\<close>

definition prepare_output_for_board ::
  "err_frame \<Rightarrow> config \<Rightarrow> board_cfg \<Rightarrow> (py_error + out_frame) \<times> event list" where
  "prepare_output_for_board df_err_rpt cfg b =
     (let pg_name = pgName cfg in
      case get_board_config b pg_name of
        Inl e \<Rightarrow> (Inl e, [])
      | Inr (board_id, module_code) \<Rightarrow>
         (let (vp_prefix, ev0) = get_vp_prefix pg_name;
              ev1 = ev0 @ [Print (MsgBoardCfg (board_fold_name b) board_id module_code),
                           Print (MsgVpPrefix vp_prefix),
                           Log INFO (MsgBoardCfg (board_fold_name b) board_id module_code),
                           Log INFO (MsgVpPrefix vp_prefix)];
              m1 = missing_cols df_err_rpt [col_member, col_component, col_component_no];
              m2 = missing_cols df_err_rpt [col_byte];
              m3 = missing_cols df_err_rpt [col_bit];
              m4 = missing_cols df_err_rpt [col_desc];
              m5 = missing_cols df_err_rpt [col_desc_en]
          in if m1 \<noteq> [] then (Inl (KeyError m1), ev1)
             else if m2 \<noteq> [] then (Inl (KeyError m2), ev1)
             else
              (case fillna_astype_int (map e_byte (err_rows df_err_rpt)) of
                 Inl e \<Rightarrow> (Inl e, ev1)
               | Inr byte_addr \<Rightarrow>
                  if m3 \<noteq> [] then (Inl (KeyError m3), ev1)
                  else
                   (case fillna_astype_int (map e_bit (err_rows df_err_rpt)) of
                      Inl e \<Rightarrow> (Inl e, ev1)
                    | Inr bit_addr \<Rightarrow>
                       if m4 \<noteq> [] then (Inl (KeyError m4), ev1)
                       else if m5 \<noteq> [] then (Inl (KeyError m5), ev1)
                       else
                        (let cols = foldl add_col
                                      [col_member, col_component, col_component_no]
                                      [ident_col pg_name module_code, addr_col vp_prefix,
                                       col_desc, col_desc_en, col_code, col_board];
                             rows = map (\<lambda>(r, byte, bit).
                                          make_out_row pg_name module_code vp_prefix board_id
                                            (board_fold_name b) r byte bit)
                                      (zip (err_rows df_err_rpt) (zip byte_addr bit_addr))
                         in (Inr \<lparr> out_columns = cols, out_rows = rows \<rparr>,
                             ev1 @ [Print (MsgPrepared (length rows)),
                                    Log INFO (MsgPrepared (length rows))]))))))"

section \<open>Lookup table and fault matcher\<close>

text \<open>
  The first loop of \<open>add_fault_codes_for_board\<close> (lines 140 to 144): one pair per row of
  the lookup sheet, in the order of the sheet, appended to \<open>fault_mappings\<close>.
\<close>

fun build_mappings :: "helf_frame \<Rightarrow> (str \<times> str) list \<Rightarrow> (str \<times> str) list" where
  "build_mappings [] fault_mappings = fault_mappings"
| "build_mappings ((eng_desc, event_code) # rest) fault_mappings =
     build_mappings rest
       (fault_mappings @ [(normalize_text (astype_str eng_desc), astype_str event_code)])"

text \<open>The inner loop (lines 164 to 171): the first entry that is equal to or contains the
  cleaned description ends the scan.\<close>

fun find_match :: "str \<Rightarrow> (str \<times> str) list \<Rightarrow> str option" where
  "find_match clean_fault_desc [] = None"
| "find_match clean_fault_desc ((clean_helf_desc, event_code) # rest) =
     (if clean_fault_desc = clean_helf_desc \<or> py_in clean_fault_desc clean_helf_desc
      then Some event_code
      else find_match clean_fault_desc rest)"

text \<open>
  \<open>df_output.at[idx, label] = event_code\<close>. The frame \<open>df_output\<close> is built from
  \<open>df_err_rpt\<close> row by row, so \<open>idx\<close> is always one of its rows; an index outside the frame
  leaves this model's rows as they are.
\<close>

definition set_code :: "out_row list \<Rightarrow> nat \<Rightarrow> str \<Rightarrow> out_row list" where
  "set_code rows idx event_code =
     (if idx < length rows then rows[idx := (rows ! idx)\<lparr>o_code := event_code\<rparr>] else rows)"

record match_state =
  ms_rows :: "out_row list"
  matched_count :: nat
  not_matched_count :: nat
  ms_events :: "event list"

text \<open>The body of the outer loop (lines 154 to 177) for one item \<open>(idx, fault_desc)\<close>.\<close>

definition match_step ::
  "(str \<times> str) list \<Rightarrow> str \<Rightarrow> match_state \<Rightarrow> nat \<times> text_cell \<Rightarrow> match_state" where
  "match_step fault_mappings board st item =
     (case item of (idx, fault_desc) \<Rightarrow>
        (case fault_desc of
           None \<Rightarrow> st
         | Some d \<Rightarrow>
            (case find_match (normalize_text d) fault_mappings of
               Some event_code \<Rightarrow>
                 st\<lparr> ms_rows := set_code (ms_rows st) idx event_code,
                     matched_count := matched_count st + 1,
                     ms_events := ms_events st @ [Log INFO (MsgMatchOK board d event_code)] \<rparr>
             | None \<Rightarrow>
                 st\<lparr> not_matched_count := not_matched_count st + 1,
                     ms_events := ms_events st @ [Log WARNING (MsgMatchFail board d)] \<rparr>)))"

fun match_loop ::
  "(str \<times> str) list \<Rightarrow> str \<Rightarrow> (nat \<times> text_cell) list \<Rightarrow> match_state \<Rightarrow> match_state" where
  "match_loop fault_mappings board [] st = st"
| "match_loop fault_mappings board (item # items) st =
     match_loop fault_mappings board items (match_step fault_mappings board st item)"

definition add_fault_codes_for_board ::
  "out_frame \<Rightarrow> err_frame \<Rightarrow> helf_frame \<Rightarrow> board_cfg \<Rightarrow> (py_error + out_frame) \<times> event list" where
  "add_fault_codes_for_board df_output df_err_rpt df_helf_input b =
     (let fault_mappings = build_mappings df_helf_input [];
          ev0 = [Print MsgMatchStart, Log INFO MsgMatchStart,
                 Print (MsgMappingCount (length fault_mappings)),
                 Log INFO (MsgMappingCount (length fault_mappings))]
      in if col_desc_en \<notin> set (err_columns df_err_rpt) then (Inl (KeyError [col_desc_en]), ev0)
         else
           (let st = match_loop fault_mappings (board_fold_name b)
                       (enumerate 0 (map e_desc_en (err_rows df_err_rpt)))
                       \<lparr> ms_rows = out_rows df_output, matched_count = 0,
                         not_matched_count = 0, ms_events = ev0 \<rparr>
            in (Inr (df_output\<lparr>out_rows := ms_rows st\<rparr>),
                ms_events st
                  @ [Print (MsgMatchDone (matched_count st) (not_matched_count st)),
                     Log INFO (MsgMatchDone (matched_count st) (not_matched_count st))])))"

section \<open>Board processor\<close>

definition read_input_files_for_board ::
  "world \<Rightarrow> config \<Rightarrow> board_cfg \<Rightarrow> (py_error + err_frame \<times> helf_frame) \<times> event list" where
  "read_input_files_for_board w cfg b =
     (let erpt_file = path_join w (fold_path b) (errEntries_file_name b);
          ev0 = [Print (MsgReadSheet erpt_file), Print (MsgSheetPage (errEntries_file_sheet b)),
                 Log INFO (MsgReadSheet erpt_file),
                 Log INFO (MsgSheetPage (errEntries_file_sheet b))]
      in case read_err_sheet w erpt_file (errEntries_file_sheet b) of
           Inl e \<Rightarrow> (Inl e, ev0)
         | Inr df_err_rpt \<Rightarrow>
            (case read_helf_sheet w (helf_input_file cfg) (subsys_sheet cfg) of
               Inl e \<Rightarrow> (Inl e, ev0)
             | Inr df_helf_input \<Rightarrow>
                 (Inr (df_err_rpt, df_helf_input),
                  ev0 @ [Print (MsgReadDone (length (err_rows df_err_rpt))),
                         Log INFO (MsgReadDoneBoth (length (err_rows df_err_rpt))
                                     (length df_helf_input))])))"

text \<open>
  The body of the \<open>try\<close> statement of \<open>process_all_boards\<close> (lines 204 to 218) for one
  board: \<open>Inl e\<close> when one of the three calls raises \<open>e\<close>, with the events up to there.
\<close>

definition process_board ::
  "world \<Rightarrow> config \<Rightarrow> board_cfg \<Rightarrow> (py_error + out_frame) \<times> event list" where
  "process_board w cfg b =
     (case read_input_files_for_board w cfg b of
        (Inl e, ev1) \<Rightarrow> (Inl e, ev1)
      | (Inr (df_err_rpt, df_helf_input), ev1) \<Rightarrow>
         (case prepare_output_for_board df_err_rpt cfg b of
            (Inl e, ev2) \<Rightarrow> (Inl e, ev1 @ ev2)
          | (Inr df_output, ev2) \<Rightarrow>
             (case add_fault_codes_for_board df_output df_err_rpt df_helf_input b of
                (Inl e, ev3) \<Rightarrow> (Inl e, ev1 @ ev2 @ ev3)
              | (Inr df_final, ev3) \<Rightarrow>
                 (Inr df_final,
                  ev1 @ ev2 @ ev3
                    @ [Print (MsgBoardDone (length (out_rows df_final))),
                       Log INFO (MsgBoardDone (length (out_rows df_final)))]))))"

section \<open>Aggregator\<close>

text \<open>The loop over \<open>enumerate(config['paraInfoList'])\<close> with its \<open>try\<close> and \<open>except\<close>.\<close>

fun boards_loop ::
  "world \<Rightarrow> config \<Rightarrow> nat \<Rightarrow> board_cfg list \<Rightarrow> out_frame list \<times> nat \<times> event list
     \<Rightarrow> out_frame list \<times> nat \<times> event list" where
  "boards_loop w cfg i [] acc = acc"
| "boards_loop w cfg i (b # bs) (all_results, total_processed, ev) =
     (let ev0 = ev @ [Print (MsgRule 50), Print (MsgBoardNo (i + 1) (board_fold_name b)),
                      Print (MsgRule 50), Log INFO (MsgBoardNo (i + 1) (board_fold_name b))]
      in case process_board w cfg b of
           (Inr df_final, ev1) \<Rightarrow>
             boards_loop w cfg (i + 1) bs
               (all_results @ [df_final], total_processed + length (out_rows df_final),
                ev0 @ ev1)
         | (Inl e, ev1) \<Rightarrow>
             boards_loop w cfg (i + 1) bs
               (all_results, total_processed,
                ev0 @ ev1 @ [Print (MsgBoardError (board_fold_name b) e),
                             Log ERROR (MsgBoardError (board_fold_name b) e)]))"

text \<open>\<open>pd.concat(all_results, ignore_index=True)\<close>: the rows one frame after the other, the
  columns of all frames in the order of their first appearance.\<close>

definition pd_concat :: "out_frame list \<Rightarrow> out_frame" where
  "pd_concat frames =
     \<lparr> out_columns = foldl (\<lambda>cols df. foldl add_col cols (out_columns df)) [] frames,
       out_rows = concat (map out_rows frames) \<rparr>"

datatype exit = SystemExit int

definition process_all_boards :: "world \<Rightarrow> config \<Rightarrow> (exit + out_frame) \<times> event list" where
  "process_all_boards w cfg =
     (let pg_name = pgName cfg;
          ev0 = [Print (MsgRule 60), Print (MsgPG pg_name),
                 Print (MsgBoardCount (length (paraInfoList cfg))), Print (MsgRule 60),
                 Log INFO (MsgPG pg_name), Log INFO (MsgBoardCount (length (paraInfoList cfg)))];
          (all_results, total_processed, ev1) =
             boards_loop w cfg 0 (paraInfoList cfg) ([], 0, ev0)
      in if all_results \<noteq> [] then
           (let final_df = pd_concat all_results
            in (Inr final_df,
                ev1 @ [Print (MsgRule 60), Print (MsgMerged (length (out_rows final_df))),
                       Print (MsgRule 60), Log INFO (MsgMerged (length (out_rows final_df)))]))
         else
           (Inl (SystemExit 1),
            ev1 @ [Print (MsgRule 60), Print MsgNoBoard, Print (MsgRule 60),
                   Log ERROR MsgNoBoard]))"

section \<open>Writing the result\<close>

text \<open>The written file: the labels of its columns in order, and one record per row of the
  merged frame.\<close>

record csv_file =
  csv_header :: "str list"
  csv_records :: "out_row list"

text \<open>The list \<open>output_cols\<close> of lines 251 to 257; code point 42 is the asterisk.\<close>

definition output_cols :: "str \<Rightarrow> str \<Rightarrow> str list" where
  "output_cols pg_name vp_prefix =
     [pg_name @ asc ''_ERPT_ACTIVE.*_'' @ col_member @ [95] @ col_component @ [95]
        @ col_component_no,
      vp_prefix @ asc ''errRptInject[x][x][x]'',
      col_desc,
      col_code,
      col_desc_en]"

text \<open>\<open>list(dict.fromkeys(xs))\<close>: the first occurrence of each element stays.\<close>

fun fromkeys :: "str list \<Rightarrow> str list \<Rightarrow> str list" where
  "fromkeys seen [] = []"
| "fromkeys seen (x # xs) =
     (if x \<in> set seen then fromkeys seen xs else x # fromkeys (seen @ [x]) xs)"

text \<open>
  \<open>save_results\<close> up to the call of \<open>to_csv\<close> (lines 244 to 266), which raises \<open>KeyError\<close>
  for a label that is not a column of the frame. The statistics logged afterwards (all at
  level INFO) do not change the file and are left out, and so are failures of the file
  system while the directory and the file are written.
\<close>

definition save_results :: "out_frame \<Rightarrow> config \<Rightarrow> (py_error + csv_file) \<times> event list" where
  "save_results df cfg =
     (let pg_name = pgName cfg;
          (vp_prefix, ev) = get_vp_prefix pg_name;
          patterns = output_cols pg_name vp_prefix;
          selected = filter (\<lambda>col. list_ex (\<lambda>pattern. py_in (py_remove 42 pattern) col)
                                       patterns) (out_columns df);
          actual_cols = fromkeys [] (selected @ [col_desc, col_code, col_desc_en]);
          absent = filter (\<lambda>c. c \<notin> set (out_columns df)) actual_cols
      in if absent \<noteq> [] then (Inl (KeyError absent), ev)
         else (Inr \<lparr> csv_header = actual_cols, csv_records = out_rows df \<rparr>, ev))"

text \<open>\<open>main\<close> from the loaded configuration on: all boards, then the file.\<close>

datatype outcome = Exited exit | Raised py_error | Written csv_file

definition main :: "world \<Rightarrow> config \<Rightarrow> outcome \<times> event list" where
  "main w cfg =
     (case process_all_boards w cfg of
        (Inl x, ev1) \<Rightarrow> (Exited x, ev1)
      | (Inr final_df, ev1) \<Rightarrow>
         (case save_results final_df cfg of
            (Inl e, ev2) \<Rightarrow> (Raised e, ev1 @ ev2)
          | (Inr f, ev2) \<Rightarrow> (Written f, ev1 @ ev2)))"

section \<open>Notions used in the statements\<close>


text \<open>A code point that \<open>str.lower\<close> leaves as it is, wherever it stands: it is not the
  capital sigma and is its own lowercase mapping.\<close>

definition lower_fixed :: "nat \<Rightarrow> bool" where
  "lower_fixed c = (c \<noteq> 931 \<and> to_lower_full c = [c])"

text \<open>The integers of an offset column whose conversion succeeds.\<close>

definition offsets :: "num_cell list \<Rightarrow> int list" where
  "offsets col = (case fillna_astype_int col of Inl e \<Rightarrow> [] | Inr xs \<Rightarrow> xs)"

text \<open>A text of white space only.\<close>

definition all_space :: "str \<Rightarrow> bool" where
  "all_space s = list_all isspace s"


text \<open>The frames of the boards that \<open>process_board\<close> completes, in the order of the list.\<close>

definition succeeded :: "world \<Rightarrow> config \<Rightarrow> board_cfg list \<Rightarrow> out_frame list" where
  "succeeded w cfg bs =
     concat (map (\<lambda>b. case fst (process_board w cfg b) of Inl e \<Rightarrow> [] | Inr df \<Rightarrow> [df]) bs)"

section \<open>A small run\<close>

text \<open>
  Two boards: the sheet of the first does not exist, the second has three rows (a
  description with punctuation, a row without English description and without byte
  offset, a description of punctuation only). The lookup sheet has two entries, the
  first containing the second.
\<close>

definition ex_bad_board :: board_cfg where
  "ex_bad_board = \<lparr> board_fold_name = asc ''WS_cd_2'', boardId = 2, fold_path = asc ''d'',
       errEntries_file_name = asc ''g'', errEntries_file_sheet = asc ''S'' \<rparr>"

definition ex_board :: board_cfg where
  "ex_board = \<lparr> board_fold_name = asc ''WS_ab_1'', boardId = 3, fold_path = asc ''d'',
       errEntries_file_name = asc ''f'', errEntries_file_sheet = asc ''S'' \<rparr>"

definition ex_cfg :: config where
  "ex_cfg = \<lparr> pgName = asc ''WS'', paraInfoList = [ex_bad_board, ex_board],
       helf_input_file = asc ''h'', subsys_sheet = asc ''H'', output_dir = asc ''o'',
       output_filename = asc ''r.csv'' \<rparr>"


definition ex_row1 :: err_row where
  "ex_row1 = \<lparr> e_member = Some (asc ''ovp''), e_component = Some (asc ''FPGA''),
       e_component_no = Some (asc ''1''), e_byte = Num 5, e_bit = Num 0,
       e_desc = Some (asc ''v''), e_desc_en = Some (asc ''Over Voltage!'') \<rparr>"

definition ex_row2 :: err_row where
  "ex_row2 = \<lparr> e_member = Some (asc ''uvp''), e_component = Some (asc ''FPGA''),
       e_component_no = Some (asc ''2''), e_byte = NaN, e_bit = Num 5,
       e_desc = None, e_desc_en = None \<rparr>"

definition ex_row3 :: err_row where
  "ex_row3 = \<lparr> e_member = Some (asc ''otp''), e_component = Some (asc ''CPU''),
       e_component_no = Some (asc ''1''), e_byte = Num 1, e_bit = Num 2,
       e_desc = Some (asc ''t''), e_desc_en = Some (asc ''!!!'') \<rparr>"

definition ex_sheet :: err_frame where
  "ex_sheet = \<lparr> err_columns = [col_member, col_component, col_component_no, col_byte,
                                col_bit, col_desc, col_desc_en],
                err_rows = [ex_row1, ex_row2, ex_row3] \<rparr>"

definition ex_helf :: helf_frame where
  "ex_helf = [(Some (asc ''Over voltage fault''), Some (asc ''E1'')),
              (Some (asc ''over voltage''), Some (asc ''E2''))]"

definition ex_world :: world where
  "ex_world = \<lparr> path_join = (\<lambda>d f. d @ asc ''/'' @ f),
      read_err_sheet = (\<lambda>p sh. if p = asc ''d/f'' \<and> sh = asc ''S'' then Inr ex_sheet
                                else Inl FileNotFoundError),
      read_helf_sheet = (\<lambda>p sh. if p = asc ''h'' \<and> sh = asc ''H'' then Inr ex_helf
                                 else Inl FileNotFoundError) \<rparr>"

section \<open>Properties of the string functions\<close>

text \<open>The blocks of the tables, for evaluation.\<close>

lemmas lower_table_defs = lower_table_1_def lower_table_2_def lower_table_3_def lower_table_4_def lower_table_5_def lower_table_6_def lower_table_7_def lower_table_8_def lower_table_9_def lower_table_10_def lower_table_11_def lower_table_12_def lower_table_13_def lower_table_14_def lower_table_15_def lower_table_16_def lower_table_17_def lower_table_18_def lower_table_19_def lower_table_20_def lower_table_21_def lower_table_22_def lower_table_23_def lower_table_24_def lower_table_25_def lower_table_26_def lower_table_27_def lower_table_28_def lower_table_29_def lower_table_30_def lower_table_31_def lower_table_32_def lower_table_33_def lower_table_34_def lower_table_35_def lower_table_36_def lower_table_37_def lower_table_38_def lower_table_39_def lower_table_40_def lower_table_41_def lower_table_42_def lower_table_43_def lower_table_44_def

lemmas case_ignorable_defs = case_ignorable_def case_ignorable_ranges_1_def case_ignorable_ranges_2_def case_ignorable_ranges_3_def case_ignorable_ranges_4_def case_ignorable_ranges_5_def case_ignorable_ranges_6_def case_ignorable_ranges_7_def case_ignorable_ranges_8_def case_ignorable_ranges_9_def case_ignorable_ranges_10_def case_ignorable_ranges_11_def case_ignorable_ranges_12_def case_ignorable_ranges_13_def case_ignorable_ranges_14_def

lemmas alnum_ranges_defs = alnum_ranges_1_def alnum_ranges_2_def alnum_ranges_3_def alnum_ranges_4_def alnum_ranges_5_def alnum_ranges_6_def alnum_ranges_7_def alnum_ranges_8_def alnum_ranges_9_def alnum_ranges_10_def alnum_ranges_11_def alnum_ranges_12_def alnum_ranges_13_def alnum_ranges_14_def alnum_ranges_15_def alnum_ranges_16_def alnum_ranges_17_def alnum_ranges_18_def alnum_ranges_19_def alnum_ranges_20_def alnum_ranges_21_def alnum_ranges_22_def alnum_ranges_23_def

lemmas cased_defs = cased_def cased_ranges_1_def cased_ranges_2_def cased_ranges_3_def cased_ranges_4_def cased_ranges_5_def

text \<open>The definitions that evaluate the string functions on ASCII text; no block of a
  table is opened there.\<close>

lemmas ascii_eval =
  normalize_text_def re_sub_nonword_def py_strip_def py_lower_def py_upper_def isword_def
  isalnum_def isspace_def space_ranges_def to_lower_full_def to_upper_full_def asc_def

lemma set_py_strip: "set (py_strip s) \<subseteq> set s"
proof -
  have "set (py_strip s) \<subseteq> set (dropWhile isspace s)"
    unfolding py_strip_def using set_dropWhileD[of _ isspace "rev (dropWhile isspace s)"] by auto
  also have "\<dots> \<subseteq> set s" using set_dropWhileD[of _ isspace s] by auto
  finally show ?thesis .
qed

lemma all_dropWhile: "(\<forall>x\<in>set (dropWhile P s). P x) = (\<forall>x\<in>set s. P x)"
  by (induction s) auto

text \<open>Trimming on the left and trimming on the right commute.\<close>

lemma strip_commute:
  "dropWhile P (rev (dropWhile P (rev s))) = rev (dropWhile P (rev (dropWhile P s)))"
proof (induction s)
  case Nil
  then show ?case by simp
next
  case (Cons c s)
  then show ?case
    by (cases "\<forall>x\<in>set s. P x") (auto simp add: dropWhile_append all_dropWhile)
qed

lemma lstrip_filter:
  assumes "\<And>c. P c \<Longrightarrow> K c"
  shows "dropWhile P (filter K (dropWhile P s)) = dropWhile P (filter K s)"
  using assms by (induction s) auto

text \<open>A filter that keeps white space can run before or after a trim when a trim follows.\<close>

lemma py_strip_filter_strip:
  assumes "\<And>c. isspace c \<Longrightarrow> K c"
  shows "py_strip (filter K (py_strip s)) = py_strip (filter K s)"
proof -
  let ?L = "dropWhile isspace"
  let ?R = "\<lambda>x. rev (dropWhile isspace (rev x))"
  have LR: "\<And>x. ?L (?R x) = ?R (?L x)" by (rule strip_commute)
  have LF: "\<And>x. ?L (filter K (?L x)) = ?L (filter K x)" using assms by (rule lstrip_filter)
  have RF: "\<And>x. ?R (filter K (?R x)) = ?R (filter K x)"
    using lstrip_filter[of isspace K "rev _", OF assms] by (simp add: rev_filter)
  have "py_strip (filter K (py_strip s)) = ?R (?L (filter K (?R (?L s))))"
    by (simp add: py_strip_def)
  also have "\<dots> = ?L (?R (filter K (?R (?L s))))" by (simp only: LR)
  also have "\<dots> = ?L (?R (filter K (?L s)))" by (simp only: RF)
  also have "\<dots> = ?R (?L (filter K (?L s)))" by (simp only: LR)
  also have "\<dots> = ?R (?L (filter K s))" by (simp only: LF)
  finally show ?thesis by (simp add: py_strip_def)
qed

lemma length_py_strip: "length (py_strip s) \<le> length s"
proof -
  have "length (py_strip s) \<le> length (dropWhile isspace s)"
    unfolding py_strip_def using length_dropWhile_le[of isspace "rev (dropWhile isspace s)"]
    by simp
  also have "\<dots> \<le> length s" by (rule length_dropWhile_le)
  finally show ?thesis .
qed

lemma dropWhile_same_length: "length (dropWhile P s) = length s \<Longrightarrow> dropWhile P s = s"
proof (cases s)
  case Nil
  then show ?thesis by simp
next
  case (Cons c t)
  assume l: "length (dropWhile P s) = length s"
  show ?thesis
  proof (cases "P c")
    case True
    with Cons have "length (dropWhile P s) \<le> length t"
      using length_dropWhile_le[of P t] by simp
    with l Cons show ?thesis by simp
  next
    case False
    with Cons show ?thesis by simp
  qed
qed

lemma py_strip_same_length:
  assumes "length (py_strip s) = length s"
  shows "py_strip s = s"
proof -
  let ?d = "dropWhile isspace s"
  have a: "length (py_strip s) \<le> length ?d"
    unfolding py_strip_def using length_dropWhile_le[of isspace "rev ?d"] by simp
  have b: "length ?d \<le> length s" by (rule length_dropWhile_le)
  from a b assms have d: "?d = s" by (intro dropWhile_same_length) simp
  from a b assms have "length (dropWhile isspace (rev ?d)) = length (rev ?d)"
    by (simp add: py_strip_def)
  then have "dropWhile isspace (rev ?d) = rev ?d" by (rule dropWhile_same_length)
  then show ?thesis by (simp add: py_strip_def d)
qed

subsection \<open>Trimming, as a decomposition\<close>

lemma all_space_Nil: "all_space []"
  by (simp add: all_space_def)

lemma py_strip_decomp:
  "\<exists>sp1 sp2. s = sp1 @ py_strip s @ sp2 \<and> all_space sp1 \<and> all_space sp2
      \<and> (py_strip s = [] \<or> (\<not> isspace (hd (py_strip s)) \<and> \<not> isspace (last (py_strip s))))"
proof -
  let ?d = "dropWhile isspace s"
  let ?e = "dropWhile isspace (rev ?d)"
  have s: "s = takeWhile isspace s @ ?d" by simp
  have "rev ?e @ rev (takeWhile isspace (rev ?d)) = rev (takeWhile isspace (rev ?d) @ ?e)"
    by (simp only: rev_append)
  also have "\<dots> = rev (rev ?d)" by (simp only: takeWhile_dropWhile_id)
  finally have "rev ?e @ rev (takeWhile isspace (rev ?d)) = ?d" by (simp only: rev_rev_ident)
  then have d: "?d = rev ?e @ rev (takeWhile isspace (rev ?d))" by (rule sym)
  have p: "py_strip s = rev ?e" by (simp add: py_strip_def)
  have 1: "s = takeWhile isspace s @ py_strip s @ rev (takeWhile isspace (rev ?d))"
    using s d p by simp
  have 2: "all_space (takeWhile isspace s)"
    by (auto simp: all_space_def list_all_iff dest: set_takeWhileD)
  have 3: "all_space (rev (takeWhile isspace (rev ?d)))"
    by (auto simp: all_space_def list_all_iff dest: set_takeWhileD)
  have 4: "\<not> isspace (hd (py_strip s)) \<and> \<not> isspace (last (py_strip s))" if ne: "py_strip s \<noteq> []"
  proof -
    from ne p have e: "?e \<noteq> []" by simp
    then have he: "\<not> isspace (hd ?e)" by (rule hd_dropWhile)
    from e have dne: "?d \<noteq> []" by (metis dropWhile.simps(1) rev.simps(1))
    then have hd: "\<not> isspace (hd ?d)" by (rule hd_dropWhile)
    have "hd (rev ?e) = hd ?d" using d e by (metis hd_append2 rev_is_Nil_conv)
    with hd he e show ?thesis by (simp add: p last_rev)
  qed
  from 1 2 3 4 show ?thesis by blast
qed

lemma dropWhile_all: "list_all P sp \<Longrightarrow> dropWhile P (sp @ t) = dropWhile P t"
  by (induction sp) auto

lemma py_strip_sandwich:
  assumes "all_space sp1" and "all_space sp2"
    and "core = [] \<or> (\<not> isspace (hd core) \<and> \<not> isspace (last core))"
  shows "py_strip (sp1 @ core @ sp2) = core"
proof (cases "core = []")
  case True
  have "\<forall>x\<in>set (sp1 @ sp2). isspace x"
    using assms(1,2) by (auto simp: all_space_def list_all_iff)
  then have e: "dropWhile isspace (sp1 @ sp2) = []" by (simp only: dropWhile_eq_Nil_conv)
  show ?thesis
    unfolding py_strip_def True by (simp only: append_Nil e rev.simps dropWhile.simps)
next
  case False
  with assms(3) have h: "\<not> isspace (hd core)" and l: "\<not> isspace (last core)" by auto
  from False h have c: "dropWhile isspace core = core" by (cases core) auto
  have "dropWhile isspace (sp1 @ core @ sp2) = dropWhile isspace (core @ sp2)"
    using assms(1) by (simp add: dropWhile_all all_space_def)
  also have "\<dots> = core @ sp2" using False h by (cases core) auto
  finally have 1: "dropWhile isspace (sp1 @ core @ sp2) = core @ sp2" .
  have "dropWhile isspace (rev (core @ sp2)) = dropWhile isspace (rev sp2 @ rev core)" by simp
  also have "\<dots> = dropWhile isspace (rev core)"
    using assms(2) by (intro dropWhile_all) (simp add: all_space_def)
  also have "\<dots> = rev core"
    using False l by (cases "rev core") (auto simp: last_rev[symmetric] simp del: last_rev)
  finally show ?thesis by (simp add: py_strip_def 1)
qed

subsection \<open>Facts read off the tables\<close>

lemma in_ranges_mem:
  "in_ranges c rs \<Longrightarrow> \<exists>(lo, hi)\<in>set rs. c \<in> set [lo..<Suc hi]"
  by (induction rs) (auto split: if_splits)

lemma table_lookup_mem: "table_lookup c t = Some m \<Longrightarrow> (c, m) \<in> set t"
  by (induction t) (auto split: if_splits)

text \<open>
  No white space is a letter: a white space character is not the capital sigma, is its own
  lowercase mapping, and is neither Case_Ignorable nor Cased.
\<close>

lemma space_ranges_plain:
  "list_all (\<lambda>(lo, hi). list_all (\<lambda>c. c \<noteq> 931 \<and> to_lower_full c = [c]
        \<and> \<not> case_ignorable c \<and> \<not> cased c) [lo..<Suc hi]) space_ranges"
  unfolding space_ranges_def
  by (simp add: to_lower_full_def lower_lookup_def lower_table_defs case_ignorable_defs
      cased_defs)

lemma isspace_plain:
  assumes "isspace c"
  shows "c \<noteq> 931" and "to_lower_full c = [c]" and "\<not> case_ignorable c" and "\<not> cased c"
proof -
  from assms obtain lo hi where "(lo, hi) \<in> set space_ranges" "c \<in> set [lo..<Suc hi]"
    unfolding isspace_def by (blast dest: in_ranges_mem)
  with space_ranges_plain
  have "c \<noteq> 931 \<and> to_lower_full c = [c] \<and> \<not> case_ignorable c \<and> \<not> cased c"
    unfolding list_all_iff by blast
  then show "c \<noteq> 931" and "to_lower_full c = [c]" and "\<not> case_ignorable c" and "\<not> cased c"
    by simp_all
qed

text \<open>
  Every lowercase mapping of the table is a non-empty text of code points that
  \<open>str.lower\<close> leaves as they are and that are no white space. One lemma for each block.
\<close>

lemma lower_table_1_images:
  "list_all (\<lambda>(k, m). m \<noteq> [] \<and> list_all (\<lambda>x. lower_fixed x \<and> \<not> isspace x) m) lower_table_1"
  unfolding lower_table_1_def
  by (simp add: lower_fixed_def to_lower_full_def lower_lookup_def lower_table_defs isspace_def
      space_ranges_def)

lemma lower_table_2_images:
  "list_all (\<lambda>(k, m). m \<noteq> [] \<and> list_all (\<lambda>x. lower_fixed x \<and> \<not> isspace x) m) lower_table_2"
  unfolding lower_table_2_def
  by (simp add: lower_fixed_def to_lower_full_def lower_lookup_def lower_table_defs isspace_def
      space_ranges_def)

lemma lower_table_3_images:
  "list_all (\<lambda>(k, m). m \<noteq> [] \<and> list_all (\<lambda>x. lower_fixed x \<and> \<not> isspace x) m) lower_table_3"
  unfolding lower_table_3_def
  by (simp add: lower_fixed_def to_lower_full_def lower_lookup_def lower_table_defs isspace_def
      space_ranges_def)

lemma lower_table_4_images:
  "list_all (\<lambda>(k, m). m \<noteq> [] \<and> list_all (\<lambda>x. lower_fixed x \<and> \<not> isspace x) m) lower_table_4"
  unfolding lower_table_4_def
  by (simp add: lower_fixed_def to_lower_full_def lower_lookup_def lower_table_defs isspace_def
      space_ranges_def)

lemma lower_table_5_images:
  "list_all (\<lambda>(k, m). m \<noteq> [] \<and> list_all (\<lambda>x. lower_fixed x \<and> \<not> isspace x) m) lower_table_5"
  unfolding lower_table_5_def
  by (simp add: lower_fixed_def to_lower_full_def lower_lookup_def lower_table_defs isspace_def
      space_ranges_def)

lemma lower_table_6_images:
  "list_all (\<lambda>(k, m). m \<noteq> [] \<and> list_all (\<lambda>x. lower_fixed x \<and> \<not> isspace x) m) lower_table_6"
  unfolding lower_table_6_def
  by (simp add: lower_fixed_def to_lower_full_def lower_lookup_def lower_table_defs isspace_def
      space_ranges_def)

lemma lower_table_7_images:
  "list_all (\<lambda>(k, m). m \<noteq> [] \<and> list_all (\<lambda>x. lower_fixed x \<and> \<not> isspace x) m) lower_table_7"
  unfolding lower_table_7_def
  by (simp add: lower_fixed_def to_lower_full_def lower_lookup_def lower_table_defs isspace_def
      space_ranges_def)

lemma lower_table_8_images:
  "list_all (\<lambda>(k, m). m \<noteq> [] \<and> list_all (\<lambda>x. lower_fixed x \<and> \<not> isspace x) m) lower_table_8"
  unfolding lower_table_8_def
  by (simp add: lower_fixed_def to_lower_full_def lower_lookup_def lower_table_defs isspace_def
      space_ranges_def)

lemma lower_table_9_images:
  "list_all (\<lambda>(k, m). m \<noteq> [] \<and> list_all (\<lambda>x. lower_fixed x \<and> \<not> isspace x) m) lower_table_9"
  unfolding lower_table_9_def
  by (simp add: lower_fixed_def to_lower_full_def lower_lookup_def lower_table_defs isspace_def
      space_ranges_def)

lemma lower_table_10_images:
  "list_all (\<lambda>(k, m). m \<noteq> [] \<and> list_all (\<lambda>x. lower_fixed x \<and> \<not> isspace x) m) lower_table_10"
  unfolding lower_table_10_def
  by (simp add: lower_fixed_def to_lower_full_def lower_lookup_def lower_table_defs isspace_def
      space_ranges_def)

lemma lower_table_11_images:
  "list_all (\<lambda>(k, m). m \<noteq> [] \<and> list_all (\<lambda>x. lower_fixed x \<and> \<not> isspace x) m) lower_table_11"
  unfolding lower_table_11_def
  by (simp add: lower_fixed_def to_lower_full_def lower_lookup_def lower_table_defs isspace_def
      space_ranges_def)

lemma lower_table_12_images:
  "list_all (\<lambda>(k, m). m \<noteq> [] \<and> list_all (\<lambda>x. lower_fixed x \<and> \<not> isspace x) m) lower_table_12"
  unfolding lower_table_12_def
  by (simp add: lower_fixed_def to_lower_full_def lower_lookup_def lower_table_defs isspace_def
      space_ranges_def)

lemma lower_table_13_images:
  "list_all (\<lambda>(k, m). m \<noteq> [] \<and> list_all (\<lambda>x. lower_fixed x \<and> \<not> isspace x) m) lower_table_13"
  unfolding lower_table_13_def
  by (simp add: lower_fixed_def to_lower_full_def lower_lookup_def lower_table_defs isspace_def
      space_ranges_def)

lemma lower_table_14_images:
  "list_all (\<lambda>(k, m). m \<noteq> [] \<and> list_all (\<lambda>x. lower_fixed x \<and> \<not> isspace x) m) lower_table_14"
  unfolding lower_table_14_def
  by (simp add: lower_fixed_def to_lower_full_def lower_lookup_def lower_table_defs isspace_def
      space_ranges_def)

lemma lower_table_15_images:
  "list_all (\<lambda>(k, m). m \<noteq> [] \<and> list_all (\<lambda>x. lower_fixed x \<and> \<not> isspace x) m) lower_table_15"
  unfolding lower_table_15_def
  by (simp add: lower_fixed_def to_lower_full_def lower_lookup_def lower_table_defs isspace_def
      space_ranges_def)

lemma lower_table_16_images:
  "list_all (\<lambda>(k, m). m \<noteq> [] \<and> list_all (\<lambda>x. lower_fixed x \<and> \<not> isspace x) m) lower_table_16"
  unfolding lower_table_16_def
  by (simp add: lower_fixed_def to_lower_full_def lower_lookup_def lower_table_defs isspace_def
      space_ranges_def)

lemma lower_table_17_images:
  "list_all (\<lambda>(k, m). m \<noteq> [] \<and> list_all (\<lambda>x. lower_fixed x \<and> \<not> isspace x) m) lower_table_17"
  unfolding lower_table_17_def
  by (simp add: lower_fixed_def to_lower_full_def lower_lookup_def lower_table_defs isspace_def
      space_ranges_def)

lemma lower_table_18_images:
  "list_all (\<lambda>(k, m). m \<noteq> [] \<and> list_all (\<lambda>x. lower_fixed x \<and> \<not> isspace x) m) lower_table_18"
  unfolding lower_table_18_def
  by (simp add: lower_fixed_def to_lower_full_def lower_lookup_def lower_table_defs isspace_def
      space_ranges_def)

lemma lower_table_19_images:
  "list_all (\<lambda>(k, m). m \<noteq> [] \<and> list_all (\<lambda>x. lower_fixed x \<and> \<not> isspace x) m) lower_table_19"
  unfolding lower_table_19_def
  by (simp add: lower_fixed_def to_lower_full_def lower_lookup_def lower_table_defs isspace_def
      space_ranges_def)

lemma lower_table_20_images:
  "list_all (\<lambda>(k, m). m \<noteq> [] \<and> list_all (\<lambda>x. lower_fixed x \<and> \<not> isspace x) m) lower_table_20"
  unfolding lower_table_20_def
  by (simp add: lower_fixed_def to_lower_full_def lower_lookup_def lower_table_defs isspace_def
      space_ranges_def)

lemma lower_table_21_images:
  "list_all (\<lambda>(k, m). m \<noteq> [] \<and> list_all (\<lambda>x. lower_fixed x \<and> \<not> isspace x) m) lower_table_21"
  unfolding lower_table_21_def
  by (simp add: lower_fixed_def to_lower_full_def lower_lookup_def lower_table_defs isspace_def
      space_ranges_def)

lemma lower_table_22_images:
  "list_all (\<lambda>(k, m). m \<noteq> [] \<and> list_all (\<lambda>x. lower_fixed x \<and> \<not> isspace x) m) lower_table_22"
  unfolding lower_table_22_def
  by (simp add: lower_fixed_def to_lower_full_def lower_lookup_def lower_table_defs isspace_def
      space_ranges_def)

lemma lower_table_23_images:
  "list_all (\<lambda>(k, m). m \<noteq> [] \<and> list_all (\<lambda>x. lower_fixed x \<and> \<not> isspace x) m) lower_table_23"
  unfolding lower_table_23_def
  by (simp add: lower_fixed_def to_lower_full_def lower_lookup_def lower_table_defs isspace_def
      space_ranges_def)

lemma lower_table_24_images:
  "list_all (\<lambda>(k, m). m \<noteq> [] \<and> list_all (\<lambda>x. lower_fixed x \<and> \<not> isspace x) m) lower_table_24"
  unfolding lower_table_24_def
  by (simp add: lower_fixed_def to_lower_full_def lower_lookup_def lower_table_defs isspace_def
      space_ranges_def)

lemma lower_table_25_images:
  "list_all (\<lambda>(k, m). m \<noteq> [] \<and> list_all (\<lambda>x. lower_fixed x \<and> \<not> isspace x) m) lower_table_25"
  unfolding lower_table_25_def
  by (simp add: lower_fixed_def to_lower_full_def lower_lookup_def lower_table_defs isspace_def
      space_ranges_def)

lemma lower_table_26_images:
  "list_all (\<lambda>(k, m). m \<noteq> [] \<and> list_all (\<lambda>x. lower_fixed x \<and> \<not> isspace x) m) lower_table_26"
  unfolding lower_table_26_def
  by (simp add: lower_fixed_def to_lower_full_def lower_lookup_def lower_table_defs isspace_def
      space_ranges_def)

lemma lower_table_27_images:
  "list_all (\<lambda>(k, m). m \<noteq> [] \<and> list_all (\<lambda>x. lower_fixed x \<and> \<not> isspace x) m) lower_table_27"
  unfolding lower_table_27_def
  by (simp add: lower_fixed_def to_lower_full_def lower_lookup_def lower_table_defs isspace_def
      space_ranges_def)

lemma lower_table_28_images:
  "list_all (\<lambda>(k, m). m \<noteq> [] \<and> list_all (\<lambda>x. lower_fixed x \<and> \<not> isspace x) m) lower_table_28"
  unfolding lower_table_28_def
  by (simp add: lower_fixed_def to_lower_full_def lower_lookup_def lower_table_defs isspace_def
      space_ranges_def)

lemma lower_table_29_images:
  "list_all (\<lambda>(k, m). m \<noteq> [] \<and> list_all (\<lambda>x. lower_fixed x \<and> \<not> isspace x) m) lower_table_29"
  unfolding lower_table_29_def
  by (simp add: lower_fixed_def to_lower_full_def lower_lookup_def lower_table_defs isspace_def
      space_ranges_def)

lemma lower_table_30_images:
  "list_all (\<lambda>(k, m). m \<noteq> [] \<and> list_all (\<lambda>x. lower_fixed x \<and> \<not> isspace x) m) lower_table_30"
  unfolding lower_table_30_def
  by (simp add: lower_fixed_def to_lower_full_def lower_lookup_def lower_table_defs isspace_def
      space_ranges_def)

lemma lower_table_31_images:
  "list_all (\<lambda>(k, m). m \<noteq> [] \<and> list_all (\<lambda>x. lower_fixed x \<and> \<not> isspace x) m) lower_table_31"
  unfolding lower_table_31_def
  by (simp add: lower_fixed_def to_lower_full_def lower_lookup_def lower_table_defs isspace_def
      space_ranges_def)

lemma lower_table_32_images:
  "list_all (\<lambda>(k, m). m \<noteq> [] \<and> list_all (\<lambda>x. lower_fixed x \<and> \<not> isspace x) m) lower_table_32"
  unfolding lower_table_32_def
  by (simp add: lower_fixed_def to_lower_full_def lower_lookup_def lower_table_defs isspace_def
      space_ranges_def)

lemma lower_table_33_images:
  "list_all (\<lambda>(k, m). m \<noteq> [] \<and> list_all (\<lambda>x. lower_fixed x \<and> \<not> isspace x) m) lower_table_33"
  unfolding lower_table_33_def
  by (simp add: lower_fixed_def to_lower_full_def lower_lookup_def lower_table_defs isspace_def
      space_ranges_def)

lemma lower_table_34_images:
  "list_all (\<lambda>(k, m). m \<noteq> [] \<and> list_all (\<lambda>x. lower_fixed x \<and> \<not> isspace x) m) lower_table_34"
  unfolding lower_table_34_def
  by (simp add: lower_fixed_def to_lower_full_def lower_lookup_def lower_table_defs isspace_def
      space_ranges_def)

lemma lower_table_35_images:
  "list_all (\<lambda>(k, m). m \<noteq> [] \<and> list_all (\<lambda>x. lower_fixed x \<and> \<not> isspace x) m) lower_table_35"
  unfolding lower_table_35_def
  by (simp add: lower_fixed_def to_lower_full_def lower_lookup_def lower_table_defs isspace_def
      space_ranges_def)

lemma lower_table_36_images:
  "list_all (\<lambda>(k, m). m \<noteq> [] \<and> list_all (\<lambda>x. lower_fixed x \<and> \<not> isspace x) m) lower_table_36"
  unfolding lower_table_36_def
  by (simp add: lower_fixed_def to_lower_full_def lower_lookup_def lower_table_defs isspace_def
      space_ranges_def)

lemma lower_table_37_images:
  "list_all (\<lambda>(k, m). m \<noteq> [] \<and> list_all (\<lambda>x. lower_fixed x \<and> \<not> isspace x) m) lower_table_37"
  unfolding lower_table_37_def
  by (simp add: lower_fixed_def to_lower_full_def lower_lookup_def lower_table_defs isspace_def
      space_ranges_def)

lemma lower_table_38_images:
  "list_all (\<lambda>(k, m). m \<noteq> [] \<and> list_all (\<lambda>x. lower_fixed x \<and> \<not> isspace x) m) lower_table_38"
  unfolding lower_table_38_def
  by (simp add: lower_fixed_def to_lower_full_def lower_lookup_def lower_table_defs isspace_def
      space_ranges_def)

lemma lower_table_39_images:
  "list_all (\<lambda>(k, m). m \<noteq> [] \<and> list_all (\<lambda>x. lower_fixed x \<and> \<not> isspace x) m) lower_table_39"
  unfolding lower_table_39_def
  by (simp add: lower_fixed_def to_lower_full_def lower_lookup_def lower_table_defs isspace_def
      space_ranges_def)

lemma lower_table_40_images:
  "list_all (\<lambda>(k, m). m \<noteq> [] \<and> list_all (\<lambda>x. lower_fixed x \<and> \<not> isspace x) m) lower_table_40"
  unfolding lower_table_40_def
  by (simp add: lower_fixed_def to_lower_full_def lower_lookup_def lower_table_defs isspace_def
      space_ranges_def)

lemma lower_table_41_images:
  "list_all (\<lambda>(k, m). m \<noteq> [] \<and> list_all (\<lambda>x. lower_fixed x \<and> \<not> isspace x) m) lower_table_41"
  unfolding lower_table_41_def
  by (simp add: lower_fixed_def to_lower_full_def lower_lookup_def lower_table_defs isspace_def
      space_ranges_def)

lemma lower_table_42_images:
  "list_all (\<lambda>(k, m). m \<noteq> [] \<and> list_all (\<lambda>x. lower_fixed x \<and> \<not> isspace x) m) lower_table_42"
  unfolding lower_table_42_def
  by (simp add: lower_fixed_def to_lower_full_def lower_lookup_def lower_table_defs isspace_def
      space_ranges_def)

lemma lower_table_43_images:
  "list_all (\<lambda>(k, m). m \<noteq> [] \<and> list_all (\<lambda>x. lower_fixed x \<and> \<not> isspace x) m) lower_table_43"
  unfolding lower_table_43_def
  by (simp add: lower_fixed_def to_lower_full_def lower_lookup_def lower_table_defs isspace_def
      space_ranges_def)

lemma lower_table_44_images:
  "list_all (\<lambda>(k, m). m \<noteq> [] \<and> list_all (\<lambda>x. lower_fixed x \<and> \<not> isspace x) m) lower_table_44"
  unfolding lower_table_44_def
  by (simp add: lower_fixed_def to_lower_full_def lower_lookup_def lower_table_defs isspace_def
      space_ranges_def)

lemma block_images:
  assumes "list_all (\<lambda>(k, m). m \<noteq> [] \<and> list_all (\<lambda>x. lower_fixed x \<and> \<not> isspace x) m) t"
    and "table_lookup c t = Some m"
  shows "m \<noteq> [] \<and> list_all (\<lambda>x. lower_fixed x \<and> \<not> isspace x) m"
  using assms table_lookup_mem[of c t m] unfolding list_all_iff by blast

lemma lower_lookup_images:
  assumes "lower_lookup c = Some m"
  shows "m \<noteq> [] \<and> list_all (\<lambda>x. lower_fixed x \<and> \<not> isspace x) m"
  using assms unfolding lower_lookup_def
  by (auto split: if_splits
      dest: block_images[OF lower_table_1_images]
        block_images[OF lower_table_2_images]
        block_images[OF lower_table_3_images]
        block_images[OF lower_table_4_images]
        block_images[OF lower_table_5_images]
        block_images[OF lower_table_6_images]
        block_images[OF lower_table_7_images]
        block_images[OF lower_table_8_images]
        block_images[OF lower_table_9_images]
        block_images[OF lower_table_10_images]
        block_images[OF lower_table_11_images]
        block_images[OF lower_table_12_images]
        block_images[OF lower_table_13_images]
        block_images[OF lower_table_14_images]
        block_images[OF lower_table_15_images]
        block_images[OF lower_table_16_images]
        block_images[OF lower_table_17_images]
        block_images[OF lower_table_18_images]
        block_images[OF lower_table_19_images]
        block_images[OF lower_table_20_images]
        block_images[OF lower_table_21_images]
        block_images[OF lower_table_22_images]
        block_images[OF lower_table_23_images]
        block_images[OF lower_table_24_images]
        block_images[OF lower_table_25_images]
        block_images[OF lower_table_26_images]
        block_images[OF lower_table_27_images]
        block_images[OF lower_table_28_images]
        block_images[OF lower_table_29_images]
        block_images[OF lower_table_30_images]
        block_images[OF lower_table_31_images]
        block_images[OF lower_table_32_images]
        block_images[OF lower_table_33_images]
        block_images[OF lower_table_34_images]
        block_images[OF lower_table_35_images]
        block_images[OF lower_table_36_images]
        block_images[OF lower_table_37_images]
        block_images[OF lower_table_38_images]
        block_images[OF lower_table_39_images]
        block_images[OF lower_table_40_images]
        block_images[OF lower_table_41_images]
        block_images[OF lower_table_42_images]
        block_images[OF lower_table_43_images]
        block_images[OF lower_table_44_images])

lemma to_lower_full_images:
  "list_all lower_fixed (to_lower_full c)"
  if "c \<noteq> 931"
proof (cases "c < 128")
  case True
  then show ?thesis by (auto simp: to_lower_full_def lower_fixed_def)
next
  case False
  show ?thesis
  proof (cases "lower_lookup c")
    case None
    with False that show ?thesis by (simp add: to_lower_full_def lower_fixed_def)
  next
    case (Some m)
    from lower_lookup_images[OF Some] have "list_all lower_fixed m"
      unfolding list_all_iff by blast
    with False Some show ?thesis by (simp add: to_lower_full_def)
  qed
qed

lemma to_lower_full_no_space:
  assumes "\<not> isspace c"
  shows "to_lower_full c \<noteq> [] \<and> list_all (\<lambda>x. \<not> isspace x) (to_lower_full c)"
proof (cases "c < 128")
  case True
  then show ?thesis using assms
    by (auto simp: to_lower_full_def isspace_def space_ranges_def)
next
  case False
  show ?thesis
  proof (cases "lower_lookup c")
    case None
    with False assms show ?thesis by (simp add: to_lower_full_def)
  next
    case (Some m)
    from lower_lookup_images[OF Some] have "m \<noteq> [] \<and> list_all (\<lambda>x. \<not> isspace x) m"
      unfolding list_all_iff by blast
    with False Some show ?thesis by (simp add: to_lower_full_def)
  qed
qed

lemma sigma_images:
  "lower_fixed 962" "lower_fixed 963" "\<not> isspace 962" "\<not> isspace 963" "\<not> isspace 931"
  by (simp_all add: lower_fixed_def to_lower_full_def lower_lookup_def lower_table_defs
      isspace_def space_ranges_def)

lemma handle_capital_sigma_images:
  "lower_fixed (handle_capital_sigma before after)"
  "\<not> isspace (handle_capital_sigma before after)"
  by (simp_all add: handle_capital_sigma_def Let_def sigma_images)

subsection \<open>Lowercasing\<close>

text \<open>\<open>str.lower\<close> leaves its own results as they are.\<close>

lemma lower_from_images: "list_all lower_fixed (lower_from before s)"
  by (induction s arbitrary: before)
     (simp_all add: to_lower_full_images handle_capital_sigma_images)

lemma lower_from_fixed: "list_all lower_fixed s \<Longrightarrow> lower_from before s = s"
  by (induction s arbitrary: before) (simp_all add: lower_fixed_def)

lemma py_lower_fixed:
  assumes "set t \<subseteq> set (py_lower s)"
  shows "py_lower t = t"
proof -
  have "list_all lower_fixed (py_lower s)" unfolding py_lower_def by (rule lower_from_images)
  with assms have "list_all lower_fixed t" unfolding list_all_iff by blast
  then show ?thesis unfolding py_lower_def by (rule lower_from_fixed)
qed

text \<open>White space around a text does not change how the text is lowercased.\<close>

lemma sigma_before_space:
  assumes "all_space sp"
  shows "handle_capital_sigma (p @ sp) after = handle_capital_sigma p after"
proof -
  let ?f = "\<lambda>b. dropWhile case_ignorable b \<noteq> [] \<and> cased (hd (dropWhile case_ignorable b))"
  have "?f (p @ sp) = ?f p"
  proof (cases "\<forall>x\<in>set p. case_ignorable x")
    case True
    then have 1: "dropWhile case_ignorable p = []" by simp
    from True have 2: "dropWhile case_ignorable (p @ sp) = dropWhile case_ignorable sp"
      by (simp add: dropWhile_all list_all_iff)
    have "\<not> cased (hd (dropWhile case_ignorable sp))" if "dropWhile case_ignorable sp \<noteq> []"
    proof -
      from that have "hd (dropWhile case_ignorable sp) \<in> set sp"
        using set_dropWhileD[of _ case_ignorable sp] hd_in_set by blast
      with assms have "isspace (hd (dropWhile case_ignorable sp))"
        by (simp add: all_space_def list_all_iff)
      then show ?thesis by (rule isspace_plain(4))
    qed
    with 1 2 show ?thesis by auto
  next
    case False
    then have "dropWhile case_ignorable p \<noteq> []" by simp
    moreover from False have "dropWhile case_ignorable (p @ sp) = dropWhile case_ignorable p @ sp"
      by (auto simp: dropWhile_append)
    ultimately show ?thesis by (metis append_is_Nil_conv hd_append2)
  qed
  then show ?thesis by (simp only: handle_capital_sigma_def Let_def)
qed

lemma sigma_after_space:
  assumes "all_space sp"
  shows "handle_capital_sigma before (t @ sp) = handle_capital_sigma before t"
proof -
  let ?g = "\<lambda>a. dropWhile case_ignorable a = [] \<or> \<not> cased (hd (dropWhile case_ignorable a))"
  have "?g (t @ sp) = ?g t"
  proof (cases "\<forall>x\<in>set t. case_ignorable x")
    case True
    then have 1: "dropWhile case_ignorable t = []" by simp
    from True have 2: "dropWhile case_ignorable (t @ sp) = dropWhile case_ignorable sp"
      by (simp add: dropWhile_all list_all_iff)
    have "\<not> cased (hd (dropWhile case_ignorable sp))" if "dropWhile case_ignorable sp \<noteq> []"
    proof -
      from that have "hd (dropWhile case_ignorable sp) \<in> set sp"
        using set_dropWhileD[of _ case_ignorable sp] hd_in_set by blast
      with assms have "isspace (hd (dropWhile case_ignorable sp))"
        by (simp add: all_space_def list_all_iff)
      then show ?thesis by (rule isspace_plain(4))
    qed
    with 1 2 show ?thesis by auto
  next
    case False
    then have "dropWhile case_ignorable t \<noteq> []" by simp
    moreover from False have "dropWhile case_ignorable (t @ sp) = dropWhile case_ignorable t @ sp"
      by (auto simp: dropWhile_append)
    ultimately show ?thesis by (metis append_is_Nil_conv hd_append2)
  qed
  then show ?thesis by (simp only: handle_capital_sigma_def Let_def)
qed

lemma lower_from_space_prefix:
  "all_space sp \<Longrightarrow> lower_from before (sp @ t) = sp @ lower_from (rev sp @ before) t"
  by (induction sp arbitrary: before) (auto simp: all_space_def isspace_plain)

lemma lower_from_space_context:
  "all_space sp \<Longrightarrow> lower_from (p @ sp) t = lower_from p t"
proof (induction t arbitrary: p)
  case Nil
  then show ?case by simp
next
  case (Cons c t)
  from Cons.IH[OF Cons.prems, of "c # p"] sigma_before_space[OF Cons.prems, of p t]
  show ?case by simp
qed

lemma lower_from_space_suffix:
  "all_space sp \<Longrightarrow> lower_from before (t @ sp) = lower_from before t @ sp"
proof (induction t arbitrary: before)
  case Nil
  from lower_from_space_prefix[OF Nil, of before "[]"] show ?case by simp
next
  case (Cons c t)
  from Cons.IH[OF Cons.prems, of "c # before"] sigma_after_space[OF Cons.prems, of before t]
  show ?case by simp
qed

lemma lower_from_hd:
  assumes "\<not> isspace c"
  shows "lower_from before (c # t) \<noteq> [] \<and> \<not> isspace (hd (lower_from before (c # t)))"
proof (cases "c = 931")
  case True
  then show ?thesis by (simp add: handle_capital_sigma_images)
next
  case False
  from to_lower_full_no_space[OF assms] obtain x xs where
    o: "to_lower_full c = x # xs" and "\<not> isspace x"
    by (cases "to_lower_full c") auto
  with False show ?thesis by simp
qed

lemma lower_from_last:
  "t \<noteq> [] \<Longrightarrow> \<not> isspace (last t) \<Longrightarrow>
     lower_from before t \<noteq> [] \<and> \<not> isspace (last (lower_from before t))"
proof (induction t arbitrary: before)
  case Nil
  then show ?case by simp
next
  case (Cons c t)
  show ?case
  proof (cases "t = []")
    case True
    with Cons.prems have c: "\<not> isspace c" by simp
    show ?thesis
    proof (cases "c = 931")
      case True
      with \<open>t = []\<close> show ?thesis by (simp add: handle_capital_sigma_images)
    next
      case False
      from to_lower_full_no_space[OF c] have "to_lower_full c \<noteq> []"
        and "\<not> isspace (last (to_lower_full c))"
        by (auto simp: list_all_iff)
      with False \<open>t = []\<close> show ?thesis by simp
    qed
  next
    case False
    with Cons.prems have "\<not> isspace (last t)" by simp
    from Cons.IH[OF False this, of "c # before"] show ?thesis by simp
  qed
qed

text \<open>Lowercasing and trimming commute.\<close>

lemma py_strip_lower: "py_strip (py_lower s) = py_lower (py_strip s)"
proof -
  from py_strip_decomp[of s] obtain sp1 sp2 where
    s: "s = sp1 @ py_strip s @ sp2" and sp1: "all_space sp1" and sp2: "all_space sp2"
    and ends: "py_strip s = [] \<or> (\<not> isspace (hd (py_strip s)) \<and> \<not> isspace (last (py_strip s)))"
    by blast
  let ?core = "py_strip s"
  have "py_lower (sp1 @ ?core @ sp2) = sp1 @ lower_from (rev sp1 @ []) (?core @ sp2)"
    unfolding py_lower_def using sp1 by (rule lower_from_space_prefix)
  also have "lower_from (rev sp1 @ []) (?core @ sp2) = lower_from [] (?core @ sp2)"
    using lower_from_space_context[of "rev sp1" "[]" "?core @ sp2"] sp1
    by (simp add: all_space_def)
  also have "\<dots> = lower_from [] ?core @ sp2" using sp2 by (rule lower_from_space_suffix)
  finally have l: "py_lower s = sp1 @ py_lower ?core @ sp2"
    using s by (simp add: py_lower_def)
  have "py_lower ?core = []
      \<or> (\<not> isspace (hd (py_lower ?core)) \<and> \<not> isspace (last (py_lower ?core)))"
  proof (cases "?core = []")
    case True
    then show ?thesis by (simp add: py_lower_def)
  next
    case False
    with ends have h: "\<not> isspace (hd ?core)" and la: "\<not> isspace (last ?core)" by auto
    from False obtain c t where ct: "?core = c # t" by (cases ?core) auto
    with h have "\<not> isspace c" by simp
    from lower_from_hd[OF this, of "[]" t] ct
    have 1: "\<not> isspace (hd (py_lower ?core))" by (simp add: py_lower_def)
    from lower_from_last[OF False la, of "[]"]
    have 2: "\<not> isspace (last (py_lower ?core))" by (simp add: py_lower_def)
    from 1 2 show ?thesis by simp
  qed
  with sp1 sp2 have "py_strip (sp1 @ py_lower ?core @ sp2) = py_lower ?core"
    by (rule py_strip_sandwich)
  with l show ?thesis by simp
qed

subsection \<open>The normalizer\<close>

lemma normalize_twice:
  "normalize_text (normalize_text s) = re_sub_nonword (py_strip (normalize_text s))"
proof -
  let ?t = "normalize_text s"
  have "set (re_sub_nonword (py_strip ?t)) \<subseteq> set (py_strip ?t)"
    by (auto simp: re_sub_nonword_def)
  also have "\<dots> \<subseteq> set ?t" by (rule set_py_strip)
  finally have "set (re_sub_nonword (py_strip ?t)) \<subseteq> set (py_lower (re_sub_nonword (py_strip s)))"
    by (simp add: normalize_text_def)
  then have "py_lower (re_sub_nonword (py_strip ?t)) = re_sub_nonword (py_strip ?t)"
    by (rule py_lower_fixed)
  then show ?thesis by (simp add: normalize_text_def[of ?t])
qed

lemma normalize_unchanged_iff:
  "(normalize_text (normalize_text s) = normalize_text s)
     = (py_strip (normalize_text s) = normalize_text s
        \<and> re_sub_nonword (normalize_text s) = normalize_text s)"
proof
  let ?t = "normalize_text s"
  assume "normalize_text ?t = ?t"
  then have e: "re_sub_nonword (py_strip ?t) = ?t" by (simp add: normalize_twice)
  have "length (re_sub_nonword (py_strip ?t)) \<le> length (py_strip ?t)"
    by (simp add: re_sub_nonword_def)
  with e have "length ?t \<le> length (py_strip ?t)" by simp
  with length_py_strip[of ?t] have "length (py_strip ?t) = length ?t" by simp
  then have "py_strip ?t = ?t" by (rule py_strip_same_length)
  with e show "py_strip ?t = ?t \<and> re_sub_nonword ?t = ?t" by simp
next
  assume "py_strip (normalize_text s) = normalize_text s
        \<and> re_sub_nonword (normalize_text s) = normalize_text s"
  then show "normalize_text (normalize_text s) = normalize_text s"
    by (simp add: normalize_twice)
qed

lemma strip_normalize:
  "py_strip (normalize_text s) = py_strip (py_lower (filter (\<lambda>c. isword c \<or> isspace c) s))"
  by (simp add: normalize_text_def re_sub_nonword_def py_strip_lower py_strip_filter_strip)

lemma build_mappings_map:
  "build_mappings helf acc =
     acc @ map (\<lambda>(d, c). (normalize_text (astype_str d), astype_str c)) helf"
  by (induction helf arbitrary: acc) auto

text \<open>The normalizer on the texts of the small run.\<close>

lemma normalize_over_voltage:
  "normalize_text (asc ''Over Voltage!'') = asc ''over voltage''"
  by (simp add: ascii_eval)

lemma normalize_bangs: "normalize_text (asc ''!!!'') = []"
  by (simp add: ascii_eval)

lemma normalize_bang_a: "normalize_text (asc ''! a'') = asc '' a''"
  by (simp add: ascii_eval)

text \<open>The normalizer on text outside ASCII: \<open>U+00DC b e r\<close>, two Chinese characters with
  a full-width exclamation mark, and a text with the control character \<open>U+0085\<close> inside.\<close>

lemma normalize_unicode_examples:
  "normalize_text [220, 98, 101, 114] = [252, 98, 101, 114]"
  "normalize_text [36807, 21387, 65281] = [36807, 21387]"
  "normalize_text [97, 133, 98] = [97, 133, 98]"
  by (simp_all add: ascii_eval alnum_above_ascii_def alnum_ranges_defs lower_lookup_def
      lower_table_defs)

section \<open>The text normalizer (claims C4 and C5)\<close>

text \<open>
  Claim C4 as stated, that the normalizer returns exactly the result of removing every
  character that is neither alphanumeric nor white space, lowercasing and trimming, fails:
  on \<open>! a\<close> the program trims first and keeps the space that the removal of \<open>!\<close> lays bare,
  and on \<open>a_b\<close> it keeps the underscore.
\<close>

theorem normalize_text_spec_counterexample:
  "normalize_text (asc ''! a'') \<noteq> spec_normalize (asc ''! a'')
   \<and> normalize_text (asc ''a_b'') \<noteq> spec_normalize (asc ''a_b'')"
  by (simp add: ascii_eval spec_normalize_def)

text \<open>
  Claim C4, amended. For every input string without underscore (the empty string
  included) the normalizer returns exactly the result of trimming leading and trailing
  white space, then removing every character that is neither alphanumeric nor white
  space, then lowercasing; white space that the removal lays bare at the ends stays, and
  trimming the result gives the result of the pipeline of the claim. It is a function of
  its argument; the lookup table is built with it, and the matcher applies the same
  function to the fault description of a record before the scan.
\<close>

theorem normalize_text_amended:
  assumes "95 \<notin> set s"
  shows "normalize_text s
           = py_lower (filter (\<lambda>c. isalnum c \<or> isspace c) (py_strip s))
       \<and> py_strip (normalize_text s) = spec_normalize s
       \<and> build_mappings helf []
           = map (\<lambda>(d, c). (normalize_text (astype_str d), astype_str c)) helf
       \<and> ms_rows (match_step maps board st (idx, Some d))
           = (case find_match (normalize_text d) maps of
                None \<Rightarrow> ms_rows st
              | Some event_code \<Rightarrow> set_code (ms_rows st) idx event_code)"
proof -
  have u: "95 \<notin> set (py_strip s)" using assms set_py_strip by blast
  have k: "filter (\<lambda>c. isword c \<or> isspace c) t = filter (\<lambda>c. isalnum c \<or> isspace c) t"
    if "95 \<notin> set t" for t
    using that by (intro filter_cong) (auto simp: isword_def)
  have 1: "normalize_text s = py_lower (filter (\<lambda>c. isalnum c \<or> isspace c) (py_strip s))"
    by (simp add: normalize_text_def re_sub_nonword_def k[OF u])
  have 2: "py_strip (normalize_text s) = spec_normalize s"
    using strip_normalize[of s] by (simp add: k[OF assms] spec_normalize_def)
  have 3: "ms_rows (match_step maps board st (idx, Some d))
           = (case find_match (normalize_text d) maps of
                None \<Rightarrow> ms_rows st
              | Some event_code \<Rightarrow> set_code (ms_rows st) idx event_code)"
    by (simp add: match_step_def split: option.splits)
  show ?thesis using 1 2 3 by (simp add: build_mappings_map)
qed

theorem normalize_text_amended_witness:
  "95 \<notin> set (asc ''! a'')
   \<and> normalize_text (asc ''! a'') = asc '' a''
   \<and> py_strip (normalize_text (asc ''! a'')) = spec_normalize (asc ''! a'')"
proof -
  have u: "95 \<notin> set (asc ''! a'')" by (simp add: asc_def)
  from normalize_text_amended[OF u, of "[]"]
  have "py_strip (normalize_text (asc ''! a'')) = spec_normalize (asc ''! a'')" by blast
  with u normalize_bang_a show ?thesis by blast
qed

text \<open>
  Claim C5 as stated, that normalizing a normalized string returns it unchanged, fails:
  \<open>! a\<close> is normalized to \<open> a\<close> with a space in front, and that to \<open>a\<close>; the capital I with
  dot above (code point 304) is normalized to \<open>i\<close> followed by the combining dot above
  (code point 775), which is no word character, and that to \<open>i\<close>.
\<close>

theorem normalize_text_idempotent_counterexample:
  "normalize_text (normalize_text (asc ''! a'')) \<noteq> normalize_text (asc ''! a'')
   \<and> normalize_text (normalize_text [304]) \<noteq> normalize_text [304]"
proof -
  have 1: "normalize_text (asc '' a'') = asc ''a''" by (simp add: ascii_eval)
  have 2: "normalize_text [304] = [105, 775]"
    by (simp add: ascii_eval alnum_above_ascii_def alnum_ranges_defs lower_lookup_def
        lower_table_defs)
  have 3: "normalize_text [105, 775] = [105]"
    by (simp add: ascii_eval alnum_above_ascii_def alnum_ranges_defs lower_lookup_def
        lower_table_defs)
  show ?thesis by (simp add: normalize_bang_a 1 2 3) (simp add: asc_def)
qed

text \<open>
  Claim C5, amended. For every string, normalizing the result of normalizing it trims
  that result, removes from it the characters that are neither word characters nor white space,
  and changes nothing else: no letter changes its case again. So the normalizer returns a
  normalized string unchanged exactly when that string has no white space at its ends and
  holds word characters and white space only.
\<close>

theorem normalize_text_twice:
  "normalize_text (normalize_text s) = re_sub_nonword (py_strip (normalize_text s))
   \<and> ((normalize_text (normalize_text s) = normalize_text s)
        = (py_strip (normalize_text s) = normalize_text s
           \<and> re_sub_nonword (normalize_text s) = normalize_text s))"
  using normalize_twice[of s] normalize_unchanged_iff[of s] by blast

theorem normalize_text_twice_witness:
  "normalize_text (normalize_text (asc ''Over Voltage!'')) = asc ''over voltage''
   \<and> normalize_text (normalize_text (asc ''Over Voltage!''))
       = normalize_text (asc ''Over Voltage!'')"
proof -
  have n: "re_sub_nonword (py_strip (asc ''over voltage'')) = asc ''over voltage''"
    by (simp add: ascii_eval)
  from normalize_text_twice[of "asc ''Over Voltage!''"] n show ?thesis
    by (simp add: normalize_over_voltage)
qed

section \<open>Properties of the matcher\<close>


lemma startswith_Nil: "startswith s []"
  by (cases s) auto

lemma startswith_refl: "startswith s s"
  by (induction s) auto

lemma py_in_Nil: "py_in [] s"
  by (cases s) auto

lemma py_in_refl: "py_in s s"
  by (cases s) (auto simp: startswith_refl)

lemma startswith_iff: "startswith s p = (\<exists>t. s = p @ t)"
  by (induction s p rule: startswith.induct) auto

lemma py_in_iff: "py_in x s = (\<exists>a b. s = a @ x @ b)"
proof (induction s)
  case Nil
  then show ?case by auto
next
  case (Cons y s)
  show ?case
  proof
    assume "py_in x (y # s)"
    then consider "startswith (y # s) x" | "py_in x s" by auto
    then show "\<exists>a b. y # s = a @ x @ b"
    proof cases
      case 1
      then obtain t where "y # s = x @ t" by (auto simp: startswith_iff)
      then have "y # s = [] @ x @ t" by simp
      then show ?thesis by blast
    next
      case 2
      with Cons obtain a b where "s = a @ x @ b" by auto
      then have "y # s = (y # a) @ x @ b" by simp
      then show ?thesis by blast
    qed
  next
    assume "\<exists>a b. y # s = a @ x @ b"
    then obtain a b where ab: "y # s = a @ x @ b" by auto
    show "py_in x (y # s)"
    proof (cases a)
      case Nil
      with ab have "startswith (y # s) x" by (auto simp: startswith_iff)
      then show ?thesis by simp
    next
      case (Cons a1 as)
      with ab have "s = as @ x @ b" by simp
      with Cons.IH have "py_in x s" by auto
      then show ?thesis by simp
    qed
  qed
qed

lemma find_match_Some_mem:
  "find_match q maps = Some c \<Longrightarrow> c \<in> snd ` set maps"
  by (induction maps) (auto split: if_splits)

lemma find_match_first:
  "find_match q maps = Some c \<Longrightarrow>
     \<exists>j<length maps. c = snd (maps ! j) \<and> py_in q (fst (maps ! j))
        \<and> (\<forall>j'<j. \<not> py_in q (fst (maps ! j')))"
proof (induction maps)
  case Nil
  then show ?case by simp
next
  case (Cons m maps)
  obtain d e where m: "m = (d, e)" by (cases m)
  show ?case
  proof (cases "py_in q d")
    case True
    with Cons.prems m have "c = e" by simp
    with True m have "0 < length (m # maps) \<and> c = snd ((m # maps) ! 0) \<and> py_in q (fst ((m # maps) ! 0))
        \<and> (\<forall>j'<0. \<not> py_in q (fst ((m # maps) ! j')))" by simp
    then show ?thesis by blast
  next
    case False
    then have "q \<noteq> d" using py_in_refl by auto
    with False Cons.prems m have "find_match q maps = Some c" by simp
    with Cons.IH obtain j where j: "j < length maps" "c = snd (maps ! j)" "py_in q (fst (maps ! j))"
      "\<forall>j'<j. \<not> py_in q (fst (maps ! j'))" by auto
    have "\<forall>j'<Suc j. \<not> py_in q (fst ((m # maps) ! j'))"
    proof (intro allI impI)
      fix j' assume "j' < Suc j"
      then show "\<not> py_in q (fst ((m # maps) ! j'))"
        using j(4) False m by (cases j') auto
    qed
    with j have "Suc j < length (m # maps) \<and> c = snd ((m # maps) ! Suc j) \<and> py_in q (fst ((m # maps) ! Suc j))
        \<and> (\<forall>j'<Suc j. \<not> py_in q (fst ((m # maps) ! j')))" by simp
    then show ?thesis by blast
  qed
qed

lemma find_match_None:
  "find_match q maps = None \<Longrightarrow> m \<in> set maps \<Longrightarrow> \<not> py_in q (fst m)"
  by (induction maps) (auto split: if_splits)

lemma find_match_exists:
  "m \<in> set maps \<Longrightarrow> py_in q (fst m) \<Longrightarrow> \<exists>c. find_match q maps = Some c"
  using find_match_None by (cases "find_match q maps") auto

lemma length_set_code: "length (set_code rows idx c) = length rows"
  by (simp add: set_code_def)

lemma nth_set_code:
  "i < length rows \<Longrightarrow>
     set_code rows idx c ! i = (if i = idx then (rows ! i)\<lparr>o_code := c\<rparr> else rows ! i)"
  by (simp add: set_code_def)

lemma length_match_step: "length (ms_rows (match_step maps board st item)) = length (ms_rows st)"
  by (auto simp: match_step_def length_set_code split: prod.splits option.splits)

lemma length_match_loop: "length (ms_rows (match_loop maps board items st)) = length (ms_rows st)"
  by (induction items arbitrary: st) (auto simp: length_match_step)

text \<open>What the matcher leaves in a row, from the cell of the English description.\<close>

lemma nth_match_step:
  "i < length (ms_rows st) \<Longrightarrow>
   ms_rows (match_step maps board st (idx, fd)) ! i =
     (if i = idx then
        (case fd of None \<Rightarrow> ms_rows st ! i
         | Some d \<Rightarrow> (case find_match (normalize_text d) maps of
                        None \<Rightarrow> ms_rows st ! i
                      | Some c \<Rightarrow> (ms_rows st ! i)\<lparr>o_code := c\<rparr>))
      else ms_rows st ! i)"
  by (auto simp: match_step_def nth_set_code split: option.splits)

lemma nth_match_loop:
  "i < length (ms_rows st) \<Longrightarrow>
   ms_rows (match_loop maps board (enumerate n fds) st) ! i =
     (if n \<le> i \<and> i < n + length fds then
        (case fds ! (i - n) of None \<Rightarrow> ms_rows st ! i
         | Some d \<Rightarrow> (case find_match (normalize_text d) maps of
                        None \<Rightarrow> ms_rows st ! i
                      | Some c \<Rightarrow> (ms_rows st ! i)\<lparr>o_code := c\<rparr>))
      else ms_rows st ! i)"
proof (induction fds arbitrary: n st)
  case Nil
  then show ?case by auto
next
  case (Cons fd fds)
  let ?st = "match_step maps board st (n, fd)"
  have len: "i < length (ms_rows ?st)" using Cons.prems by (simp add: length_match_step)
  have step: "ms_rows ?st ! i = (if i = n then
        (case fd of None \<Rightarrow> ms_rows st ! i
         | Some d \<Rightarrow> (case find_match (normalize_text d) maps of
                        None \<Rightarrow> ms_rows st ! i
                      | Some c \<Rightarrow> (ms_rows st ! i)\<lparr>o_code := c\<rparr>))
      else ms_rows st ! i)"
    using Cons.prems by (rule nth_match_step)
  have "ms_rows (match_loop maps board (enumerate n (fd # fds)) st) ! i
      = ms_rows (match_loop maps board (enumerate (Suc n) fds) ?st) ! i" by simp
  also have "\<dots> = (if Suc n \<le> i \<and> i < Suc n + length fds then
        (case fds ! (i - Suc n) of None \<Rightarrow> ms_rows ?st ! i
         | Some d \<Rightarrow> (case find_match (normalize_text d) maps of
                        None \<Rightarrow> ms_rows ?st ! i
                      | Some c \<Rightarrow> (ms_rows ?st ! i)\<lparr>o_code := c\<rparr>))
      else ms_rows ?st ! i)"
    using Cons.IH[OF len] .
  finally show ?case
    using step by (cases "i = n") (auto simp: nth_Cons' Suc_diff_Suc split: option.splits)
qed

section \<open>Closed forms of the board pipeline\<close>


lemma missing_cols_Nil: "(missing_cols df labels = []) = (set labels \<subseteq> set (err_columns df))"
  by (auto simp: missing_cols_def filter_empty_conv)

lemma length_first_error: "first_error rs = Inr xs \<Longrightarrow> length xs = length rs"
  by (induction rs arbitrary: xs rule: first_error.induct) (auto split: sum.splits)


lemma length_fillna_astype_int: "fillna_astype_int col = Inr xs \<Longrightarrow> length xs = length col"
  by (auto simp: fillna_astype_int_def split: if_splits dest: length_first_error)

lemma offsets_Inr: "fillna_astype_int col = Inr xs \<Longrightarrow> offsets col = xs"
  by (simp add: offsets_def)

lemma in_int64_min: "in_int64 (- (2 ^ 63))"
  by (simp add: in_int64_def)


lemma fillna_astype_int_floats:
  "\<not> list_ex is_txt col \<Longrightarrow> fillna_astype_int col = Inr (map cast_float col)"
  by (simp add: fillna_astype_int_def)

lemma prepare_fst:
  "fst (prepare_output_for_board df cfg b) =
     (if \<not> 1 < length (py_split 95 (board_fold_name b)) then Inl IndexError
      else if missing_cols df [col_member, col_component, col_component_no] \<noteq> []
        then Inl (KeyError (missing_cols df [col_member, col_component, col_component_no]))
      else if missing_cols df [col_byte] \<noteq> [] then Inl (KeyError (missing_cols df [col_byte]))
      else
       (case fillna_astype_int (map e_byte (err_rows df)) of
          Inl e \<Rightarrow> Inl e
        | Inr byte_addr \<Rightarrow>
           if missing_cols df [col_bit] \<noteq> [] then Inl (KeyError (missing_cols df [col_bit]))
           else
            (case fillna_astype_int (map e_bit (err_rows df)) of
               Inl e \<Rightarrow> Inl e
             | Inr bit_addr \<Rightarrow>
                if missing_cols df [col_desc] \<noteq> []
                  then Inl (KeyError (missing_cols df [col_desc]))
                else if missing_cols df [col_desc_en] \<noteq> []
                  then Inl (KeyError (missing_cols df [col_desc_en]))
                else Inr \<lparr> out_columns =
                   foldl add_col [col_member, col_component, col_component_no]
                     [ident_col (pgName cfg) (py_upper (py_split 95 (board_fold_name b) ! 1)),
                      addr_col (fst (get_vp_prefix (pgName cfg))),
                      col_desc, col_desc_en, col_code, col_board],
                 out_rows =
                   map (\<lambda>(r, byte, bit).
                          make_out_row (pgName cfg)
                            (py_upper (py_split 95 (board_fold_name b) ! 1))
                            (fst (get_vp_prefix (pgName cfg))) (boardId b) (board_fold_name b)
                            r byte bit)
                     (zip (err_rows df) (zip byte_addr bit_addr)) \<rparr>)))"
  by (simp add: prepare_output_for_board_def get_board_config_def Let_def
      split: prod.splits sum.splits)

lemma prepare_fst_Inr:
  assumes "fst (prepare_output_for_board df cfg b) = Inr out"
  shows "out_rows out =
           map (\<lambda>(r, byte, bit).
                  make_out_row (pgName cfg) (py_upper (py_split 95 (board_fold_name b) ! 1))
                    (fst (get_vp_prefix (pgName cfg))) (boardId b) (board_fold_name b)
                    r byte bit)
             (zip (err_rows df)
                (zip (offsets (map e_byte (err_rows df))) (offsets (map e_bit (err_rows df)))))"
    and "out_columns out =
           foldl add_col [col_member, col_component, col_component_no]
             [ident_col (pgName cfg) (py_upper (py_split 95 (board_fold_name b) ! 1)),
              addr_col (fst (get_vp_prefix (pgName cfg))),
              col_desc, col_desc_en, col_code, col_board]"
    and "col_desc_en \<in> set (err_columns df)"
    and "1 < length (py_split 95 (board_fold_name b))"
    and "fillna_astype_int (map e_byte (err_rows df)) = Inr (offsets (map e_byte (err_rows df)))"
    and "fillna_astype_int (map e_bit (err_rows df)) = Inr (offsets (map e_bit (err_rows df)))"
  using assms unfolding prepare_fst
  by (auto split: if_splits sum.splits simp: missing_cols_Nil offsets_def)

lemma prepare_rows:
  assumes ok: "fst (prepare_output_for_board df cfg b) = Inr out"
  shows "length (out_rows out) = length (err_rows df)"
    and "i < length (err_rows df) \<Longrightarrow>
         out_rows out ! i =
           make_out_row (pgName cfg) (py_upper (py_split 95 (board_fold_name b) ! 1))
             (fst (get_vp_prefix (pgName cfg))) (boardId b) (board_fold_name b)
             (err_rows df ! i)
             (offsets (map e_byte (err_rows df)) ! i) (offsets (map e_bit (err_rows df)) ! i)"
proof -
  note p = prepare_fst_Inr[OF ok]
  have lb: "length (offsets (map e_byte (err_rows df))) = length (err_rows df)"
    using length_fillna_astype_int[OF p(5)] by simp
  have lt: "length (offsets (map e_bit (err_rows df))) = length (err_rows df)"
    using length_fillna_astype_int[OF p(6)] by simp
  show "length (out_rows out) = length (err_rows df)" by (simp add: p(1) lb lt)
  show "out_rows out ! i =
           make_out_row (pgName cfg) (py_upper (py_split 95 (board_fold_name b) ! 1))
             (fst (get_vp_prefix (pgName cfg))) (boardId b) (board_fold_name b)
             (err_rows df ! i)
             (offsets (map e_byte (err_rows df)) ! i) (offsets (map e_bit (err_rows df)) ! i)"
    if "i < length (err_rows df)"
    using that by (simp add: p(1) lb lt)
qed

lemma prepare_fst_ok:
  assumes "1 < length (py_split 95 (board_fold_name b))"
    and "set [col_member, col_component, col_component_no, col_byte, col_bit, col_desc,
              col_desc_en] \<subseteq> set (err_columns df)"
    and "\<not> isl (fillna_astype_int (map e_byte (err_rows df)))"
    and "\<not> isl (fillna_astype_int (map e_bit (err_rows df)))"
  shows "\<exists>out. fst (prepare_output_for_board df cfg b) = Inr out"
  using assms unfolding prepare_fst by (auto simp: missing_cols_Nil split: sum.splits)

lemma add_fault_codes_fst:
  "fst (add_fault_codes_for_board df_output df_err_rpt df_helf_input b) =
     (if col_desc_en \<notin> set (err_columns df_err_rpt) then Inl (KeyError [col_desc_en])
      else Inr (df_output\<lparr>out_rows :=
             ms_rows (match_loop (build_mappings df_helf_input []) (board_fold_name b)
                        (enumerate 0 (map e_desc_en (err_rows df_err_rpt)))
                        \<lparr> ms_rows = out_rows df_output, matched_count = 0,
                          not_matched_count = 0,
                          ms_events =
                            [Print MsgMatchStart, Log INFO MsgMatchStart,
                             Print (MsgMappingCount (length (build_mappings df_helf_input []))),
                             Log INFO (MsgMappingCount (length (build_mappings df_helf_input [])))]
                        \<rparr>)\<rparr>))"
  by (simp add: add_fault_codes_for_board_def Let_def)

lemma process_board_fst:
  "fst (process_board w cfg b) =
     (case read_err_sheet w (path_join w (fold_path b) (errEntries_file_name b))
             (errEntries_file_sheet b) of
        Inl e \<Rightarrow> Inl e
      | Inr df_err_rpt \<Rightarrow>
         (case read_helf_sheet w (helf_input_file cfg) (subsys_sheet cfg) of
            Inl e \<Rightarrow> Inl e
          | Inr df_helf_input \<Rightarrow>
             (case fst (prepare_output_for_board df_err_rpt cfg b) of
                Inl e \<Rightarrow> Inl e
              | Inr df_output \<Rightarrow>
                  fst (add_fault_codes_for_board df_output df_err_rpt df_helf_input b))))"
  by (simp add: process_board_def read_input_files_for_board_def Let_def
      split: sum.splits prod.splits)

text \<open>The rows of a processed board, from the rows of its sheet and the lookup sheet.\<close>

lemma process_board_rows:
  assumes ok: "fst (process_board w cfg b) = Inr df_final"
    and err: "read_err_sheet w (path_join w (fold_path b) (errEntries_file_name b))
                (errEntries_file_sheet b) = Inr df_err_rpt"
    and helf: "read_helf_sheet w (helf_input_file cfg) (subsys_sheet cfg) = Inr df_helf_input"
  shows "length (out_rows df_final) = length (err_rows df_err_rpt)"
    and "i < length (err_rows df_err_rpt) \<Longrightarrow>
         out_rows df_final ! i =
           (let base = make_out_row (pgName cfg)
                         (py_upper (py_split 95 (board_fold_name b) ! 1))
                         (fst (get_vp_prefix (pgName cfg))) (boardId b) (board_fold_name b)
                         (err_rows df_err_rpt ! i)
                         (offsets (map e_byte (err_rows df_err_rpt)) ! i)
                         (offsets (map e_bit (err_rows df_err_rpt)) ! i)
            in case e_desc_en (err_rows df_err_rpt ! i) of
                 None \<Rightarrow> base
               | Some d \<Rightarrow>
                  (case find_match (normalize_text d) (build_mappings df_helf_input []) of
                     None \<Rightarrow> base
                   | Some c \<Rightarrow> base\<lparr>o_code := c\<rparr>))"
    and "out_columns df_final =
           foldl add_col [col_member, col_component, col_component_no]
             [ident_col (pgName cfg) (py_upper (py_split 95 (board_fold_name b) ! 1)),
              addr_col (fst (get_vp_prefix (pgName cfg))),
              col_desc, col_desc_en, col_code, col_board]"
proof -
  from ok err helf obtain df_output where
    prep: "fst (prepare_output_for_board df_err_rpt cfg b) = Inr df_output"
    and add: "fst (add_fault_codes_for_board df_output df_err_rpt df_helf_input b) = Inr df_final"
    by (auto simp: process_board_fst split: sum.splits)
  note p = prepare_fst_Inr[OF prep]
  note q = prepare_rows[OF prep]
  let ?st = "\<lparr> ms_rows = out_rows df_output, matched_count = 0, not_matched_count = 0,
               ms_events =
                 [Print MsgMatchStart, Log INFO MsgMatchStart,
                  Print (MsgMappingCount (length (build_mappings df_helf_input []))),
                  Log INFO (MsgMappingCount (length (build_mappings df_helf_input [])))] \<rparr>"
  let ?loop = "match_loop (build_mappings df_helf_input []) (board_fold_name b)
                 (enumerate 0 (map e_desc_en (err_rows df_err_rpt))) ?st"
  from add p(3) have fin: "df_final = df_output\<lparr>out_rows := ms_rows ?loop\<rparr>"
    by (simp add: add_fault_codes_fst)
  show "length (out_rows df_final) = length (err_rows df_err_rpt)"
    by (simp add: fin length_match_loop q(1))
  show "out_columns df_final =
           foldl add_col [col_member, col_component, col_component_no]
             [ident_col (pgName cfg) (py_upper (py_split 95 (board_fold_name b) ! 1)),
              addr_col (fst (get_vp_prefix (pgName cfg))),
              col_desc, col_desc_en, col_code, col_board]"
    by (simp add: fin p(2))
  show "out_rows df_final ! i =
           (let base = make_out_row (pgName cfg)
                         (py_upper (py_split 95 (board_fold_name b) ! 1))
                         (fst (get_vp_prefix (pgName cfg))) (boardId b) (board_fold_name b)
                         (err_rows df_err_rpt ! i)
                         (offsets (map e_byte (err_rows df_err_rpt)) ! i)
                         (offsets (map e_bit (err_rows df_err_rpt)) ! i)
            in case e_desc_en (err_rows df_err_rpt ! i) of
                 None \<Rightarrow> base
               | Some d \<Rightarrow>
                  (case find_match (normalize_text d) (build_mappings df_helf_input []) of
                     None \<Rightarrow> base
                   | Some c \<Rightarrow> base\<lparr>o_code := c\<rparr>))"
    if i: "i < length (err_rows df_err_rpt)"
  proof -
    have len: "i < length (ms_rows ?st)" using i by (simp add: q(1))
    have st_i: "ms_rows ?st ! i =
                  make_out_row (pgName cfg) (py_upper (py_split 95 (board_fold_name b) ! 1))
                    (fst (get_vp_prefix (pgName cfg))) (boardId b) (board_fold_name b)
                    (err_rows df_err_rpt ! i)
                    (offsets (map e_byte (err_rows df_err_rpt)) ! i)
                    (offsets (map e_bit (err_rows df_err_rpt)) ! i)"
      using q(2)[OF i] by simp
    have "out_rows df_final ! i = ms_rows ?loop ! i" by (simp add: fin)
    also have "\<dots> =
        (case map e_desc_en (err_rows df_err_rpt) ! (i - 0) of
           None \<Rightarrow> ms_rows ?st ! i
         | Some d \<Rightarrow>
            (case find_match (normalize_text d) (build_mappings df_helf_input []) of
               None \<Rightarrow> ms_rows ?st ! i
             | Some c \<Rightarrow> (ms_rows ?st ! i)\<lparr>o_code := c\<rparr>))"
      using i by (subst nth_match_loop[OF len]) simp
    finally show ?thesis
      using i by (simp only: st_i Let_def) simp
  qed
qed

lemma process_board_ok:
  assumes err: "read_err_sheet w (path_join w (fold_path b) (errEntries_file_name b))
                (errEntries_file_sheet b) = Inr df_err_rpt"
    and helf: "read_helf_sheet w (helf_input_file cfg) (subsys_sheet cfg) = Inr df_helf_input"
    and "1 < length (py_split 95 (board_fold_name b))"
    and cols: "set [col_member, col_component, col_component_no, col_byte, col_bit, col_desc,
              col_desc_en] \<subseteq> set (err_columns df_err_rpt)"
    and byte: "\<not> isl (fillna_astype_int (map e_byte (err_rows df_err_rpt)))"
    and bit: "\<not> isl (fillna_astype_int (map e_bit (err_rows df_err_rpt)))"
  shows "\<exists>df_final. fst (process_board w cfg b) = Inr df_final"
proof -
  from prepare_fst_ok[OF assms(3) cols byte bit] obtain out where
    "fst (prepare_output_for_board df_err_rpt cfg b) = Inr out" by blast
  moreover have "col_desc_en \<in> set (err_columns df_err_rpt)" using cols by simp
  ultimately show ?thesis
    using err helf by (simp add: process_board_fst add_fault_codes_fst)
qed

text \<open>The small run, evaluated.\<close>

lemma ex_read_err:
  "read_err_sheet ex_world (path_join ex_world (fold_path ex_board) (errEntries_file_name ex_board))
     (errEntries_file_sheet ex_board) = Inr ex_sheet"
  by (simp add: ex_world_def ex_board_def asc_def)

lemma ex_read_helf:
  "read_helf_sheet ex_world (helf_input_file (ex_cfg\<lparr>pgName := pg\<rparr>))
     (subsys_sheet (ex_cfg\<lparr>pgName := pg\<rparr>)) = Inr ex_helf"
  by (simp add: ex_world_def ex_cfg_def)

lemma ex_split: "py_split 95 (board_fold_name ex_board) = [asc ''WS'', asc ''ab'', asc ''1'']"
  by (simp add: ex_board_def asc_def)

lemma ex_mappings:
  "build_mappings ex_helf [] = [(asc ''over voltage fault'', asc ''E1''), (asc ''over voltage'', asc ''E2'')]"
proof -
  have 1: "normalize_text (asc ''Over voltage fault'') = asc ''over voltage fault''"
    by (simp add: ascii_eval)
  have 2: "normalize_text (asc ''over voltage'') = asc ''over voltage''"
    by (simp add: ascii_eval)
  show ?thesis by (simp add: ex_helf_def build_mappings_map astype_str_def 1 2)
qed

lemma ex_offsets:
  "fillna_astype_int (map e_byte (err_rows ex_sheet)) = Inr [5, 0, 1]"
  "fillna_astype_int (map e_bit (err_rows ex_sheet)) = Inr [0, 5, 2]"
  by (simp_all add: fillna_astype_int_def ex_sheet_def ex_row1_def ex_row2_def ex_row3_def
      in_int64_def trunc_def)

lemma ex_process_board:
  "\<exists>df. fst (process_board ex_world (ex_cfg\<lparr>pgName := pg\<rparr>) ex_board) = Inr df"
proof (rule process_board_ok[OF ex_read_err ex_read_helf])
  show "1 < length (py_split 95 (board_fold_name ex_board))" by (simp add: ex_split)
  show "set [col_member, col_component, col_component_no, col_byte, col_bit, col_desc,
             col_desc_en] \<subseteq> set (err_columns ex_sheet)"
    by (simp add: ex_sheet_def)
  show "\<not> isl (fillna_astype_int (map e_byte (err_rows ex_sheet)))" by (simp add: ex_offsets)
  show "\<not> isl (fillna_astype_int (map e_bit (err_rows ex_sheet)))" by (simp add: ex_offsets)
qed

lemma ex_cfg_pg: "ex_cfg\<lparr>pgName := asc ''WS''\<rparr> = ex_cfg"
  by (simp add: ex_cfg_def)

lemma ex_board_ok: "\<not> isl (fst (process_board ex_world ex_cfg ex_board))"
  using ex_process_board[of "asc ''WS''"] by (auto simp: ex_cfg_pg)

lemma ex_board_final:
  "fst (process_board ex_world ex_cfg ex_board)
     = Inr (projr (fst (process_board ex_world ex_cfg ex_board)))"
  using ex_board_ok by (cases "fst (process_board ex_world ex_cfg ex_board)") auto

lemma ex_read_helf_cfg:
  "read_helf_sheet ex_world (helf_input_file ex_cfg) (subsys_sheet ex_cfg) = Inr ex_helf"
  using ex_read_helf[of "asc ''WS''"] by (simp add: ex_cfg_pg)

lemma process_board_reads:
  assumes "fst (process_board w cfg b) = Inr df_final"
  shows "\<exists>df_helf_input.
           read_helf_sheet w (helf_input_file cfg) (subsys_sheet cfg) = Inr df_helf_input"
  using assms by (auto simp: process_board_fst split: sum.splits)

section \<open>Rows without English description (claim C10)\<close>

text \<open>
  Claim C10. When the cell of the English description of a row is missing in the sheet of
  a board, the output record of that row has the three characters \<open>nan\<close> as its English
  description, not the empty string, and its fault code stays empty, the matcher
  skipping the row.
\<close>

theorem missing_description_gives_nan:
  assumes ok: "fst (process_board w cfg b) = Inr df_final"
    and err: "read_err_sheet w (path_join w (fold_path b) (errEntries_file_name b))
                (errEntries_file_sheet b) = Inr df_err_rpt"
    and i: "i < length (err_rows df_err_rpt)"
    and missing: "e_desc_en (err_rows df_err_rpt ! i) = None"
  shows "i < length (out_rows df_final)
       \<and> o_desc_en (out_rows df_final ! i) = asc ''nan''
       \<and> o_desc_en (out_rows df_final ! i) \<noteq> []
       \<and> o_code (out_rows df_final ! i) = []"
proof -
  from process_board_reads[OF ok] obtain df_helf_input where
    helf: "read_helf_sheet w (helf_input_file cfg) (subsys_sheet cfg) = Inr df_helf_input"
    by blast
  note r = process_board_rows[OF ok err helf]
  have "out_rows df_final ! i =
          make_out_row (pgName cfg) (py_upper (py_split 95 (board_fold_name b) ! 1))
            (fst (get_vp_prefix (pgName cfg))) (boardId b) (board_fold_name b)
            (err_rows df_err_rpt ! i)
            (offsets (map e_byte (err_rows df_err_rpt)) ! i)
            (offsets (map e_bit (err_rows df_err_rpt)) ! i)"
    using r(2)[OF i] missing by (simp add: Let_def)
  then show ?thesis
    using i r(1) missing by (simp add: make_out_row_def astype_str_def asc_def)
qed

theorem missing_description_gives_nan_witness:
  "fst (process_board ex_world ex_cfg ex_board)
     = Inr (projr (fst (process_board ex_world ex_cfg ex_board)))
   \<and> e_desc_en (err_rows ex_sheet ! 1) = None
   \<and> o_desc_en (out_rows (projr (fst (process_board ex_world ex_cfg ex_board))) ! 1) = asc ''nan''
   \<and> o_code (out_rows (projr (fst (process_board ex_world ex_cfg ex_board))) ! 1) = []"
proof -
  have i: "1 < length (err_rows ex_sheet)" by (simp add: ex_sheet_def)
  have m: "e_desc_en (err_rows ex_sheet ! 1) = None" by (simp add: ex_sheet_def ex_row2_def)
  from missing_description_gives_nan[OF ex_board_final ex_read_err i m] ex_board_final m
  show ?thesis by blast
qed

section \<open>Descriptions that normalize to the empty string (claim C9)\<close>

text \<open>
  Claim C9. When the English description of a record is present and normalizes to the
  empty string and the lookup table is not empty, the matcher gives the record the fault
  code of the first lookup entry and counts a success: the step of the loop stores that
  code, adds one to the count of matches, leaves the count of failures, and logs the
  match; in a processed board the record carries that code.
\<close>

theorem empty_description_takes_first_code:
  assumes empty: "normalize_text d = []"
    and nonempty: "df_helf_input \<noteq> []"
  shows "match_step (build_mappings df_helf_input []) board st (idx, Some d)
           = st\<lparr> ms_rows := set_code (ms_rows st) idx (astype_str (snd (hd df_helf_input))),
                 matched_count := matched_count st + 1,
                 ms_events := ms_events st
                    @ [Log INFO (MsgMatchOK board d (astype_str (snd (hd df_helf_input))))] \<rparr>
       \<and> (fst (process_board w cfg b) = Inr df_final
            \<and> read_err_sheet w (path_join w (fold_path b) (errEntries_file_name b))
                (errEntries_file_sheet b) = Inr df_err_rpt
            \<and> read_helf_sheet w (helf_input_file cfg) (subsys_sheet cfg) = Inr df_helf_input
            \<and> i < length (err_rows df_err_rpt)
            \<and> e_desc_en (err_rows df_err_rpt ! i) = Some d
          \<longrightarrow> o_code (out_rows df_final ! i) = astype_str (snd (hd df_helf_input)))"
proof -
  from nonempty obtain e c rest where h: "df_helf_input = (e, c) # rest"
    by (cases df_helf_input) auto
  have fm: "find_match (normalize_text d) (build_mappings df_helf_input [])
              = Some (astype_str (snd (hd df_helf_input)))"
    by (simp add: h build_mappings_map empty py_in_Nil)
  have step: "match_step (build_mappings df_helf_input []) board st (idx, Some d)
           = st\<lparr> ms_rows := set_code (ms_rows st) idx (astype_str (snd (hd df_helf_input))),
                 matched_count := matched_count st + 1,
                 ms_events := ms_events st
                    @ [Log INFO (MsgMatchOK board d (astype_str (snd (hd df_helf_input))))] \<rparr>"
    by (simp add: match_step_def fm)
  have row: "o_code (out_rows df_final ! i) = astype_str (snd (hd df_helf_input))"
    if ok: "fst (process_board w cfg b) = Inr df_final"
      and err: "read_err_sheet w (path_join w (fold_path b) (errEntries_file_name b))
                (errEntries_file_sheet b) = Inr df_err_rpt"
      and helf: "read_helf_sheet w (helf_input_file cfg) (subsys_sheet cfg) = Inr df_helf_input"
      and i: "i < length (err_rows df_err_rpt)"
      and d: "e_desc_en (err_rows df_err_rpt ! i) = Some d"
    using process_board_rows(2)[OF ok err helf i] d fm by (simp add: Let_def)
  from step row show ?thesis by blast
qed

theorem empty_description_takes_first_code_witness:
  "normalize_text (asc ''!!!'') = [] \<and> ex_helf \<noteq> []
   \<and> e_desc_en (err_rows ex_sheet ! 2) = Some (asc ''!!!'')
   \<and> fst (process_board ex_world ex_cfg ex_board)
       = Inr (projr (fst (process_board ex_world ex_cfg ex_board)))
   \<and> o_code (out_rows (projr (fst (process_board ex_world ex_cfg ex_board))) ! 2) = asc ''E1''"
proof -
  have e: "normalize_text (asc ''!!!'') = []" by (rule normalize_bangs)
  have n: "ex_helf \<noteq> []" by (simp add: ex_helf_def)
  have i: "2 < length (err_rows ex_sheet)" by (simp add: ex_sheet_def)
  have d: "e_desc_en (err_rows ex_sheet ! 2) = Some (asc ''!!!'')"
    by (simp add: ex_sheet_def ex_row3_def)
  have c: "astype_str (snd (hd ex_helf)) = asc ''E1''" by (simp add: ex_helf_def astype_str_def)
  from empty_description_takes_first_code[OF e n, of _ _ _ ex_world ex_cfg ex_board
      "projr (fst (process_board ex_world ex_cfg ex_board))" ex_sheet 2]
    ex_board_final ex_read_err ex_read_helf_cfg i d
  have "o_code (out_rows (projr (fst (process_board ex_world ex_cfg ex_board))) ! 2)
          = astype_str (snd (hd ex_helf))" by blast
  with e n d c ex_board_final show ?thesis by simp
qed

section \<open>Exact matches (claim C3)\<close>

text \<open>
  Claim C3 as stated fails: the scan stops at the first entry that contains the
  normalized description, which need not be the entry that is equal to it. In the small
  run the description \<open>Over Voltage!\<close> normalizes to \<open>over voltage\<close>, the normalized
  description of the second lookup entry, whose code is \<open>E2\<close>; the matcher assigns \<open>E1\<close>,
  the code of the first entry \<open>over voltage fault\<close>.
\<close>

theorem exact_match_counterexample:
  "e_desc_en (err_rows ex_sheet ! 0) = Some (asc ''Over Voltage!'')
   \<and> build_mappings ex_helf [] ! 1 = (normalize_text (asc ''Over Voltage!''), asc ''E2'')
   \<and> \<not> isl (fst (process_board ex_world ex_cfg ex_board))
   \<and> o_code (out_rows (projr (fst (process_board ex_world ex_cfg ex_board))) ! 0) = asc ''E1''
   \<and> asc ''E1'' \<noteq> asc ''E2''"
proof -
  have d: "e_desc_en (err_rows ex_sheet ! 0) = Some (asc ''Over Voltage!'')"
    by (simp add: ex_sheet_def ex_row1_def)
  have n: "normalize_text (asc ''Over Voltage!'') = asc ''over voltage''"
    by (rule normalize_over_voltage)
  have fm: "find_match (asc ''over voltage'') (build_mappings ex_helf []) = Some (asc ''E1'')"
    unfolding ex_mappings by (simp add: asc_def)
  have i: "0 < length (err_rows ex_sheet)" by (simp add: ex_sheet_def)
  have "o_code (out_rows (projr (fst (process_board ex_world ex_cfg ex_board))) ! 0) = asc ''E1''"
    using process_board_rows(2)[OF ex_board_final ex_read_err ex_read_helf_cfg i] d n fm
    by (simp add: Let_def)
  moreover have "asc ''E1'' \<noteq> asc ''E2''" by (simp add: asc_def)
  ultimately show ?thesis using d n ex_board_ok by (simp add: ex_mappings)
qed

text \<open>
  Claim C3, amended. When the normalized English description of a record equals the
  normalized description of the lookup entry \<open>L\<close>, the matcher assigns to the record the
  fault code of the first lookup entry, in the order of the table, whose normalized
  description contains the normalized description of the record; that entry is \<open>L\<close> or
  stands before \<open>L\<close>, and its code is the code of \<open>L\<close> when no entry before \<open>L\<close> contains the
  normalized description.
\<close>

theorem exact_match_first_wins:
  assumes ok: "fst (process_board w cfg b) = Inr df_final"
    and err: "read_err_sheet w (path_join w (fold_path b) (errEntries_file_name b))
                (errEntries_file_sheet b) = Inr df_err_rpt"
    and helf: "read_helf_sheet w (helf_input_file cfg) (subsys_sheet cfg) = Inr df_helf_input"
    and i: "i < length (err_rows df_err_rpt)"
    and d: "e_desc_en (err_rows df_err_rpt ! i) = Some d"
    and k: "k < length (build_mappings df_helf_input [])"
    and eq: "normalize_text d = fst (build_mappings df_helf_input [] ! k)"
  shows "(\<exists>j\<le>k. o_code (out_rows df_final ! i) = snd (build_mappings df_helf_input [] ! j)
            \<and> py_in (normalize_text d) (fst (build_mappings df_helf_input [] ! j))
            \<and> (\<forall>j'<j. \<not> py_in (normalize_text d) (fst (build_mappings df_helf_input [] ! j'))))
       \<and> ((\<forall>j<k. \<not> py_in (normalize_text d) (fst (build_mappings df_helf_input [] ! j)))
            \<longrightarrow> o_code (out_rows df_final ! i) = snd (build_mappings df_helf_input [] ! k))"
proof -
  let ?maps = "build_mappings df_helf_input []"
  let ?q = "normalize_text d"
  have kin: "py_in ?q (fst (?maps ! k))" by (simp add: eq py_in_refl)
  have "?maps ! k \<in> set ?maps" using k by simp
  from find_match_exists[OF this kin] obtain c where c: "find_match ?q ?maps = Some c" by blast
  from find_match_first[OF c] obtain j where j: "j < length ?maps" "c = snd (?maps ! j)"
    "py_in ?q (fst (?maps ! j))" "\<forall>j'<j. \<not> py_in ?q (fst (?maps ! j'))" by blast
  have jk: "j \<le> k" using j(4) kin by (meson not_le_imp_less)
  have code: "o_code (out_rows df_final ! i) = c"
    using process_board_rows(2)[OF ok err helf i] d c by (simp add: Let_def)
  have first: "\<exists>j\<le>k. o_code (out_rows df_final ! i) = snd (?maps ! j)
            \<and> py_in ?q (fst (?maps ! j)) \<and> (\<forall>j'<j. \<not> py_in ?q (fst (?maps ! j')))"
    using j jk code by blast
  have "o_code (out_rows df_final ! i) = snd (?maps ! k)"
    if "\<forall>j<k. \<not> py_in ?q (fst (?maps ! j))"
  proof -
    have "\<not> j < k" using that j(3) by blast
    with jk have "j = k" by simp
    with code j(2) show ?thesis by simp
  qed
  with first show ?thesis by blast
qed

theorem exact_match_first_wins_witness:
  "fst (process_board ex_world ex_cfg ex_board)
     = Inr (projr (fst (process_board ex_world ex_cfg ex_board)))
   \<and> e_desc_en (err_rows ex_sheet ! 0) = Some (asc ''Over Voltage!'')
   \<and> normalize_text (asc ''Over Voltage!'') = fst (build_mappings ex_helf [] ! 1)
   \<and> (\<exists>j\<le>1. o_code (out_rows (projr (fst (process_board ex_world ex_cfg ex_board))) ! 0)
               = snd (build_mappings ex_helf [] ! j)
             \<and> py_in (normalize_text (asc ''Over Voltage!'')) (fst (build_mappings ex_helf [] ! j)))"
proof -
  have d: "e_desc_en (err_rows ex_sheet ! 0) = Some (asc ''Over Voltage!'')"
    by (simp add: ex_sheet_def ex_row1_def)
  have n: "normalize_text (asc ''Over Voltage!'') = asc ''over voltage''"
    by (rule normalize_over_voltage)
  have eq: "normalize_text (asc ''Over Voltage!'') = fst (build_mappings ex_helf [] ! 1)"
    by (simp add: n ex_mappings)
  have i: "0 < length (err_rows ex_sheet)" by (simp add: ex_sheet_def)
  have k: "1 < length (build_mappings ex_helf [])" by (simp add: ex_mappings)
  from exact_match_first_wins[OF ex_board_final ex_read_err ex_read_helf_cfg i d k eq]
    ex_board_final d eq
  show ?thesis by blast
qed

section \<open>Properties of the aggregator\<close>


lemma boards_loop_results:
  "fst (boards_loop w cfg i bs (res, tot, ev)) = res @ succeeded w cfg bs"
proof (induction bs arbitrary: i res tot ev)
  case Nil
  then show ?case by (simp add: succeeded_def)
next
  case (Cons b bs)
  obtain r ev1 where pb: "process_board w cfg b = (r, ev1)" by (cases "process_board w cfg b")
  show ?case
  proof (cases r)
    case (Inl e)
    with pb Cons.IH show ?thesis by (simp add: succeeded_def Let_def)
  next
    case (Inr df)
    with pb Cons.IH show ?thesis by (simp add: succeeded_def Let_def)
  qed
qed

lemma boards_loop_keeps_events:
  "x \<in> set ev \<Longrightarrow> x \<in> set (snd (snd (boards_loop w cfg i bs (res, tot, ev))))"
proof (induction bs arbitrary: i res tot ev)
  case Nil
  then show ?case by simp
next
  case (Cons b bs)
  obtain r ev1 where pb: "process_board w cfg b = (r, ev1)" by (cases "process_board w cfg b")
  show ?case
  proof (cases r)
    case (Inl e)
    with pb Cons.prems show ?thesis by (auto simp: Let_def intro!: Cons.IH)
  next
    case (Inr df)
    with pb Cons.prems show ?thesis by (auto simp: Let_def intro!: Cons.IH)
  qed
qed

lemma boards_loop_announces:
  "k < length bs \<Longrightarrow>
     Log INFO (MsgBoardNo (i + k + 1) (board_fold_name (bs ! k)))
       \<in> set (snd (snd (boards_loop w cfg i bs (res, tot, ev))))"
proof (induction bs arbitrary: i k res tot ev)
  case Nil
  then show ?case by simp
next
  case (Cons b bs)
  obtain r ev1 where pb: "process_board w cfg b = (r, ev1)" by (cases "process_board w cfg b")
  show ?case
  proof (cases k)
    case 0
    show ?thesis
    proof (cases r)
      case (Inl e)
      with pb 0 show ?thesis by (auto simp: Let_def intro!: boards_loop_keeps_events)
    next
      case (Inr df)
      with pb 0 show ?thesis by (auto simp: Let_def intro!: boards_loop_keeps_events)
    qed
  next
    case (Suc k')
    with Cons.prems have k': "k' < length bs" by simp
    have ih: "\<And>res tot ev. Log INFO (MsgBoardNo (Suc i + k' + 1) (board_fold_name (bs ! k')))
       \<in> set (snd (snd (boards_loop w cfg (Suc i) bs (res, tot, ev))))"
      by (rule Cons.IH[OF k'])
    show ?thesis
    proof (cases r)
      case (Inl e)
      with pb Suc ih show ?thesis by (simp add: Let_def)
    next
      case (Inr df)
      with pb Suc ih show ?thesis by (simp add: Let_def)
    qed
  qed
qed

lemma boards_loop_logs_errors:
  "b \<in> set bs \<Longrightarrow> fst (process_board w cfg b) = Inl e \<Longrightarrow>
     Log ERROR (MsgBoardError (board_fold_name b) e)
       \<in> set (snd (snd (boards_loop w cfg i bs (res, tot, ev))))"
proof (induction bs arbitrary: i res tot ev)
  case Nil
  then show ?case by simp
next
  case (Cons a bs)
  obtain r ev1 where pb: "process_board w cfg a = (r, ev1)" by (cases "process_board w cfg a")
  show ?case
  proof (cases "b = a")
    case True
    with Cons.prems pb have r: "r = Inl e" by simp
    with pb True show ?thesis by (auto simp: Let_def intro!: boards_loop_keeps_events)
  next
    case False
    with Cons.prems have b: "b \<in> set bs" by simp
    have ih: "\<And>i res tot ev. Log ERROR (MsgBoardError (board_fold_name b) e)
       \<in> set (snd (snd (boards_loop w cfg i bs (res, tot, ev))))"
      by (rule Cons.IH[OF b Cons.prems(2)])
    show ?thesis
    proof (cases r)
      case (Inl e')
      with pb ih show ?thesis by (simp add: Let_def)
    next
      case (Inr df)
      with pb ih show ?thesis by (simp add: Let_def)
    qed
  qed
qed

lemma process_all_boards_fst:
  "fst (process_all_boards w cfg) =
     (if succeeded w cfg (paraInfoList cfg) = [] then Inl (SystemExit 1)
      else Inr (pd_concat (succeeded w cfg (paraInfoList cfg))))"
proof -
  let ?ev0 = "[Print (MsgRule 60), Print (MsgPG (pgName cfg)),
               Print (MsgBoardCount (length (paraInfoList cfg))), Print (MsgRule 60),
               Log INFO (MsgPG (pgName cfg)),
               Log INFO (MsgBoardCount (length (paraInfoList cfg)))]"
  obtain res tot ev where l: "boards_loop w cfg 0 (paraInfoList cfg) ([], 0, ?ev0) = (res, tot, ev)"
    by (cases "boards_loop w cfg 0 (paraInfoList cfg) ([], 0, ?ev0)") auto
  have "res = succeeded w cfg (paraInfoList cfg)"
    using boards_loop_results[of w cfg 0 "paraInfoList cfg" "[]" 0 ?ev0] l by simp
  with l show ?thesis by (simp add: process_all_boards_def Let_def)
qed

lemma process_all_boards_events:
  "set (snd (snd (boards_loop w cfg 0 (paraInfoList cfg) ([], 0,
         [Print (MsgRule 60), Print (MsgPG (pgName cfg)),
          Print (MsgBoardCount (length (paraInfoList cfg))), Print (MsgRule 60),
          Log INFO (MsgPG (pgName cfg)),
          Log INFO (MsgBoardCount (length (paraInfoList cfg)))]))))
     \<subseteq> set (snd (process_all_boards w cfg))"
  by (auto simp: process_all_boards_def Let_def split: prod.splits)

lemma succeeded_mem:
  "df \<in> set (succeeded w cfg bs) = (\<exists>b\<in>set bs. fst (process_board w cfg b) = Inr df)"
  by (induction bs) (auto simp: succeeded_def split: sum.splits)

lemma out_rows_pd_concat: "out_rows (pd_concat frames) = concat (map out_rows frames)"
  by (simp add: pd_concat_def)

lemma ex_bad_board_fails: "fst (process_board ex_world ex_cfg ex_bad_board) = Inl FileNotFoundError"
  by (simp add: process_board_fst ex_world_def ex_bad_board_def asc_def)

lemma ex_succeeded:
  "succeeded ex_world ex_cfg (paraInfoList ex_cfg)
     = [projr (fst (process_board ex_world ex_cfg ex_board))]"
proof -
  have l: "paraInfoList ex_cfg = [ex_bad_board, ex_board]" by (simp add: ex_cfg_def)
  obtain df where df: "fst (process_board ex_world ex_cfg ex_board) = Inr df"
    using ex_board_final by blast
  show ?thesis by (simp add: l succeeded_def ex_bad_board_fails df)
qed

section \<open>Isolation of failing boards (claim C6)\<close>

text \<open>
  Claim C6. A board whose processing raises, whatever the exception, is caught by the
  loop: the error is printed and logged at level ERROR, the board is skipped, and every
  board of the list is still taken up (its number and name are logged). The merged frame
  is the concatenation of the frames of exactly the boards that completed, in their
  order, so its rows are rows of those boards only; when no board completes the run ends
  with exit code 1.
\<close>

theorem failed_boards_are_skipped:
  "fst (process_all_boards w cfg)
     = (if succeeded w cfg (paraInfoList cfg) = [] then Inl (SystemExit 1)
        else Inr (pd_concat (succeeded w cfg (paraInfoList cfg))))
   \<and> out_rows (pd_concat (succeeded w cfg (paraInfoList cfg)))
       = concat (map out_rows (succeeded w cfg (paraInfoList cfg)))
   \<and> (\<forall>df. df \<in> set (succeeded w cfg (paraInfoList cfg))
         \<longleftrightarrow> (\<exists>b\<in>set (paraInfoList cfg). fst (process_board w cfg b) = Inr df))
   \<and> (\<forall>b\<in>set (paraInfoList cfg). \<forall>e. fst (process_board w cfg b) = Inl e
         \<longrightarrow> Log ERROR (MsgBoardError (board_fold_name b) e)
               \<in> set (snd (process_all_boards w cfg)))
   \<and> (\<forall>k<length (paraInfoList cfg).
         Log INFO (MsgBoardNo (k + 1) (board_fold_name (paraInfoList cfg ! k)))
           \<in> set (snd (process_all_boards w cfg)))"
proof -
  let ?ev0 = "[Print (MsgRule 60), Print (MsgPG (pgName cfg)),
               Print (MsgBoardCount (length (paraInfoList cfg))), Print (MsgRule 60),
               Log INFO (MsgPG (pgName cfg)),
               Log INFO (MsgBoardCount (length (paraInfoList cfg)))]"
  have err: "Log ERROR (MsgBoardError (board_fold_name b) e) \<in> set (snd (process_all_boards w cfg))"
    if "b \<in> set (paraInfoList cfg)" "fst (process_board w cfg b) = Inl e" for b e
    using boards_loop_logs_errors[OF that, of 0 "[]" 0 ?ev0] process_all_boards_events[of w cfg]
    by blast
  have ann: "Log INFO (MsgBoardNo (k + 1) (board_fold_name (paraInfoList cfg ! k)))
           \<in> set (snd (process_all_boards w cfg))"
    if "k < length (paraInfoList cfg)" for k
    using boards_loop_announces[OF that, of 0 w cfg "[]" 0 ?ev0] process_all_boards_events[of w cfg]
    by auto
  show ?thesis
    using err ann by (simp add: process_all_boards_fst out_rows_pd_concat succeeded_mem)
qed

theorem failed_boards_are_skipped_witness:
  "paraInfoList ex_cfg = [ex_bad_board, ex_board]
   \<and> fst (process_board ex_world ex_cfg ex_bad_board) = Inl FileNotFoundError
   \<and> fst (process_all_boards ex_world ex_cfg)
       = Inr (pd_concat [projr (fst (process_board ex_world ex_cfg ex_board))])
   \<and> Log ERROR (MsgBoardError (board_fold_name ex_bad_board) FileNotFoundError)
       \<in> set (snd (process_all_boards ex_world ex_cfg))
   \<and> Log INFO (MsgBoardNo 2 (board_fold_name ex_board))
       \<in> set (snd (process_all_boards ex_world ex_cfg))"
proof -
  have l: "paraInfoList ex_cfg = [ex_bad_board, ex_board]" by (simp add: ex_cfg_def)
  note t = failed_boards_are_skipped[of ex_world ex_cfg]
  have 1: "fst (process_all_boards ex_world ex_cfg)
       = Inr (pd_concat [projr (fst (process_board ex_world ex_cfg ex_board))])"
    using t by (simp add: ex_succeeded)
  have 2: "Log ERROR (MsgBoardError (board_fold_name ex_bad_board) FileNotFoundError)
       \<in> set (snd (process_all_boards ex_world ex_cfg))"
    using t ex_bad_board_fails l by simp
  have "Log INFO (MsgBoardNo (1 + 1) (board_fold_name (paraInfoList ex_cfg ! 1)))
       \<in> set (snd (process_all_boards ex_world ex_cfg))"
    using t l by (metis One_nat_def length_Cons lessI list.size(3))
  then have 3: "Log INFO (MsgBoardNo 2 (board_fold_name ex_board))
       \<in> set (snd (process_all_boards ex_world ex_cfg))"
    by (simp add: l numeral_2_eq_2)
  from l ex_bad_board_fails 1 2 3 show ?thesis by blast
qed

section \<open>Where fault codes come from (claim C2)\<close>

lemma process_board_codes:
  assumes helf: "read_helf_sheet w (helf_input_file cfg) (subsys_sheet cfg) = Inr df_helf_input"
    and ok: "fst (process_board w cfg b) = Inr df_final"
    and r: "r \<in> set (out_rows df_final)"
  shows "o_code r = [] \<or> o_code r \<in> snd ` set (build_mappings df_helf_input [])"
proof -
  from ok obtain df_err_rpt where
    err: "read_err_sheet w (path_join w (fold_path b) (errEntries_file_name b))
                (errEntries_file_sheet b) = Inr df_err_rpt"
    by (auto simp: process_board_fst split: sum.splits)
  note p = process_board_rows[OF ok err helf]
  from r obtain i where i: "i < length (err_rows df_err_rpt)" "r = out_rows df_final ! i"
    by (auto simp: in_set_conv_nth p(1))
  show ?thesis
    using p(2)[OF i(1)] i(2) find_match_Some_mem
    by (auto simp: Let_def make_out_row_def split: option.splits)
qed

text \<open>
  Claim C2. After the matcher has run on a board, the fault code of each of its output
  records is the empty string or the code of an entry of the lookup table built for the
  board, copied as it is; this holds for the frame of the board, for the merged frame and
  for the records written to the file.
\<close>

theorem fault_codes_come_from_lookup:
  assumes helf: "read_helf_sheet w (helf_input_file cfg) (subsys_sheet cfg) = Inr df_helf_input"
  shows "(fst (process_board w cfg b) = Inr df_final
            \<longrightarrow> (\<forall>r\<in>set (out_rows df_final).
                   o_code r = [] \<or> o_code r \<in> snd ` set (build_mappings df_helf_input [])))
       \<and> (fst (process_all_boards w cfg) = Inr final_df
            \<longrightarrow> (\<forall>r\<in>set (out_rows final_df).
                   o_code r = [] \<or> o_code r \<in> snd ` set (build_mappings df_helf_input [])))
       \<and> (fst (main w cfg) = Written f
            \<longrightarrow> (\<forall>r\<in>set (csv_records f).
                   o_code r = [] \<or> o_code r \<in> snd ` set (build_mappings df_helf_input [])))"
proof -
  let ?P = "\<lambda>r. o_code r = [] \<or> o_code r \<in> snd ` set (build_mappings df_helf_input [])"
  have all: "\<forall>r\<in>set (out_rows final_df). ?P r"
    if "fst (process_all_boards w cfg) = Inr final_df" for final_df
  proof
    fix r assume r: "r \<in> set (out_rows final_df)"
    from that have "final_df = pd_concat (succeeded w cfg (paraInfoList cfg))"
      by (simp add: process_all_boards_fst split: if_splits)
    with r obtain df where "df \<in> set (succeeded w cfg (paraInfoList cfg))" "r \<in> set (out_rows df)"
      by (auto simp: out_rows_pd_concat)
    then obtain b where "fst (process_board w cfg b) = Inr df" "r \<in> set (out_rows df)"
      by (auto simp: succeeded_mem)
    then show "?P r" using process_board_codes[OF helf] by blast
  qed
  have written: "\<forall>r\<in>set (csv_records f). ?P r" if "fst (main w cfg) = Written f"
  proof -
    from that obtain final_df where "fst (process_all_boards w cfg) = Inr final_df"
      "csv_records f = out_rows final_df"
      by (auto simp: main_def save_results_def Let_def split: prod.splits sum.splits if_splits)
    with all show ?thesis by simp
  qed
  show ?thesis using process_board_codes[OF helf] all written by blast
qed

lemma ex_rows_length:
  "length (out_rows (projr (fst (process_board ex_world ex_cfg ex_board)))) = 3"
  using process_board_rows(1)[OF ex_board_final ex_read_err ex_read_helf_cfg]
  by (simp add: ex_sheet_def)

lemma ex_row0_code:
  "o_code (out_rows (projr (fst (process_board ex_world ex_cfg ex_board))) ! 0) = asc ''E1''"
proof -
  have d: "e_desc_en (err_rows ex_sheet ! 0) = Some (asc ''Over Voltage!'')"
    by (simp add: ex_sheet_def ex_row1_def)
  have n: "normalize_text (asc ''Over Voltage!'') = asc ''over voltage''"
    by (rule normalize_over_voltage)
  have fm: "find_match (asc ''over voltage'') (build_mappings ex_helf []) = Some (asc ''E1'')"
    unfolding ex_mappings by (simp add: asc_def)
  have i: "0 < length (err_rows ex_sheet)" by (simp add: ex_sheet_def)
  show ?thesis
    using process_board_rows(2)[OF ex_board_final ex_read_err ex_read_helf_cfg i] d n fm
    by (simp add: Let_def)
qed

theorem fault_codes_come_from_lookup_witness:
  "read_helf_sheet ex_world (helf_input_file ex_cfg) (subsys_sheet ex_cfg) = Inr ex_helf
   \<and> fst (process_board ex_world ex_cfg ex_board)
       = Inr (projr (fst (process_board ex_world ex_cfg ex_board)))
   \<and> fst (process_all_boards ex_world ex_cfg)
       = Inr (pd_concat [projr (fst (process_board ex_world ex_cfg ex_board))])
   \<and> out_rows (projr (fst (process_board ex_world ex_cfg ex_board))) ! 0
       \<in> set (out_rows (pd_concat [projr (fst (process_board ex_world ex_cfg ex_board))]))
   \<and> o_code (out_rows (projr (fst (process_board ex_world ex_cfg ex_board))) ! 0) = asc ''E1''
   \<and> asc ''E1'' \<in> snd ` set (build_mappings ex_helf [])"
proof -
  let ?df = "projr (fst (process_board ex_world ex_cfg ex_board))"
  have a: "fst (process_all_boards ex_world ex_cfg) = Inr (pd_concat [?df])"
    by (simp add: process_all_boards_fst ex_succeeded)
  have m: "out_rows ?df ! 0 \<in> set (out_rows (pd_concat [?df]))"
    using ex_rows_length by (simp add: out_rows_pd_concat nth_mem)
  have ne: "asc ''E1'' \<noteq> []" by (simp add: asc_def)
  from fault_codes_come_from_lookup[OF ex_read_helf_cfg, of ex_board ?df "pd_concat [?df]"]
    a m
  have "o_code (out_rows ?df ! 0) = []
          \<or> o_code (out_rows ?df ! 0) \<in> snd ` set (build_mappings ex_helf [])"
    by blast
  with ne have "asc ''E1'' \<in> snd ` set (build_mappings ex_helf [])"
    by (simp add: ex_row0_code)
  with ex_read_helf_cfg ex_board_final a m ex_row0_code show ?thesis by blast
qed

section \<open>Printing integers\<close>









section \<open>Offsets in the address expression (claim C8)\<close>


lemma ex_vp: "get_vp_prefix (asc ''WS'') = (asc ''wsetc.WsetcVarpool.'', [])"
  by (simp add: get_vp_prefix_def simulator_vp_prefix_dict_def asc_def)



section \<open>The written file of the small run\<close>


lemma ex_nine_columns:
  "foldl add_col [col_member, col_component, col_component_no]
     [ident_col (asc ''WS'') (asc ''AB''), addr_col (asc ''wsetc.WsetcVarpool.''),
      col_desc, col_desc_en, col_code, col_board]
   = [col_member, col_component, col_component_no, ident_col (asc ''WS'') (asc ''AB''),
      addr_col (asc ''wsetc.WsetcVarpool.''), col_desc, col_desc_en, col_code, col_board]"
  by (simp add: add_col_def col_member_def col_component_def col_component_no_def ident_col_def
      addr_col_def col_desc_def col_desc_en_def col_code_def col_board_def asc_def)

lemma ex_module: "py_upper (py_split 95 (board_fold_name ex_board) ! 1) = asc ''AB''"
  by (simp add: ex_split py_upper_def to_upper_full_def asc_def)

lemma ex_final_columns:
  "out_columns (projr (fst (process_board ex_world ex_cfg ex_board)))
   = [col_member, col_component, col_component_no, ident_col (asc ''WS'') (asc ''AB''),
      addr_col (asc ''wsetc.WsetcVarpool.''), col_desc, col_desc_en, col_code, col_board]"
proof -
  have pg: "pgName ex_cfg = asc ''WS''" by (simp add: ex_cfg_def)
  show ?thesis
    using process_board_rows(3)[OF ex_board_final ex_read_err ex_read_helf_cfg]
    by (simp only: pg ex_module ex_vp fst_conv ex_nine_columns)
qed

lemma ex_merged_columns:
  "out_columns (pd_concat [projr (fst (process_board ex_world ex_cfg ex_board))])
   = [col_member, col_component, col_component_no, ident_col (asc ''WS'') (asc ''AB''),
      addr_col (asc ''wsetc.WsetcVarpool.''), col_desc, col_desc_en, col_code, col_board]"
  unfolding pd_concat_def
  by (simp add: ex_final_columns)
     (simp add: add_col_def col_member_def col_component_def col_component_no_def ident_col_def
      addr_col_def col_desc_def col_desc_en_def col_code_def col_board_def asc_def)

lemma ex_selected:
  "filter (\<lambda>col. list_ex (\<lambda>pattern. py_in (py_remove 42 pattern) col)
                   (output_cols (asc ''WS'') (asc ''wsetc.WsetcVarpool.'')))
     [col_member, col_component, col_component_no, ident_col (asc ''WS'') (asc ''AB''),
      addr_col (asc ''wsetc.WsetcVarpool.''), col_desc, col_desc_en, col_code, col_board]
   = [addr_col (asc ''wsetc.WsetcVarpool.''), col_desc, col_desc_en, col_code]"
  by (simp add: output_cols_def py_remove_def
      col_member_def col_component_def col_component_no_def ident_col_def
      addr_col_def col_desc_def col_desc_en_def col_code_def col_board_def asc_def)

lemma ex_fromkeys:
  "fromkeys [] ([addr_col (asc ''wsetc.WsetcVarpool.''), col_desc, col_desc_en, col_code]
                  @ [col_desc, col_code, col_desc_en])
   = [addr_col (asc ''wsetc.WsetcVarpool.''), col_desc, col_desc_en, col_code]"
  by (simp add: addr_col_def col_desc_def col_desc_en_def col_code_def asc_def)

lemma ex_absent:
  "filter (\<lambda>c. c \<notin> set [col_member, col_component, col_component_no,
                            ident_col (asc ''WS'') (asc ''AB''),
                            addr_col (asc ''wsetc.WsetcVarpool.''), col_desc, col_desc_en,
                            col_code, col_board])
     [addr_col (asc ''wsetc.WsetcVarpool.''), col_desc, col_desc_en, col_code] = []"
  by simp

lemma ex_header:
  assumes cols: "out_columns df
    = [col_member, col_component, col_component_no, ident_col (asc ''WS'') (asc ''AB''),
       addr_col (asc ''wsetc.WsetcVarpool.''), col_desc, col_desc_en, col_code, col_board]"
  shows "fst (save_results df ex_cfg)
     = Inr \<lparr> csv_header = [addr_col (asc ''wsetc.WsetcVarpool.''), col_desc, col_desc_en,
                            col_code],
             csv_records = out_rows df \<rparr>"
proof -
  have pg: "pgName ex_cfg = asc ''WS''" by (simp add: ex_cfg_def)
  show ?thesis
    unfolding save_results_def Let_def pg ex_vp prod.case cols ex_selected ex_fromkeys ex_absent
    by simp
qed

lemma main_fst:
  "fst (main w cfg) =
     (case fst (process_all_boards w cfg) of
        Inl x \<Rightarrow> Exited x
      | Inr final_df \<Rightarrow>
         (case fst (save_results final_df cfg) of Inl e \<Rightarrow> Raised e | Inr f \<Rightarrow> Written f))"
  by (simp add: main_def split: prod.splits sum.splits)

lemma ex_main:
  "fst (main ex_world ex_cfg)
     = Written \<lparr> csv_header = [addr_col (asc ''wsetc.WsetcVarpool.''), col_desc, col_desc_en,
                                col_code],
                 csv_records = out_rows (projr (fst (process_board ex_world ex_cfg ex_board))) \<rparr>"
  by (simp add: main_fst process_all_boards_fst ex_succeeded ex_header[OF ex_merged_columns]
      out_rows_pd_concat)

section \<open>Success of a board, and warnings in the log\<close>


lemma startswith_append: "startswith (p @ t) p"
  by (simp add: startswith_iff)




















section \<open>Unknown platform names (claim C7)\<close>




section \<open>Columns of the written file (claim C1)\<close>

text \<open>
  Claim C1 says that the written file has the columns generated identifier, generated
  address expression, native description, fault code, English description, in this
  order; the list \<open>output_cols\<close> of \<open>save_results\<close> names them so. The program does not
  write them so. In the small run (platform \<open>WS\<close>, board folder \<open>WS_ab_1\<close>) the merged
  frame has the identifier column, but the file has four columns: address expression,
  native description, English description, fault code. The pattern for the identifier
  column, with its asterisk deleted, occurs in no label with a module code, and the
  order is the order of the columns of the frame, where the English description stands
  before the fault code.
\<close>

theorem written_columns_of_small_run:
  "fst (main ex_world ex_cfg)
     = Written \<lparr> csv_header = [addr_col (asc ''wsetc.WsetcVarpool.''), col_desc, col_desc_en,
                                col_code],
                 csv_records = out_rows (projr (fst (process_board ex_world ex_cfg ex_board))) \<rparr>
   \<and> ident_col (asc ''WS'') (asc ''AB'')
       \<in> set (out_columns (pd_concat [projr (fst (process_board ex_world ex_cfg ex_board))]))
   \<and> [addr_col (asc ''wsetc.WsetcVarpool.''), col_desc, col_desc_en, col_code]
       \<noteq> [ident_col (asc ''WS'') (asc ''AB''), addr_col (asc ''wsetc.WsetcVarpool.''),
           col_desc, col_code, col_desc_en]"
  by (simp add: ex_main ex_merged_columns)

end
